theory Spec2Isabelle
  imports Main "HOL-Library.Sublist"
begin

section \<open>Deployment script of the human-resources application\<close>

text \<open>
  A shallow embedding of \<^verbatim>\<open>ej2_despliegue_rh.py\<close>. The script is a straight line of
  calls to a cloud provider, wrapped in \<^verbatim>\<open>try\<close>/\<^verbatim>\<open>except\<close> blocks. Every effect of the
  script is explicit here:
  \<^item> the provider is a function from its own state and a call to an outcome and a new
    state; the script records every call it makes, with its outcome, in a trace;
  \<^item> every \<^verbatim>\<open>print\<close> appends one element (stream and text) to the output;
  \<^item> a raised exception is the \<open>Inl\<close> branch of the result, so every \<^verbatim>\<open>raise\<close> and
    every \<^verbatim>\<open>sys.exit\<close> is a value;
  \<^item> the local dictionary \<^verbatim>\<open>recursos_creados\<close> of \<^verbatim>\<open>desplegar\<close> is a field of the state.

  Texts are byte strings in UTF-8: the three marks and the accented letters of the
  messages are written as their bytes.
\<close>

subsection \<open>Values and their text\<close>

text \<open>
  A configuration value is a JSON value. Strings and integers are kept as they are; any
  other value (float, boolean, null, array, object) is carried as the text \<^verbatim>\<open>str()\<close>
  gives for it, which is all the script ever does with it besides passing it on.
\<close>

datatype valor = VStr string | VInt int | VOtro string

fun digitos :: "nat \<Rightarrow> string" where
  "digitos n =
     (if n < 10 then [''0123456789'' ! n]
      else digitos (n div 10) @ [''0123456789'' ! (n mod 10)])"

declare digitos.simps [simp del]

definition str_int :: "int \<Rightarrow> string" where
  "str_int i = (if i < 0 then CHR ''-'' # digitos (nat (- i)) else digitos (nat i))"

fun py_str :: "valor \<Rightarrow> string" where
  "py_str (VStr s) = s"
| "py_str (VInt i) = str_int i"
| "py_str (VOtro t) = t"

definition marca_ok :: string where
  "marca_ok = [CHR 0xE2, CHR 0x9C, CHR 0x93]"

definition marca_aviso :: string where
  "marca_aviso = [CHR 0xE2, CHR 0x9A, CHR 0xA0]"

definition marca_error :: string where
  "marca_error = [CHR 0xE2, CHR 0x9C, CHR 0x97]"

subsection \<open>Exceptions\<close>

text \<open>
  \<open>ClientError\<close> carries \<^verbatim>\<open>e.response['Error']['Code']\<close> and \<^verbatim>\<open>str(e)\<close>.
  \<open>Excepcion\<close> is any other subclass of \<^verbatim>\<open>Exception\<close> (KeyError, IndexError, a waiter
  error, an OSError, ...), with its text. \<open>KeyboardInterrupt\<close> and \<open>SystemExit\<close> are not
  subclasses of \<^verbatim>\<open>Exception\<close>.
\<close>

datatype excepcion =
    ClientError string string
  | JSONDecodeError string
  | Excepcion string
  | KeyboardInterrupt
  | SystemExit nat

fun es_Exception :: "excepcion \<Rightarrow> bool" where
  "es_Exception (ClientError c t) = True"
| "es_Exception (JSONDecodeError t) = True"
| "es_Exception (Excepcion t) = True"
| "es_Exception KeyboardInterrupt = False"
| "es_Exception (SystemExit n) = False"

fun str_excepcion :: "excepcion \<Rightarrow> string" where
  "str_excepcion (ClientError c t) = t"
| "str_excepcion (JSONDecodeError t) = t"
| "str_excepcion (Excepcion t) = t"
| "str_excepcion KeyboardInterrupt = []"
| "str_excepcion (SystemExit n) = digitos n"

subsection \<open>Provider calls and responses\<close>

datatype permiso = Permiso string int int "(string \<times> string) list"

record args_instancia =
  ec2_ImageId :: valor
  ec2_MinCount :: int
  ec2_MaxCount :: int
  ec2_InstanceType :: valor
  ec2_SecurityGroupIds :: "string list"
  ec2_IamInstanceProfile :: string
  ec2_UserData :: string
  ec2_Tags :: "(string \<times> valor) list"

record args_db =
  rds_DBInstanceIdentifier :: string
  rds_AllocatedStorage :: valor
  rds_DBInstanceClass :: valor
  rds_Engine :: string
  rds_EngineVersion :: string
  rds_MasterUsername :: string
  rds_MasterUserPassword :: "string option"
  rds_DBName :: string
  rds_PubliclyAccessible :: bool
  rds_BackupRetentionPeriod :: int
  rds_StorageEncrypted :: bool
  rds_KmsKeyId :: string
  rds_VpcSecurityGroupIds :: "string list"
  rds_Tags :: "(string \<times> valor) list"

text \<open>
  One constructor for each provider operation the script uses, with the arguments the
  script passes: \<open>CreateSecurityGroup\<close> has GroupName, Description and the tags of its
  TagSpecifications; \<open>CreateBucket\<close> has Bucket and the LocationConstraint, if one is
  given; \<open>PutBucketEncryption\<close> has Bucket and SSEAlgorithm; \<open>PutBucketVersioning\<close> has
  Bucket and Status; \<open>PutPublicAccessBlock\<close> has Bucket, BlockPublicAcls,
  IgnorePublicAcls, BlockPublicPolicy and RestrictPublicBuckets; \<open>WaitInstanceRunning\<close>
  is the wait of the \<^verbatim>\<open>instance_running\<close> waiter; \<open>Boto3Client\<close> is \<^verbatim>\<open>boto3.client\<close>
  with the service name and \<^verbatim>\<open>region_name\<close>.
\<close>

datatype llamada =
    Boto3Client string valor
  | CreateSecurityGroup string string "(string \<times> valor) list"
  | AuthorizeSecurityGroupIngress string "permiso list"
  | DescribeSecurityGroups "string list"
  | CreateBucket string "valor option"
  | PutBucketEncryption string string
  | PutBucketVersioning string string
  | PutPublicAccessBlock string bool bool bool bool
  | PutBucketTagging string "(string \<times> valor) list"
  | RunInstances args_instancia
  | WaitInstanceRunning "string list"
  | CreateDBInstance args_db

text \<open>
  The parts of a response the script reads: \<^verbatim>\<open>response['GroupId']\<close>, the GroupId of each
  element of \<^verbatim>\<open>response['SecurityGroups']\<close>, the InstanceId of each element of
  \<^verbatim>\<open>response['Instances']\<close>. \<open>RNada\<close> is a response the script reads nothing from.
\<close>

datatype respuesta =
    RGroupId string
  | RSecurityGroups "string list"
  | RInstances "string list"
  | RNada

subsection \<open>The state of a run\<close>

datatype flujo = Stdout | Stderr

type_synonym evento = "llamada \<times> (excepcion + respuesta)"

record 'p mundo =
  nube :: 'p
  llamadas :: "evento list"
  salida :: "(flujo \<times> string) list"
  recursos_creados :: "(string \<times> string) list"

type_synonym 'p proveedor = "'p \<Rightarrow> llamada \<Rightarrow> (excepcion + respuesta) \<times> 'p"

type_synonym ('p, 'a) accion = "'p mundo \<Rightarrow> (excepcion + 'a) \<times> 'p mundo"

definition devolver :: "'a \<Rightarrow> ('p, 'a) accion" where
  "devolver x w = (Inr x, w)"

definition lanzar :: "excepcion \<Rightarrow> ('p, 'a) accion" where
  "lanzar e w = (Inl e, w)"

definition ligar :: "('p, 'a) accion \<Rightarrow> ('a \<Rightarrow> ('p, 'b) accion) \<Rightarrow> ('p, 'b) accion" where
  "ligar m f w = (case m w of (Inl e, w') \<Rightarrow> (Inl e, w') | (Inr x, w') \<Rightarrow> f x w')"

definition imprimir :: "flujo \<Rightarrow> string \<Rightarrow> ('p, unit) accion" where
  "imprimir fl s w = (Inr (), w\<lparr>salida := salida w @ [(fl, s)]\<rparr>)"

definition invocar :: "'p proveedor \<Rightarrow> llamada \<Rightarrow> ('p, respuesta) accion" where
  "invocar prov c w =
     (case prov (nube w) c of
        (r, p') \<Rightarrow> (r, w\<lparr>nube := p', llamadas := llamadas w @ [(c, r)]\<rparr>))"

text \<open>\<^verbatim>\<open>try: m except ClientError as e: h\<close>, the handler given the code and the text.\<close>

definition except_ClientError ::
  "('p, 'a) accion \<Rightarrow> (string \<Rightarrow> string \<Rightarrow> ('p, 'a) accion) \<Rightarrow> ('p, 'a) accion" where
  "except_ClientError m h w =
     (case m w of
        (Inl (ClientError c t), w') \<Rightarrow> h c t w'
      | (r, w') \<Rightarrow> (r, w'))"

text \<open>\<^verbatim>\<open>try: m except Exception as e: h\<close>.\<close>

definition except_Exception ::
  "('p, 'a) accion \<Rightarrow> (excepcion \<Rightarrow> ('p, 'a) accion) \<Rightarrow> ('p, 'a) accion" where
  "except_Exception m h w =
     (case m w of
        (Inl e, w') \<Rightarrow> (if es_Exception e then h e w' else (Inl e, w'))
      | (Inr x, w') \<Rightarrow> (Inr x, w'))"

subsection \<open>Configuration and environment\<close>

type_synonym config = "string \<rightharpoonup> valor"

text \<open>
  What the process finds outside the provider: the environment variables, the files,
  and the clock, \<^verbatim>\<open>int(time.time())\<close>. A path that exists maps to what opening the file,
  \<^verbatim>\<open>json.load\<close> and the update of the defaults come to: the object parsed from the file,
  or the exception raised on the way (\<open>JSONDecodeError\<close> for a file that is not JSON, another
  exception for a file that cannot be read or whose JSON value is not an object).
\<close>

record entorno =
  environ :: "string \<rightharpoonup> string"
  archivos :: "string \<rightharpoonup> (excepcion + config)"
  reloj :: int

text \<open>\<^verbatim>\<open>self.config[k]\<close>: a missing key raises KeyError.\<close>

definition leer :: "config \<Rightarrow> string \<Rightarrow> ('p, valor) accion" where
  "leer cfg k =
     (case cfg k of
        None \<Rightarrow> lanzar (Excepcion (CHR 0x27 # k @ [CHR 0x27]))
      | Some v \<Rightarrow> devolver v)"

definition claves_config :: "string list" where
  "claves_config =
     [''region'', ''ami_id'', ''instance_type'', ''db_instance_class'',
      ''db_allocated_storage'', ''app_name'', ''environment'']"

definition completa :: "config \<Rightarrow> bool" where
  "completa cfg = list_all (\<lambda>k. cfg k \<noteq> None) claves_config"

subsection \<open>_cargar_configuracion\<close>

definition config_default :: config where
  "config_default = map_of
     [(''region'', VStr ''us-east-1''),
      (''ami_id'', VStr ''ami-06b21ccaeff8cd686''),
      (''instance_type'', VStr ''t2.micro''),
      (''db_instance_class'', VStr ''db.t3.micro''),
      (''db_allocated_storage'', VInt 20),
      (''app_name'', VStr ''app-rh-devops''),
      (''environment'', VStr ''production'')]"

text \<open>
  \<^verbatim>\<open>config_file\<close> is \<^verbatim>\<open>args.config\<close>: \<open>None\<close> when the flag is absent. An empty path
  is false in the test of the source, as \<open>None\<close> is.
\<close>

definition cargar_configuracion :: "entorno \<Rightarrow> string option \<Rightarrow> ('p, config) accion" where
  "cargar_configuracion env config_file =
     (case config_file of
        None \<Rightarrow> devolver config_default
      | Some ruta \<Rightarrow>
          (if ruta = [] then devolver config_default
           else case archivos env ruta of
                  None \<Rightarrow> devolver config_default
                | Some (Inr user_config) \<Rightarrow> devolver (config_default ++ user_config)
                | Some (Inl (JSONDecodeError t)) \<Rightarrow>
                    ligar (imprimir Stderr
                      (''Error: Archivo de configuraci'' @ [CHR 0xC3, CHR 0xB3] @ ''n inv''
                       @ [CHR 0xC3, CHR 0xA1] @ ''lido: '' @ t)) (\<lambda>_.
                    lanzar (SystemExit 1))
                | Some (Inl e) \<Rightarrow> lanzar e))"

subsection \<open>_validar_variables_entorno\<close>

definition variables_requeridas :: "(string \<times> string) list" where
  "variables_requeridas =
     [(''RDS_ADMIN_PASSWORD'', ''Contrase'' @ [CHR 0xC3, CHR 0xB1] @ ''a del administrador de RDS''),
      (''AWS_ACCESS_KEY_ID'', ''AWS Access Key ID''),
      (''AWS_SECRET_ACCESS_KEY'', ''AWS Secret Access Key'')]"

text \<open>\<^verbatim>\<open>not os.environ.get(var)\<close>: the variable is unset, or set to the empty string.\<close>

definition falta :: "entorno \<Rightarrow> string \<Rightarrow> bool" where
  "falta env var = (case environ env var of None \<Rightarrow> True | Some v \<Rightarrow> v = [])"

fun recoger_faltantes :: "entorno \<Rightarrow> (string \<times> string) list \<Rightarrow> string list \<Rightarrow> string list" where
  "recoger_faltantes env [] faltantes = faltantes"
| "recoger_faltantes env ((var, descripcion) # resto) faltantes =
     recoger_faltantes env resto
       (if falta env var then faltantes @ [var @ '' ('' @ descripcion @ '')''] else faltantes)"

fun imprimir_lista :: "flujo \<Rightarrow> string list \<Rightarrow> ('p, unit) accion" where
  "imprimir_lista fl [] = devolver ()"
| "imprimir_lista fl (x # xs) = ligar (imprimir fl x) (\<lambda>_. imprimir_lista fl xs)"

definition validar_variables_entorno :: "entorno \<Rightarrow> ('p, unit) accion" where
  "validar_variables_entorno env =
     (let faltantes = recoger_faltantes env variables_requeridas []
      in if faltantes \<noteq> [] then
           ligar (imprimir Stderr
             ''Error: Las siguientes variables de entorno deben estar definidas:'') (\<lambda>_.
           ligar (imprimir_lista Stderr (map (\<lambda>var. ''  - '' @ var) faltantes)) (\<lambda>_.
           ligar (imprimir Stderr (CHR 0x0A # ''Ejemplo:'')) (\<lambda>_.
           ligar (imprimir Stderr
             (''  export RDS_ADMIN_PASSWORD='' @ [CHR 0x27] @ ''tu_password_seguro'' @ [CHR 0x27])) (\<lambda>_.
           lanzar (SystemExit 1)))))
         else devolver ())"

subsection \<open>crear_security_group\<close>

text \<open>\<^verbatim>\<open>response['GroupId']\<close>; a response without the key raises KeyError.\<close>

fun leer_GroupId :: "respuesta \<Rightarrow> ('p, string) accion" where
  "leer_GroupId (RGroupId g) = devolver g"
| "leer_GroupId r = lanzar (Excepcion ([CHR 0x27] @ ''GroupId'' @ [CHR 0x27]))"

text \<open>\<^verbatim>\<open>response['SecurityGroups'][0]['GroupId']\<close>; an empty list raises IndexError.\<close>

fun leer_primer_grupo :: "respuesta \<Rightarrow> ('p, string) accion" where
  "leer_primer_grupo (RSecurityGroups (g # gs)) = devolver g"
| "leer_primer_grupo (RSecurityGroups []) = lanzar (Excepcion ''list index out of range'')"
| "leer_primer_grupo r = lanzar (Excepcion ([CHR 0x27] @ ''SecurityGroups'' @ [CHR 0x27]))"

definition reglas_ingreso :: "permiso list" where
  "reglas_ingreso =
     [Permiso ''tcp'' 443 443 [(''0.0.0.0/0'', ''HTTPS desde internet'')],
      Permiso ''tcp'' 22 22
        [(''0.0.0.0/0'', ''SSH para administraci'' @ [CHR 0xC3, CHR 0xB3] @ ''n'')]]"

definition crear_security_group :: "'p proveedor \<Rightarrow> config \<Rightarrow> ('p, string) accion" where
  "crear_security_group prov cfg =
     ligar (leer cfg ''app_name'') (\<lambda>app_name.
     ligar (leer cfg ''environment'') (\<lambda>ambiente.
     let sg_name = py_str app_name @ ''-sg'';
         description = ''Security Group para aplicaci'' @ [CHR 0xC3, CHR 0xB3]
                       @ ''n de RH - '' @ py_str ambiente
     in
     except_ClientError
       (ligar (leer cfg ''environment'') (\<lambda>ambiente.
        ligar (invocar prov (CreateSecurityGroup sg_name description
                 [(''Name'', VStr sg_name),
                  (''Environment'', ambiente),
                  (''Application'', VStr ''Recursos Humanos'')])) (\<lambda>response.
        ligar (leer_GroupId response) (\<lambda>sg_id.
        ligar (imprimir Stdout (marca_ok @ '' Security Group creado: '' @ sg_id)) (\<lambda>_.
        ligar (invocar prov (AuthorizeSecurityGroupIngress sg_id reglas_ingreso)) (\<lambda>_.
        ligar (imprimir Stdout (marca_ok @ '' Reglas de seguridad configuradas para '' @ sg_id)) (\<lambda>_.
        devolver sg_id)))))))
       (\<lambda>error_code texto.
          if error_code = ''InvalidGroup.Duplicate'' then
            ligar (invocar prov (DescribeSecurityGroups [sg_name])) (\<lambda>response.
            ligar (leer_primer_grupo response) (\<lambda>sg_id.
            ligar (imprimir Stdout (marca_aviso @ '' Security Group ya existe: '' @ sg_id)) (\<lambda>_.
            devolver sg_id)))
          else
            ligar (imprimir Stderr (marca_error @ '' Error creando Security Group: '' @ texto)) (\<lambda>_.
            lanzar (ClientError error_code texto)))))"

subsection \<open>crear_bucket_s3_backup\<close>

text \<open>
  The source reads \<^verbatim>\<open>self.config['region']\<close> once for the test and once more for the
  location constraint; nothing changes the configuration in between, so the value read
  for the test is used for both.
\<close>

definition crear_bucket_s3_backup :: "'p proveedor \<Rightarrow> entorno \<Rightarrow> config \<Rightarrow> ('p, string) accion" where
  "crear_bucket_s3_backup prov env cfg =
     ligar (leer cfg ''app_name'') (\<lambda>app_name.
     let bucket_name = py_str app_name @ ''-backups-'' @ str_int (reloj env)
     in
     ligar (except_ClientError
       (ligar (leer cfg ''region'') (\<lambda>region.
        ligar (if region = VStr ''us-east-1''
               then invocar prov (CreateBucket bucket_name None)
               else invocar prov (CreateBucket bucket_name (Some region))) (\<lambda>_.
        ligar (invocar prov (PutBucketEncryption bucket_name ''AES256'')) (\<lambda>_.
        ligar (invocar prov (PutBucketVersioning bucket_name ''Enabled'')) (\<lambda>_.
        ligar (invocar prov (PutPublicAccessBlock bucket_name True True True True)) (\<lambda>_.
        ligar (leer cfg ''environment'') (\<lambda>ambiente.
        ligar (invocar prov (PutBucketTagging bucket_name
                 [(''Name'', VStr bucket_name),
                  (''Environment'', ambiente),
                  (''Application'', VStr ''Recursos Humanos''),
                  (''Purpose'', VStr ''Backups'')])) (\<lambda>_.
        imprimir Stdout (marca_ok @ '' Bucket S3 creado con encriptaci'' @ [CHR 0xC3, CHR 0xB3]
                         @ ''n: '' @ bucket_name)))))))))
       (\<lambda>error_code texto.
          ligar (imprimir Stderr (marca_error @ '' Error creando bucket S3: '' @ texto)) (\<lambda>_.
          lanzar (ClientError error_code texto))))
     (\<lambda>_. devolver bucket_name))"

subsection \<open>crear_instancia_ec2\<close>

definition user_data :: string where
  \<open>user_data =
      ''#!/bin/bash'' @ [CHR 0x0A] @
      ''# Actualizar sistema'' @ [CHR 0x0A] @
      ''yum update -y'' @ [CHR 0x0A] @
      [CHR 0x0A] @
      ''# Instalar dependencias'' @ [CHR 0x0A] @
      ''yum install -y httpd mysql php php-mysqlnd'' @ [CHR 0x0A] @
      [CHR 0x0A] @
      ''# Configurar HTTPS (requiere certificado SSL)'' @ [CHR 0x0A] @
      ''# En producci'' @ [CHR 0xC3, CHR 0xB3] @ ''n, usar certificados de AWS Certificate Manager'' @ [CHR 0x0A] @
      [CHR 0x0A] @
      ''# Configurar firewall'' @ [CHR 0x0A] @
      ''systemctl start firewalld'' @ [CHR 0x0A] @
      ''systemctl enable firewalld'' @ [CHR 0x0A] @
      ''firewall-cmd --permanent --add-service=https'' @ [CHR 0x0A] @
      ''firewall-cmd --permanent --add-service=http'' @ [CHR 0x0A] @
      ''firewall-cmd --reload'' @ [CHR 0x0A] @
      [CHR 0x0A] @
      ''# Iniciar servicios'' @ [CHR 0x0A] @
      ''systemctl start httpd'' @ [CHR 0x0A] @
      ''systemctl enable httpd'' @ [CHR 0x0A] @
      [CHR 0x0A] @
      ''# Crear p'' @ [CHR 0xC3, CHR 0xA1] @ ''gina de prueba'' @ [CHR 0x0A] @
      ''echo '' @ [CHR 0x22] @ ''<!DOCTYPE html>'' @ [CHR 0x0A] @
      ''<html>'' @ [CHR 0x0A] @
      ''<head>'' @ [CHR 0x0A] @
      ''    <title>Aplicaci'' @ [CHR 0xC3, CHR 0xB3] @ ''n de Recursos Humanos</title>'' @ [CHR 0x0A] @
      ''    <meta charset='' @ [CHR 0x27] @ ''UTF-8'' @ [CHR 0x27] @ ''>'' @ [CHR 0x0A] @
      ''</head>'' @ [CHR 0x0A] @
      ''<body>'' @ [CHR 0x0A] @
      ''    <h1>Aplicaci'' @ [CHR 0xC3, CHR 0xB3] @ ''n de Recursos Humanos - Desplegada</h1>'' @ [CHR 0x0A] @
      ''    <p>Esta aplicaci'' @ [CHR 0xC3, CHR 0xB3] @ ''n maneja informaci'' @ [CHR 0xC3, CHR 0xB3] @ ''n sensible de empleados.</p>'' @ [CHR 0x0A] @
      ''    <p>Medidas de seguridad implementadas:</p>'' @ [CHR 0x0A] @
      ''    <ul>'' @ [CHR 0x0A] @
      ''        <li>Encriptaci'' @ [CHR 0xC3, CHR 0xB3] @ ''n en reposo</li>'' @ [CHR 0x0A] @
      ''        <li>Encriptaci'' @ [CHR 0xC3, CHR 0xB3] @ ''n en tr'' @ [CHR 0xC3, CHR 0xA1] @ ''nsito (HTTPS)</li>'' @ [CHR 0x0A] @
      ''        <li>Security Groups restrictivos</li>'' @ [CHR 0x0A] @
      ''        <li>Backups encriptados en S3</li>'' @ [CHR 0x0A] @
      ''    </ul>'' @ [CHR 0x0A] @
      ''</body>'' @ [CHR 0x0A] @
      ''</html>'' @ [CHR 0x22] @ '' > /var/www/html/index.html'' @ [CHR 0x0A] @
      [CHR 0x0A] @
      ''# Configurar permisos'' @ [CHR 0x0A] @
      ''chmod 644 /var/www/html/index.html'' @ [CHR 0x0A] @
      ''chown apache:apache /var/www/html/index.html'' @ [CHR 0x0A]\<close>

text \<open>\<^verbatim>\<open>response['Instances'][0]['InstanceId']\<close>.\<close>

fun leer_primera_instancia :: "respuesta \<Rightarrow> ('p, string) accion" where
  "leer_primera_instancia (RInstances (i # is)) = devolver i"
| "leer_primera_instancia (RInstances []) = lanzar (Excepcion ''list index out of range'')"
| "leer_primera_instancia r = lanzar (Excepcion ([CHR 0x27] @ ''Instances'' @ [CHR 0x27]))"

definition crear_instancia_ec2 :: "'p proveedor \<Rightarrow> config \<Rightarrow> string \<Rightarrow> ('p, string) accion" where
  "crear_instancia_ec2 prov cfg sg_id =
     except_ClientError
       (ligar (leer cfg ''ami_id'') (\<lambda>ami_id.
        ligar (leer cfg ''instance_type'') (\<lambda>instance_type.
        ligar (leer cfg ''app_name'') (\<lambda>app_name.
        ligar (leer cfg ''environment'') (\<lambda>ambiente.
        ligar (invocar prov (RunInstances
                 \<lparr>ec2_ImageId = ami_id,
                  ec2_MinCount = 1,
                  ec2_MaxCount = 1,
                  ec2_InstanceType = instance_type,
                  ec2_SecurityGroupIds = [sg_id],
                  ec2_IamInstanceProfile = ''LabInstanceProfile'',
                  ec2_UserData = user_data,
                  ec2_Tags = [(''Name'', VStr (py_str app_name @ ''-web'')),
                              (''Environment'', ambiente),
                              (''Application'', VStr ''Recursos Humanos'')]\<rparr>)) (\<lambda>response.
        ligar (leer_primera_instancia response) (\<lambda>instance_id.
        ligar (imprimir Stdout (marca_ok @ '' Instancia EC2 creada: '' @ instance_id)) (\<lambda>_.
        ligar (imprimir Stdout (''Esperando a que la instancia est'' @ [CHR 0xC3, CHR 0xA9]
                                @ '' lista...'')) (\<lambda>_.
        ligar (invocar prov (WaitInstanceRunning [instance_id])) (\<lambda>_.
        ligar (imprimir Stdout (marca_ok @ '' Instancia '' @ instance_id @ '' est''
                                @ [CHR 0xC3, CHR 0xA1] @ '' en estado '' @ [CHR 0x27]
                                @ ''running'' @ [CHR 0x27])) (\<lambda>_.
        devolver instance_id)))))))))))
       (\<lambda>error_code texto.
          ligar (imprimir Stderr (marca_error @ '' Error creando instancia EC2: '' @ texto)) (\<lambda>_.
          lanzar (ClientError error_code texto)))"

subsection \<open>crear_base_datos_rds\<close>

definition crear_base_datos_rds :: "'p proveedor \<Rightarrow> entorno \<Rightarrow> config \<Rightarrow> ('p, string) accion" where
  "crear_base_datos_rds prov env cfg =
     ligar (leer cfg ''app_name'') (\<lambda>app_name.
     let db_instance_id = py_str app_name @ ''-db'';
         db_name = ''rh_database'';
         db_user = ''admin'';
         db_password = environ env ''RDS_ADMIN_PASSWORD''
     in
     ligar (except_ClientError
       (ligar (leer cfg ''db_allocated_storage'') (\<lambda>almacenamiento.
        ligar (leer cfg ''db_instance_class'') (\<lambda>clase.
        ligar (leer cfg ''environment'') (\<lambda>ambiente.
        ligar (invocar prov (CreateDBInstance
                 \<lparr>rds_DBInstanceIdentifier = db_instance_id,
                  rds_AllocatedStorage = almacenamiento,
                  rds_DBInstanceClass = clase,
                  rds_Engine = ''mysql'',
                  rds_EngineVersion = ''8.0'',
                  rds_MasterUsername = db_user,
                  rds_MasterUserPassword = db_password,
                  rds_DBName = db_name,
                  rds_PubliclyAccessible = False,
                  rds_BackupRetentionPeriod = 7,
                  rds_StorageEncrypted = True,
                  rds_KmsKeyId = ''alias/aws/rds'',
                  rds_VpcSecurityGroupIds = [],
                  rds_Tags = [(''Name'', VStr db_instance_id),
                              (''Environment'', ambiente),
                              (''Application'', VStr ''Recursos Humanos''),
                              (''ContainsSensitiveData'', VStr ''true'')]\<rparr>)) (\<lambda>_.
        ligar (imprimir Stdout (marca_ok @ '' Instancia RDS creada: '' @ db_instance_id)) (\<lambda>_.
        ligar (imprimir Stdout (''  - Encriptaci'' @ [CHR 0xC3, CHR 0xB3] @ ''n en reposo: Habilitada'')) (\<lambda>_.
        ligar (imprimir Stdout (''  - Acceso p'' @ [CHR 0xC3, CHR 0xBA] @ ''blico: Deshabilitado'')) (\<lambda>_.
        imprimir Stdout (''  - Retenci'' @ [CHR 0xC3, CHR 0xB3] @ ''n de backups: 7 d'' @ [CHR 0xC3, CHR 0xAD] @ ''as'')))))))))
       (\<lambda>error_code texto.
          if error_code = ''DBInstanceAlreadyExists''
          then imprimir Stdout (marca_aviso @ '' Instancia RDS '' @ db_instance_id @ '' ya existe'')
          else ligar (imprimir Stderr (marca_error @ '' Error creando instancia RDS: '' @ texto)) (\<lambda>_.
               lanzar (ClientError error_code texto))))
     (\<lambda>_. devolver db_instance_id))"

subsection \<open>desplegar\<close>

text \<open>\<^verbatim>\<open>d[k] = v\<close> on a dictionary kept in insertion order.\<close>

fun poner :: "string \<Rightarrow> string \<Rightarrow> (string \<times> string) list \<Rightarrow> (string \<times> string) list" where
  "poner k v [] = [(k, v)]"
| "poner k v ((k', v') # r) = (if k' = k then (k, v) # r else (k', v') # poner k v r)"

definition anotar :: "string \<Rightarrow> string \<Rightarrow> ('p, unit) accion" where
  "anotar k v w = (Inr (), w\<lparr>recursos_creados := poner k v (recursos_creados w)\<rparr>)"

definition vaciar_recursos :: "('p, unit) accion" where
  "vaciar_recursos w = (Inr (), w\<lparr>recursos_creados := []\<rparr>)"

definition imprimir_recursos :: "('p, unit) accion" where
  "imprimir_recursos w =
     imprimir_lista Stdout
       (map (\<lambda>(recurso, valor). ''  - '' @ recurso @ '': '' @ valor) (recursos_creados w)) w"

definition raya :: string where
  "raya = replicate 60 (CHR ''='')"

text \<open>
  The body of the \<^verbatim>\<open>try\<close> block of \<^verbatim>\<open>desplegar\<close>. The eight lines of reminders at its
  end are eight \<^verbatim>\<open>print\<close> calls in the source.
\<close>

definition desplegar_pasos :: "'p proveedor \<Rightarrow> entorno \<Rightarrow> config \<Rightarrow> ('p, unit) accion" where
  "desplegar_pasos prov env cfg =
     ligar (imprimir Stdout (CHR 0x0A # ''[1/4] Creando Security Group...'')) (\<lambda>_.
     ligar (crear_security_group prov cfg) (\<lambda>sg_id.
     ligar (anotar ''security_group'' sg_id) (\<lambda>_.
     ligar (imprimir Stdout (CHR 0x0A # ''[2/4] Creando bucket S3 para backups...'')) (\<lambda>_.
     ligar (crear_bucket_s3_backup prov env cfg) (\<lambda>bucket_name.
     ligar (anotar ''s3_bucket'' bucket_name) (\<lambda>_.
     ligar (imprimir Stdout (CHR 0x0A # ''[3/4] Creando instancia EC2...'')) (\<lambda>_.
     ligar (crear_instancia_ec2 prov cfg sg_id) (\<lambda>instance_id.
     ligar (anotar ''ec2_instance'' instance_id) (\<lambda>_.
     ligar (imprimir Stdout (CHR 0x0A # ''[4/4] Creando base de datos RDS...'')) (\<lambda>_.
     ligar (crear_base_datos_rds prov env cfg) (\<lambda>db_instance_id.
     ligar (anotar ''rds_instance'' db_instance_id) (\<lambda>_.
     ligar (imprimir Stdout (CHR 0x0A # raya)) (\<lambda>_.
     ligar (imprimir Stdout ''DESPLIEGUE COMPLETADO EXITOSAMENTE'') (\<lambda>_.
     ligar (imprimir Stdout raya) (\<lambda>_.
     ligar (imprimir Stdout (CHR 0x0A # ''Recursos creados:'')) (\<lambda>_.
     ligar imprimir_recursos (\<lambda>_.
     imprimir_lista Stdout
       [CHR 0x0A # marca_aviso @ '' IMPORTANTE - MEDIDAS DE SEGURIDAD:'',
        ''  1. Cambiar las contrase'' @ [CHR 0xC3, CHR 0xB1] @ ''as por defecto'',
        ''  2. Configurar certificados SSL para HTTPS'',
        ''  3. Restringir Security Groups a IPs espec'' @ [CHR 0xC3, CHR 0xAD]
          @ ''ficas en producci'' @ [CHR 0xC3, CHR 0xB3] @ ''n'',
        ''  4. Habilitar CloudTrail para auditor'' @ [CHR 0xC3, CHR 0xAD] @ ''a'',
        ''  5. Configurar backups autom'' @ [CHR 0xC3, CHR 0xA1] @ ''ticos'',
        ''  6. Revisar y ajustar pol'' @ [CHR 0xC3, CHR 0xAD] @ ''ticas IAM'',
        ''  7. No subir credenciales al repositorio Git''])))))))))))))))))"

definition desplegar :: "'p proveedor \<Rightarrow> entorno \<Rightarrow> config \<Rightarrow> ('p, unit) accion" where
  "desplegar prov env cfg =
     ligar (imprimir Stdout raya) (\<lambda>_.
     ligar (imprimir Stdout (''INICIANDO DESPLIEGUE DE APLICACI'' @ [CHR 0xC3, CHR 0x93]
                             @ ''N DE RECURSOS HUMANOS'')) (\<lambda>_.
     ligar (imprimir Stdout raya) (\<lambda>_.
     ligar (leer cfg ''region'') (\<lambda>region.
     ligar (imprimir Stdout (''Regi'' @ [CHR 0xC3, CHR 0xB3] @ ''n: '' @ py_str region)) (\<lambda>_.
     ligar (leer cfg ''environment'') (\<lambda>ambiente.
     ligar (imprimir Stdout (''Ambiente: '' @ py_str ambiente)) (\<lambda>_.
     ligar (leer cfg ''app_name'') (\<lambda>app_name.
     ligar (imprimir Stdout (''Aplicaci'' @ [CHR 0xC3, CHR 0xB3] @ ''n: '' @ py_str app_name)) (\<lambda>_.
     ligar (imprimir Stdout raya) (\<lambda>_.
     ligar (imprimir Stdout []) (\<lambda>_.
     ligar vaciar_recursos (\<lambda>_.
     except_Exception (desplegar_pasos prov env cfg)
       (\<lambda>e.
          ligar (imprimir Stderr (CHR 0x0A # marca_error @ '' Error durante el despliegue: ''
                                  @ str_excepcion e)) (\<lambda>_.
          ligar (imprimir Stdout (CHR 0x0A # marca_aviso
                   @ '' Algunos recursos pueden haber sido creados. Revisa la consola de AWS.'')) (\<lambda>_.
          lanzar (SystemExit 1))))))))))))))))"

subsection \<open>main\<close>

text \<open>The constructor of \<^verbatim>\<open>DespliegueRH\<close>; its result is \<^verbatim>\<open>self.config\<close>.\<close>

definition init_DespliegueRH :: "'p proveedor \<Rightarrow> entorno \<Rightarrow> string option \<Rightarrow> ('p, config) accion" where
  "init_DespliegueRH prov env config_file =
     ligar (cargar_configuracion env config_file) (\<lambda>cfg.
     ligar (validar_variables_entorno env) (\<lambda>_.
     ligar (leer cfg ''region'') (\<lambda>region.
     ligar (invocar prov (Boto3Client ''ec2'' region)) (\<lambda>_.
     ligar (invocar prov (Boto3Client ''rds'' region)) (\<lambda>_.
     ligar (invocar prov (Boto3Client ''s3'' region)) (\<lambda>_.
     ligar (invocar prov (Boto3Client ''iam'' region)) (\<lambda>_.
     devolver cfg)))))))"

text \<open>
  The \<^verbatim>\<open>try\<close> block of \<^verbatim>\<open>main\<close>, and \<^verbatim>\<open>main\<close> itself after the arguments are parsed:
  the result is the exit status of the process and the final state.
\<close>

definition ejecutar :: "'p proveedor \<Rightarrow> entorno \<Rightarrow> string option \<Rightarrow> ('p, unit) accion" where
  "ejecutar prov env config_file =
     ligar (init_DespliegueRH prov env config_file) (\<lambda>cfg. desplegar prov env cfg)"

definition main :: "'p proveedor \<Rightarrow> entorno \<Rightarrow> string option \<Rightarrow> 'p mundo \<Rightarrow> nat \<times> 'p mundo" where
  "main prov env config_file w =
     (case ejecutar prov env config_file w of
        (Inr u, w') \<Rightarrow> (0, w')
      | (Inl KeyboardInterrupt, w') \<Rightarrow>
          (1, w'\<lparr>salida := salida w' @
                 [(Stderr, [CHR 0x0A, CHR 0x0A] @ marca_aviso
                    @ '' Despliegue cancelado por el usuario'')]\<rparr>)
      | (Inl (SystemExit n), w') \<Rightarrow> (n, w')
      | (Inl e, w') \<Rightarrow>
          (1, w'\<lparr>salida := salida w' @
                 [(Stderr, CHR 0x0A # marca_error @ '' Error fatal: '' @ str_excepcion e)]\<rparr>))"

subsection \<open>Example inputs\<close>

text \<open>
  A scripted provider: its state is the list of the outcomes it still has to give, one
  for each call; once the script is used up every call succeeds with an empty response.
\<close>

fun prov_guion :: "(excepcion + respuesta) list proveedor" where
  "prov_guion [] c = (Inr RNada, [])"
| "prov_guion (r # rs) c = (r, rs)"

definition mundo_inicial :: "'p \<Rightarrow> 'p mundo" where
  "mundo_inicial p = \<lparr>nube = p, llamadas = [], salida = [], recursos_creados = []\<rparr>"

text \<open>The initial state of a run against the scripted provider.\<close>

definition guion :: "(excepcion + respuesta) list \<Rightarrow> (excepcion + respuesta) list mundo" where
  "guion rs = mundo_inicial rs"

text \<open>
  A configuration file that sets the region and has a key the script does not know, and
  a file that is not JSON.
\<close>

definition archivo_ejemplo :: config where
  "archivo_ejemplo = map_of [(''region'', VStr ''eu-west-1''), (''color'', VStr ''azul'')]"

definition entorno_ejemplo :: entorno where
  "entorno_ejemplo =
     \<lparr>environ = map_of [(''RDS_ADMIN_PASSWORD'', ''secreto''),
                        (''AWS_ACCESS_KEY_ID'', ''AKIAEJEMPLO''),
                        (''AWS_SECRET_ACCESS_KEY'', ''clave'')],
      archivos = map_of
        [(''config.json'', Inr archivo_ejemplo),
         (''roto.json'', Inl (JSONDecodeError ''Expecting value: line 1 column 1 (char 0)''))],
      reloj = 1700000000\<rparr>"

text \<open>An environment in which the password is empty and the secret key is not set.\<close>

definition entorno_sin_claves :: entorno where
  "entorno_sin_claves =
     \<lparr>environ = map_of [(''RDS_ADMIN_PASSWORD'', []),
                        (''AWS_ACCESS_KEY_ID'', ''AKIAEJEMPLO'')],
      archivos = Map.empty,
      reloj = 1700000000\<rparr>"

subsection \<open>Notions used to state the properties\<close>

text \<open>
  What the validation of the environment is expected to print: the heading, one line
  for each required variable that is missing, in the order of \<open>variables_requeridas\<close>,
  and the example.
\<close>

definition informe_faltantes :: "entorno \<Rightarrow> (flujo \<times> string) list" where
  "informe_faltantes env =
     (Stderr, ''Error: Las siguientes variables de entorno deben estar definidas:'') #
     map (\<lambda>(var, d). (Stderr, ''  - '' @ var @ '' ('' @ d @ '')''))
       (filter (\<lambda>(var, d). falta env var) variables_requeridas) @
     [(Stderr, CHR 0x0A # ''Ejemplo:''),
      (Stderr, ''  export RDS_ADMIN_PASSWORD='' @ [CHR 0x27] @ ''tu_password_seguro'' @ [CHR 0x27])]"

text \<open>Two configurations with the same values under the seven keys of the script.\<close>

definition coinciden :: "config \<Rightarrow> config \<Rightarrow> bool" where
  "coinciden cfg cfg' = list_all (\<lambda>k. cfg k = cfg' k) claves_config"

text \<open>The events a run has added to the trace.\<close>

definition nuevas :: "'p mundo \<Rightarrow> 'p mundo \<Rightarrow> evento list" where
  "nuevas w w' = drop (length (llamadas w)) (llamadas w')"

text \<open>
  The provider serving a list of calls in order from one of its states, up to and
  including the first call that fails: the events, and the state the provider is left in.
\<close>

fun atender :: "'p proveedor \<Rightarrow> 'p \<Rightarrow> llamada list \<Rightarrow> evento list \<times> 'p" where
  "atender prov p [] = ([], p)"
| "atender prov p (c # cs) =
     (case prov p c of
        (Inl e, p') \<Rightarrow> ([(c, Inl e)], p')
      | (Inr x, p') \<Rightarrow> (case atender prov p' cs of (evs, p'') \<Rightarrow> ((c, Inr x) # evs, p'')))"

text \<open>The faults among the outcomes of a list of events.\<close>

fun fallos :: "evento list \<Rightarrow> excepcion list" where
  "fallos [] = []"
| "fallos ((c, Inl e) # evs) = e # fallos evs"
| "fallos ((c, Inr x) # evs) = fallos evs"

subsection \<open>A reference provider for security groups\<close>

text \<open>
  The security-group operations as the provider documents them, on a registry of groups
  (name, identifier, ingress rules): names are unique; creating a group under a name
  that is taken fails with the code \<open>InvalidGroup.Duplicate\<close> and changes nothing;
  creating a group under a free name registers it with a new identifier and no rules;
  a lookup by names returns the identifiers registered under them; rules are attached
  to a group by its identifier. Every other operation succeeds and changes nothing.
\<close>

type_synonym registro = "(string \<times> string \<times> permiso list) list"

fun buscar_grupo :: "registro \<Rightarrow> string \<Rightarrow> string option" where
  "buscar_grupo [] nombre = None"
| "buscar_grupo ((n, g, ps) # resto) nombre =
     (if n = nombre then Some g else buscar_grupo resto nombre)"

fun reglas_de :: "registro \<Rightarrow> string \<Rightarrow> permiso list option" where
  "reglas_de [] ident = None"
| "reglas_de ((n, g, ps) # resto) ident =
     (if g = ident then Some ps else reglas_de resto ident)"

fun agregar_reglas :: "string \<Rightarrow> permiso list \<Rightarrow> registro \<Rightarrow> registro" where
  "agregar_reglas ident nuevas_reglas [] = []"
| "agregar_reglas ident nuevas_reglas ((n, g, ps) # resto) =
     (if g = ident then (n, g, ps @ nuevas_reglas) # resto
      else (n, g, ps) # agregar_reglas ident nuevas_reglas resto)"

definition id_nuevo :: "registro \<Rightarrow> string" where
  "id_nuevo reg = ''sg-'' @ digitos (length reg)"

fun prov_grupos :: "registro proveedor" where
  "prov_grupos reg (CreateSecurityGroup nombre d tags) =
     (case buscar_grupo reg nombre of
        Some g \<Rightarrow> (Inl (ClientError ''InvalidGroup.Duplicate'' (nombre @ '' already exists'')), reg)
      | None \<Rightarrow> (Inr (RGroupId (id_nuevo reg)), reg @ [(nombre, id_nuevo reg, [])]))"
| "prov_grupos reg (AuthorizeSecurityGroupIngress ident ps) =
     (case reglas_de reg ident of
        None \<Rightarrow> (Inl (ClientError ''InvalidGroup.NotFound'' (ident @ '' does not exist'')), reg)
      | Some _ \<Rightarrow> (Inr RNada, agregar_reglas ident ps reg))"
| "prov_grupos reg (DescribeSecurityGroups nombres) =
     (if list_all (\<lambda>n. buscar_grupo reg n \<noteq> None) nombres
      then (Inr (RSecurityGroups (map (\<lambda>n. the (buscar_grupo reg n)) nombres)), reg)
      else (Inl (ClientError ''InvalidGroup.NotFound'' ''a group does not exist''), reg))"
| "prov_grupos reg c = (Inr RNada, reg)"

subsection \<open>Notions used to state the properties of desplegar and main\<close>

text \<open>
  The state in which the \<^verbatim>\<open>try\<close> block of \<^verbatim>\<open>desplegar\<close> starts: the heading has been
  printed for the region, the environment tag and the application name of the
  configuration, and \<^verbatim>\<open>recursos_creados\<close> is empty.
\<close>

definition encabezado :: "valor \<Rightarrow> valor \<Rightarrow> valor \<Rightarrow> (flujo \<times> string) list" where
  "encabezado region ambiente app =
     [(Stdout, raya),
      (Stdout, ''INICIANDO DESPLIEGUE DE APLICACI'' @ [CHR 0xC3, CHR 0x93]
               @ ''N DE RECURSOS HUMANOS''),
      (Stdout, raya),
      (Stdout, ''Regi'' @ [CHR 0xC3, CHR 0xB3] @ ''n: '' @ py_str region),
      (Stdout, ''Ambiente: '' @ py_str ambiente),
      (Stdout, ''Aplicaci'' @ [CHR 0xC3, CHR 0xB3] @ ''n: '' @ py_str app),
      (Stdout, raya),
      (Stdout, [])]"

definition inicio :: "valor \<Rightarrow> valor \<Rightarrow> valor \<Rightarrow> 'p mundo \<Rightarrow> 'p mundo" where
  "inicio region ambiente app w =
     w\<lparr>salida := salida w @ encabezado region ambiente app, recursos_creados := []\<rparr>"

text \<open>
  The state in which a step starts: its title has been printed after an empty line.
  The state after a step has returned: its identifier is in \<^verbatim>\<open>recursos_creados\<close> under
  the label of the step.
\<close>

definition anuncio :: "string \<Rightarrow> 'p mundo \<Rightarrow> 'p mundo" where
  "anuncio titulo w = w\<lparr>salida := salida w @ [(Stdout, CHR 0x0A # titulo)]\<rparr>"

definition registrado :: "string \<Rightarrow> string \<Rightarrow> 'p mundo \<Rightarrow> 'p mundo" where
  "registrado etiqueta ident w =
     w\<lparr>recursos_creados := poner etiqueta ident (recursos_creados w)\<rparr>"

text \<open>
  The state after the \<^verbatim>\<open>except Exception\<close> handler of \<^verbatim>\<open>desplegar\<close>: the text of the
  exception on the error stream and the warning on the standard output, nothing else.
\<close>

definition abortado :: "excepcion \<Rightarrow> 'p mundo \<Rightarrow> 'p mundo" where
  "abortado e w =
     w\<lparr>salida := salida w @
        [(Stderr, CHR 0x0A # marca_error @ '' Error durante el despliegue: '' @ str_excepcion e),
         (Stdout, CHR 0x0A # marca_aviso
            @ '' Algunos recursos pueden haber sido creados. Revisa la consola de AWS.'')]\<rparr>"

text \<open>The steps preserve \<^verbatim>\<open>recursos_creados\<close>: only \<^verbatim>\<open>desplegar\<close> writes it.\<close>

definition conserva :: "('p, 'a) accion \<Rightarrow> bool" where
  "conserva m = (\<forall>w r w'. m w = (r, w') \<longrightarrow> recursos_creados w' = recursos_creados w)"

text \<open>
  A text occurs inside another one; a text occurs in some element of an output. The
  lines with which \<^verbatim>\<open>desplegar\<close> lists \<^verbatim>\<open>recursos_creados\<close> at the end of a complete
  deployment.
\<close>

fun contiene :: "string \<Rightarrow> string \<Rightarrow> bool" where
  "contiene s [] = (s = [])"
| "contiene s (c # t) = (prefix s (c # t) \<or> contiene s t)"

definition menciona :: "string \<Rightarrow> (flujo \<times> string) list \<Rightarrow> bool" where
  "menciona s out = list_ex (\<lambda>(fl, t). contiene s t) out"

definition listado :: "(string \<times> string) list \<Rightarrow> (flujo \<times> string) list" where
  "listado recursos = map (\<lambda>(recurso, valor). (Stdout, ''  - '' @ recurso @ '': '' @ valor)) recursos"

definition recordatorio :: "(flujo \<times> string) list" where
  "recordatorio = map (Pair Stdout)
     [CHR 0x0A # marca_aviso @ '' IMPORTANTE - MEDIDAS DE SEGURIDAD:'',
      ''  1. Cambiar las contrase'' @ [CHR 0xC3, CHR 0xB1] @ ''as por defecto'',
      ''  2. Configurar certificados SSL para HTTPS'',
      ''  3. Restringir Security Groups a IPs espec'' @ [CHR 0xC3, CHR 0xAD]
        @ ''ficas en producci'' @ [CHR 0xC3, CHR 0xB3] @ ''n'',
      ''  4. Habilitar CloudTrail para auditor'' @ [CHR 0xC3, CHR 0xAD] @ ''a'',
      ''  5. Configurar backups autom'' @ [CHR 0xC3, CHR 0xA1] @ ''ticos'',
      ''  6. Revisar y ajustar pol'' @ [CHR 0xC3, CHR 0xAD] @ ''ticas IAM'',
      ''  7. No subir credenciales al repositorio Git'']"

text \<open>
  A trace in which some provider call was interrupted from the keyboard; an output with
  nothing on the error stream; the texts an output has on the error stream.
\<close>

definition interrumpida :: "evento list \<Rightarrow> bool" where
  "interrumpida t = list_ex (\<lambda>(c, r). r = Inl KeyboardInterrupt) t"

definition sin_stderr :: "(flujo \<times> string) list \<Rightarrow> bool" where
  "sin_stderr s = list_all (\<lambda>(fl, t). fl = Stdout) s"

definition en_stderr :: "(flujo \<times> string) list \<Rightarrow> string list" where
  "en_stderr s = map snd (filter (\<lambda>(fl, t). fl = Stderr) s)"

text \<open>
  Three properties of an action, used to follow an interruption through the script.
  \<open>callada\<close>: the action only adds to the trace and to the output, writes nothing on the
  error stream, and raises \<open>KeyboardInterrupt\<close> if one of its calls was interrupted.
  \<open>muda\<close>: the action makes no provider call and always raises.
  \<open>propaga\<close>: the action only adds to the trace and to the output; if one of its calls was
  interrupted it raises \<open>KeyboardInterrupt\<close> and has written nothing on the error stream;
  and if it has written on the error stream it raises.
\<close>

definition callada :: "('p, 'a) accion \<Rightarrow> bool" where
  "callada m = (\<forall>w r w'. m w = (r, w') \<longrightarrow>
     (\<exists>t s. llamadas w' = llamadas w @ t \<and> salida w' = salida w @ s \<and> sin_stderr s \<and>
        (interrumpida t \<longrightarrow> r = Inl KeyboardInterrupt)))"

definition muda :: "('p, 'a) accion \<Rightarrow> bool" where
  "muda m = (\<forall>w r w'. m w = (r, w') \<longrightarrow>
     llamadas w' = llamadas w \<and> (\<exists>s. salida w' = salida w @ s) \<and> (\<exists>e. r = Inl e))"

definition propaga :: "('p, 'a) accion \<Rightarrow> bool" where
  "propaga m = (\<forall>w r w'. m w = (r, w') \<longrightarrow>
     (\<exists>t s. llamadas w' = llamadas w @ t \<and> salida w' = salida w @ s \<and>
        (interrumpida t \<longrightarrow> r = Inl KeyboardInterrupt \<and> sin_stderr s) \<and>
        (\<not> sin_stderr s \<longrightarrow> (\<exists>e. r = Inl e))))"

section \<open>Properties\<close>

subsection \<open>Running actions\<close>

lemma ligar_devolver: "ligar (devolver x) f = f x"
  by (rule ext) (simp add: ligar_def devolver_def)

lemma ligar_lanzar: "ligar (lanzar e) f = lanzar e"
  by (rule ext) (simp add: ligar_def lanzar_def)

lemma ligar_imprimir: "ligar (imprimir fl s) f w = f () (w\<lparr>salida := salida w @ [(fl, s)]\<rparr>)"
  by (simp add: ligar_def imprimir_def)

lemma ligar_invocar:
  "ligar (invocar prov c) f w =
     (case prov (nube w) c of
        (Inl e, p') \<Rightarrow> (Inl e, w\<lparr>nube := p', llamadas := llamadas w @ [(c, Inl e)]\<rparr>)
      | (Inr x, p') \<Rightarrow> f x (w\<lparr>nube := p', llamadas := llamadas w @ [(c, Inr x)]\<rparr>))"
  by (simp add: ligar_def invocar_def split: sum.splits prod.splits)

lemma ligar_except_ClientError:
  "ligar (except_ClientError m h) f w =
     (case except_ClientError m h w of (Inl e, w') \<Rightarrow> (Inl e, w') | (Inr x, w') \<Rightarrow> f x w')"
  by (simp add: ligar_def)

lemma si_aplicado: "(if b then f else g) w = (if b then f w else g w)"
  by simp

lemmas correr = si_aplicado ligar_devolver ligar_lanzar ligar_imprimir ligar_invocar
  ligar_except_ClientError except_ClientError_def imprimir_def devolver_def lanzar_def
  invocar_def

lemma completa_claves:
  assumes "completa cfg"
  obtains region ami tipo clase almacenamiento app ambiente where
    "cfg ''region'' = Some region" "cfg ''ami_id'' = Some ami"
    "cfg ''instance_type'' = Some tipo" "cfg ''db_instance_class'' = Some clase"
    "cfg ''db_allocated_storage'' = Some almacenamiento" "cfg ''app_name'' = Some app"
    "cfg ''environment'' = Some ambiente"
  using assms by (auto simp: completa_def claves_config_def)

lemma completa_config_default: "completa config_default"
  by (simp add: completa_def claves_config_def config_default_def)

subsection \<open>crear_base_datos_rds: a database that already exists\<close>

text \<open>
  C4. \<^verbatim>\<open>crear_base_datos_rds\<close> makes one provider call, the creation of the instance
  \<open>app_name-db\<close>. When that call fails with the code \<open>DBInstanceAlreadyExists\<close>, the
  function does not raise: it returns the identifier \<open>app_name-db\<close> and prints one
  warning on the standard output, nothing on the error stream. When the call fails with
  any other code, the same fault is raised again, after one line on the error stream.
\<close>

theorem crear_base_datos_rds_conflicto:
  assumes "completa cfg" and "cfg ''app_name'' = Some app"
    and "crear_base_datos_rds prov env cfg w = (r, w')"
  shows "\<exists>a res. llamadas w' = llamadas w @ [(CreateDBInstance a, res)] \<and>
      rds_DBInstanceIdentifier a = py_str app @ ''-db'' \<and>
      (\<forall>t. res = Inl (ClientError ''DBInstanceAlreadyExists'' t) \<longrightarrow>
         r = Inr (py_str app @ ''-db'') \<and>
         salida w' = salida w @
           [(Stdout, marca_aviso @ '' Instancia RDS '' @ py_str app @ ''-db'' @ '' ya existe'')]) \<and>
      (\<forall>code t. res = Inl (ClientError code t) \<longrightarrow> code \<noteq> ''DBInstanceAlreadyExists'' \<longrightarrow>
         r = Inl (ClientError code t) \<and>
         salida w' = salida w @
           [(Stderr, marca_error @ '' Error creando instancia RDS: '' @ t)])"
proof -
  from assms(1) obtain clase almacenamiento ambiente where k:
    "cfg ''db_instance_class'' = Some clase"
    "cfg ''db_allocated_storage'' = Some almacenamiento"
    "cfg ''environment'' = Some ambiente"
    by (rule completa_claves)
  have l: "leer cfg ''app_name'' = (devolver app :: ('a, valor) accion)"
    "leer cfg ''db_instance_class'' = (devolver clase :: ('a, valor) accion)"
    "leer cfg ''db_allocated_storage'' = (devolver almacenamiento :: ('a, valor) accion)"
    "leer cfg ''environment'' = (devolver ambiente :: ('a, valor) accion)"
    by (simp_all add: leer_def k assms(2))
  define a where "a =
     \<lparr>rds_DBInstanceIdentifier = py_str app @ ''-db'',
      rds_AllocatedStorage = almacenamiento,
      rds_DBInstanceClass = clase,
      rds_Engine = ''mysql'',
      rds_EngineVersion = ''8.0'',
      rds_MasterUsername = ''admin'',
      rds_MasterUserPassword = environ env ''RDS_ADMIN_PASSWORD'',
      rds_DBName = ''rh_database'',
      rds_PubliclyAccessible = False,
      rds_BackupRetentionPeriod = 7,
      rds_StorageEncrypted = True,
      rds_KmsKeyId = ''alias/aws/rds'',
      rds_VpcSecurityGroupIds = [],
      rds_Tags = [(''Name'', VStr (py_str app @ ''-db'')),
                  (''Environment'', ambiente),
                  (''Application'', VStr ''Recursos Humanos''),
                  (''ContainsSensitiveData'', VStr ''true'')]\<rparr>"
  have ida: "rds_DBInstanceIdentifier a = py_str app @ ''-db''"
    by (simp add: a_def)
  obtain res p' where pr: "prov (nube w) (CreateDBInstance a) = (res, p')"
    by (cases "prov (nube w) (CreateDBInstance a)")
  have run: "crear_base_datos_rds prov env cfg w =
     ligar (except_ClientError
       (ligar (invocar prov (CreateDBInstance a)) (\<lambda>_.
        ligar (imprimir Stdout (marca_ok @ '' Instancia RDS creada: '' @ (py_str app @ ''-db''))) (\<lambda>_.
        ligar (imprimir Stdout (''  - Encriptaci'' @ [CHR 0xC3, CHR 0xB3] @ ''n en reposo: Habilitada'')) (\<lambda>_.
        ligar (imprimir Stdout (''  - Acceso p'' @ [CHR 0xC3, CHR 0xBA] @ ''blico: Deshabilitado'')) (\<lambda>_.
        imprimir Stdout (''  - Retenci'' @ [CHR 0xC3, CHR 0xB3] @ ''n de backups: 7 d'' @ [CHR 0xC3, CHR 0xAD] @ ''as''))))))
       (\<lambda>error_code texto.
          if error_code = ''DBInstanceAlreadyExists''
          then imprimir Stdout (marca_aviso @ '' Instancia RDS '' @ (py_str app @ ''-db'') @ '' ya existe'')
          else ligar (imprimir Stderr (marca_error @ '' Error creando instancia RDS: '' @ texto)) (\<lambda>_.
               lanzar (ClientError error_code texto))))
     (\<lambda>_. devolver (py_str app @ ''-db'')) w"
    unfolding crear_base_datos_rds_def a_def
    by (simp only: l ligar_devolver Let_def)
  show ?thesis
  proof (cases res)
    case (Inr x)
    with assms(3) pr have "llamadas w' = llamadas w @ [(CreateDBInstance a, res)]"
      unfolding run
      by (auto simp: correr)
    with Inr ida show ?thesis by blast
  next
    case (Inl e)
    show ?thesis
    proof (cases e)
      case (ClientError code t)
      with Inl assms(3) pr have
        "llamadas w' = llamadas w @ [(CreateDBInstance a, res)]"
        "code = ''DBInstanceAlreadyExists'' \<Longrightarrow> r = Inr (py_str app @ ''-db'') \<and>
           salida w' = salida w @
             [(Stdout, marca_aviso @ '' Instancia RDS '' @ py_str app @ ''-db'' @ '' ya existe'')]"
        "code \<noteq> ''DBInstanceAlreadyExists'' \<Longrightarrow> r = Inl (ClientError code t) \<and>
           salida w' = salida w @
             [(Stderr, marca_error @ '' Error creando instancia RDS: '' @ t)]"
        unfolding run
        by (auto simp: correr split: if_splits)
      with Inl ClientError ida show ?thesis by blast
    next
      case (JSONDecodeError t)
      with Inl assms(3) pr have "llamadas w' = llamadas w @ [(CreateDBInstance a, res)]"
        unfolding run
        by (auto simp: correr)
      with Inl JSONDecodeError ida show ?thesis by blast
    next
      case (Excepcion t)
      with Inl assms(3) pr have "llamadas w' = llamadas w @ [(CreateDBInstance a, res)]"
        unfolding run
        by (auto simp: correr)
      with Inl Excepcion ida show ?thesis by blast
    next
      case KeyboardInterrupt
      with Inl assms(3) pr have "llamadas w' = llamadas w @ [(CreateDBInstance a, res)]"
        unfolding run
        by (auto simp: correr)
      with Inl KeyboardInterrupt ida show ?thesis by blast
    next
      case (SystemExit n)
      with Inl assms(3) pr have "llamadas w' = llamadas w @ [(CreateDBInstance a, res)]"
        unfolding run
        by (auto simp: correr)
      with Inl SystemExit ida show ?thesis by blast
    qed
  qed
qed


theorem crear_base_datos_rds_conflicto_witness:
  "completa config_default \<and> config_default ''app_name'' = Some (VStr ''app-rh-devops'') \<and>
   crear_base_datos_rds prov_guion entorno_ejemplo config_default
       (mundo_inicial [Inl (ClientError ''DBInstanceAlreadyExists'' ''ya existe'')]) =
     (Inr ''app-rh-devops-db'',
      \<lparr>nube = [],
       llamadas = [(CreateDBInstance
           \<lparr>rds_DBInstanceIdentifier = ''app-rh-devops-db'',
            rds_AllocatedStorage = VInt 20,
            rds_DBInstanceClass = VStr ''db.t3.micro'',
            rds_Engine = ''mysql'',
            rds_EngineVersion = ''8.0'',
            rds_MasterUsername = ''admin'',
            rds_MasterUserPassword = Some ''secreto'',
            rds_DBName = ''rh_database'',
            rds_PubliclyAccessible = False,
            rds_BackupRetentionPeriod = 7,
            rds_StorageEncrypted = True,
            rds_KmsKeyId = ''alias/aws/rds'',
            rds_VpcSecurityGroupIds = [],
            rds_Tags = [(''Name'', VStr ''app-rh-devops-db''),
                        (''Environment'', VStr ''production''),
                        (''Application'', VStr ''Recursos Humanos''),
                        (''ContainsSensitiveData'', VStr ''true'')]\<rparr>,
           Inl (ClientError ''DBInstanceAlreadyExists'' ''ya existe''))],
       salida = [(Stdout, marca_aviso @ '' Instancia RDS app-rh-devops-db ya existe'')],
       recursos_creados = []\<rparr>)"
proof -
  have h1: "completa config_default"
    by (rule completa_config_default)
  have h2: "config_default ''app_name'' = Some (VStr ''app-rh-devops'')"
    by (simp add: config_default_def)
  have ev: "crear_base_datos_rds prov_guion entorno_ejemplo config_default
       (mundo_inicial [Inl (ClientError ''DBInstanceAlreadyExists'' ''ya existe'')]) =
     (Inr ''app-rh-devops-db'',
      \<lparr>nube = [],
       llamadas = [(CreateDBInstance
           \<lparr>rds_DBInstanceIdentifier = ''app-rh-devops-db'',
            rds_AllocatedStorage = VInt 20,
            rds_DBInstanceClass = VStr ''db.t3.micro'',
            rds_Engine = ''mysql'',
            rds_EngineVersion = ''8.0'',
            rds_MasterUsername = ''admin'',
            rds_MasterUserPassword = Some ''secreto'',
            rds_DBName = ''rh_database'',
            rds_PubliclyAccessible = False,
            rds_BackupRetentionPeriod = 7,
            rds_StorageEncrypted = True,
            rds_KmsKeyId = ''alias/aws/rds'',
            rds_VpcSecurityGroupIds = [],
            rds_Tags = [(''Name'', VStr ''app-rh-devops-db''),
                        (''Environment'', VStr ''production''),
                        (''Application'', VStr ''Recursos Humanos''),
                        (''ContainsSensitiveData'', VStr ''true'')]\<rparr>,
           Inl (ClientError ''DBInstanceAlreadyExists'' ''ya existe''))],
       salida = [(Stdout, marca_aviso @ '' Instancia RDS app-rh-devops-db ya existe'')],
       recursos_creados = []\<rparr>)"
    by (simp add: crear_base_datos_rds_def config_default_def leer_def correr mundo_inicial_def
        entorno_ejemplo_def Let_def)
  from crear_base_datos_rds_conflicto [OF h1 h2 ev] h1 h2 ev show ?thesis
    by simp
qed

subsection \<open>Loading the configuration and validating the environment\<close>

lemma recoger_faltantes_eq:
  "recoger_faltantes env vs acc =
     acc @ map (\<lambda>(var, d). var @ '' ('' @ d @ '')'') (filter (\<lambda>(var, d). falta env var) vs)"
  by (induction vs arbitrary: acc) auto

lemma imprimir_lista_eq:
  "imprimir_lista fl xs w = (Inr (), w\<lparr>salida := salida w @ map (Pair fl) xs\<rparr>)"
  by (induction xs arbitrary: w) (simp_all add: devolver_def ligar_imprimir)

lemma ligar_imprimir_lista:
  "ligar (imprimir_lista fl xs) f w = f () (w\<lparr>salida := salida w @ map (Pair fl) xs\<rparr>)"
  by (simp add: ligar_def imprimir_lista_eq)

lemma validar_variables_entorno_eq:
  "validar_variables_entorno env w =
     (if filter (\<lambda>(var, d). falta env var) variables_requeridas = [] then (Inr (), w)
      else (Inl (SystemExit 1), w\<lparr>salida := salida w @ informe_faltantes env\<rparr>))"
  by (simp add: validar_variables_entorno_def recoger_faltantes_eq Let_def ligar_imprimir
      ligar_imprimir_lista lanzar_def devolver_def informe_faltantes_def o_def split_def)

lemma coinciden_leer:
  assumes "coinciden cfg cfg'"
  shows "leer cfg ''region'' = (leer cfg' ''region'' :: ('p, valor) accion)"
    "leer cfg ''ami_id'' = (leer cfg' ''ami_id'' :: ('p, valor) accion)"
    "leer cfg ''instance_type'' = (leer cfg' ''instance_type'' :: ('p, valor) accion)"
    "leer cfg ''db_instance_class'' = (leer cfg' ''db_instance_class'' :: ('p, valor) accion)"
    "leer cfg ''db_allocated_storage'' = (leer cfg' ''db_allocated_storage'' :: ('p, valor) accion)"
    "leer cfg ''app_name'' = (leer cfg' ''app_name'' :: ('p, valor) accion)"
    "leer cfg ''environment'' = (leer cfg' ''environment'' :: ('p, valor) accion)"
  using assms by (simp_all add: coinciden_def claves_config_def leer_def)

lemma coinciden_crear_security_group:
  "coinciden cfg cfg' \<Longrightarrow> crear_security_group prov cfg = crear_security_group prov cfg'"
  unfolding crear_security_group_def by (simp only: coinciden_leer)

lemma coinciden_crear_bucket_s3_backup:
  "coinciden cfg cfg' \<Longrightarrow> reloj env = reloj env' \<Longrightarrow>
   crear_bucket_s3_backup prov env cfg = crear_bucket_s3_backup prov env' cfg'"
  unfolding crear_bucket_s3_backup_def by (simp only: coinciden_leer)

lemma coinciden_crear_instancia_ec2:
  "coinciden cfg cfg' \<Longrightarrow> crear_instancia_ec2 prov cfg = crear_instancia_ec2 prov cfg'"
  unfolding crear_instancia_ec2_def by (simp only: coinciden_leer)

lemma coinciden_crear_base_datos_rds:
  "coinciden cfg cfg' \<Longrightarrow> environ env = environ env' \<Longrightarrow>
   crear_base_datos_rds prov env cfg = crear_base_datos_rds prov env' cfg'"
  unfolding crear_base_datos_rds_def by (simp only: coinciden_leer)

lemma coinciden_desplegar:
  assumes "coinciden cfg cfg'" "environ env = environ env'" "reloj env = reloj env'"
  shows "desplegar prov env cfg = desplegar prov env' cfg'"
  unfolding desplegar_def desplegar_pasos_def
  by (simp only: coinciden_leer [OF assms(1)] coinciden_crear_security_group [OF assms(1)]
      coinciden_crear_bucket_s3_backup [OF assms(1,3)]
      coinciden_crear_instancia_ec2 [OF assms(1)]
      coinciden_crear_base_datos_rds [OF assms(1,2)])

lemma coinciden_restringida:
  "coinciden (config_default ++ u) (config_default ++ (u |` set claves_config))"
  by (simp add: coinciden_def claves_config_def map_add_def restrict_map_def)

lemma falta_archivos: "falta (env\<lparr>archivos := a\<rparr>) = falta env"
  by (rule ext) (simp add: falta_def)

lemma recoger_faltantes_archivos:
  "recoger_faltantes (env\<lparr>archivos := a\<rparr>) vs acc = recoger_faltantes env vs acc"
  by (induction vs arbitrary: acc) (auto simp: falta_archivos)

lemma validar_archivos:
  "validar_variables_entorno (env\<lparr>archivos := a\<rparr>) = validar_variables_entorno env"
  by (simp add: validar_variables_entorno_def recoger_faltantes_archivos)

lemma ligar_ligar: "ligar (ligar m f) g = ligar m (\<lambda>x. ligar (f x) g)"
  by (rule ext) (simp add: ligar_def split: prod.splits sum.splits)

lemma cargar_objeto:
  "ruta \<noteq> [] \<Longrightarrow> archivos env ruta = Some (Inr u) \<Longrightarrow>
   cargar_configuracion env (Some ruta) = devolver (config_default ++ u)"
  by (rule ext) (simp add: cargar_configuracion_def)

text \<open>
  C6. When no path is given, when the path is empty, or when no file exists at the path,
  \<^verbatim>\<open>_cargar_configuracion\<close> returns the default configuration and changes nothing. When
  the file holds an object, the result has, under every key, the value of the file if
  the file has the key and the default value otherwise. Keys that are not among the
  seven keys of the script have no effect: a run of \<^verbatim>\<open>main\<close> with the file is the same,
  in its exit status, its provider calls and its output, as the run with the file
  restricted to the seven keys.
\<close>

theorem cargar_configuracion_mezcla:
  "(config_file = None \<or> config_file = Some [] \<or>
      (\<exists>ruta. config_file = Some ruta \<and> archivos env ruta = None) \<longrightarrow>
      cargar_configuracion env config_file w = (Inr config_default, w)) \<and>
   (ruta \<noteq> [] \<and> archivos env ruta = Some (Inr u) \<longrightarrow>
      (\<exists>cfg. cargar_configuracion env (Some ruta) w = (Inr cfg, w) \<and>
         (\<forall>k. cfg k = (case u k of Some v \<Rightarrow> Some v | None \<Rightarrow> config_default k))) \<and>
      main prov env (Some ruta) w =
        main prov (env\<lparr>archivos := (archivos env)(ruta \<mapsto> Inr (u |` set claves_config))\<rparr>)
          (Some ruta) w)"
proof (intro conjI impI)
  assume "config_file = None \<or> config_file = Some [] \<or>
      (\<exists>ruta. config_file = Some ruta \<and> archivos env ruta = None)"
  then show "cargar_configuracion env config_file w = (Inr config_default, w)"
    by (auto simp: cargar_configuracion_def devolver_def)
next
  assume a: "ruta \<noteq> [] \<and> archivos env ruta = Some (Inr u)"
  then have c: "cargar_configuracion env (Some ruta) w = (Inr (config_default ++ u), w)"
    by (simp add: cargar_configuracion_def devolver_def)
  have "\<forall>k. (config_default ++ u) k = (case u k of Some v \<Rightarrow> Some v | None \<Rightarrow> config_default k)"
    by (simp add: map_add_def)
  with c show "\<exists>cfg. cargar_configuracion env (Some ruta) w = (Inr cfg, w) \<and>
         (\<forall>k. cfg k = (case u k of Some v \<Rightarrow> Some v | None \<Rightarrow> config_default k))"
    by blast
next
  assume a: "ruta \<noteq> [] \<and> archivos env ruta = Some (Inr u)"
  let ?env = "env\<lparr>archivos := (archivos env)(ruta \<mapsto> Inr (u |` set claves_config))\<rparr>"
  let ?cfg = "config_default ++ u" and ?cfg' = "config_default ++ (u |` set claves_config)"
  from a have a1: "ruta \<noteq> []" and a2: "archivos env ruta = Some (Inr u)"
    by simp_all
  have a3: "archivos ?env ruta = Some (Inr (u |` set claves_config))"
    by simp
  have d: "desplegar prov env ?cfg = desplegar prov ?env ?cfg'"
    by (rule coinciden_desplegar) (simp_all add: coinciden_restringida [of u])
  have "ejecutar prov env (Some ruta) = ejecutar prov ?env (Some ruta)"
    unfolding ejecutar_def init_DespliegueRH_def
    by (simp only: cargar_objeto [OF a1 a2] cargar_objeto [OF a1 a3]
        ligar_ligar ligar_devolver validar_archivos coinciden_leer [OF coinciden_restringida [of u]] d)
  then show "main prov env (Some ruta) w = main prov ?env (Some ruta) w"
    by (simp add: main_def)
qed


theorem cargar_configuracion_mezcla_witness:
  "cargar_configuracion entorno_ejemplo None
       (mundo_inicial [Inr (RGroupId ''sg-1'')] :: (excepcion + respuesta) list mundo) =
     (Inr config_default, mundo_inicial [Inr (RGroupId ''sg-1'')]) \<and>
   ''config.json'' \<noteq> [] \<and>
   archivos entorno_ejemplo ''config.json'' = Some (Inr archivo_ejemplo) \<and>
   (\<exists>cfg. cargar_configuracion entorno_ejemplo (Some ''config.json'')
            (mundo_inicial [Inr (RGroupId ''sg-1'')] :: (excepcion + respuesta) list mundo) =
            (Inr cfg, mundo_inicial [Inr (RGroupId ''sg-1'')]) \<and>
          cfg ''region'' = Some (VStr ''eu-west-1'') \<and>
          cfg ''app_name'' = Some (VStr ''app-rh-devops'') \<and>
          cfg ''db_allocated_storage'' = Some (VInt 20) \<and>
          cfg ''color'' = Some (VStr ''azul'')) \<and>
   main prov_guion entorno_ejemplo (Some ''config.json'') (mundo_inicial [Inr (RGroupId ''sg-1'')]) =
     main prov_guion
       (entorno_ejemplo\<lparr>archivos := (archivos entorno_ejemplo)
          (''config.json'' \<mapsto> Inr (archivo_ejemplo |` set claves_config))\<rparr>)
       (Some ''config.json'') (mundo_inicial [Inr (RGroupId ''sg-1'')])"
proof -
  have h1: "''config.json'' \<noteq> [] \<and>
      archivos entorno_ejemplo ''config.json'' = Some (Inr archivo_ejemplo)"
    by (simp add: entorno_ejemplo_def)
  note t = cargar_configuracion_mezcla [of None entorno_ejemplo
      "mundo_inicial [Inr (RGroupId ''sg-1'')]" "''config.json''" archivo_ejemplo prov_guion]
  from t have a: "cargar_configuracion entorno_ejemplo None
       (mundo_inicial [Inr (RGroupId ''sg-1'')] :: (excepcion + respuesta) list mundo) =
     (Inr config_default, mundo_inicial [Inr (RGroupId ''sg-1'')])"
    by simp
  from t h1 obtain cfg where c:
    "cargar_configuracion entorno_ejemplo (Some ''config.json'')
            (mundo_inicial [Inr (RGroupId ''sg-1'')] :: (excepcion + respuesta) list mundo) =
            (Inr cfg, mundo_inicial [Inr (RGroupId ''sg-1'')])"
    "\<forall>k. cfg k = (case archivo_ejemplo k of Some v \<Rightarrow> Some v | None \<Rightarrow> config_default k)"
    by blast
  from c(2) have "cfg ''region'' = Some (VStr ''eu-west-1'')"
    "cfg ''app_name'' = Some (VStr ''app-rh-devops'')"
    "cfg ''db_allocated_storage'' = Some (VInt 20)"
    "cfg ''color'' = Some (VStr ''azul'')"
    by (simp_all add: archivo_ejemplo_def config_default_def)
  with c(1) have b: "\<exists>cfg. cargar_configuracion entorno_ejemplo (Some ''config.json'')
            (mundo_inicial [Inr (RGroupId ''sg-1'')] :: (excepcion + respuesta) list mundo) =
            (Inr cfg, mundo_inicial [Inr (RGroupId ''sg-1'')]) \<and>
          cfg ''region'' = Some (VStr ''eu-west-1'') \<and>
          cfg ''app_name'' = Some (VStr ''app-rh-devops'') \<and>
          cfg ''db_allocated_storage'' = Some (VInt 20) \<and>
          cfg ''color'' = Some (VStr ''azul'')"
    by blast
  from t h1 have m: "main prov_guion entorno_ejemplo (Some ''config.json'') (mundo_inicial [Inr (RGroupId ''sg-1'')]) =
     main prov_guion
       (entorno_ejemplo\<lparr>archivos := (archivos entorno_ejemplo)
          (''config.json'' \<mapsto> Inr (archivo_ejemplo |` set claves_config))\<rparr>)
       (Some ''config.json'') (mundo_inicial [Inr (RGroupId ''sg-1'')])"
    by blast
  from a h1 b m show ?thesis by blast
qed

text \<open>
  C7. When the configuration file is not valid JSON, \<^verbatim>\<open>_cargar_configuracion\<close> prints the
  parse error on the error stream and raises \<^verbatim>\<open>SystemExit(1)\<close>; \<^verbatim>\<open>main\<close> ends with exit
  status 1, and the final state differs from the initial one in that line only: no
  provider call has been made.
\<close>

theorem config_invalida_termina:
  assumes "ruta \<noteq> []" and "archivos env ruta = Some (Inl (JSONDecodeError t))"
  shows "cargar_configuracion env (Some ruta) w =
           (Inl (SystemExit 1),
            w\<lparr>salida := salida w @
               [(Stderr, ''Error: Archivo de configuraci'' @ [CHR 0xC3, CHR 0xB3] @ ''n inv''
                         @ [CHR 0xC3, CHR 0xA1] @ ''lido: '' @ t)]\<rparr>) \<and>
         main prov env (Some ruta) w =
           (1, w\<lparr>salida := salida w @
               [(Stderr, ''Error: Archivo de configuraci'' @ [CHR 0xC3, CHR 0xB3] @ ''n inv''
                         @ [CHR 0xC3, CHR 0xA1] @ ''lido: '' @ t)]\<rparr>)"
proof -
  have c: "cargar_configuracion env (Some ruta) w =
           (Inl (SystemExit 1),
            w\<lparr>salida := salida w @
               [(Stderr, ''Error: Archivo de configuraci'' @ [CHR 0xC3, CHR 0xB3] @ ''n inv''
                         @ [CHR 0xC3, CHR 0xA1] @ ''lido: '' @ t)]\<rparr>)"
    using assms by (simp add: cargar_configuracion_def ligar_imprimir lanzar_def)
  have "main prov env (Some ruta) w =
           (1, w\<lparr>salida := salida w @
               [(Stderr, ''Error: Archivo de configuraci'' @ [CHR 0xC3, CHR 0xB3] @ ''n inv''
                         @ [CHR 0xC3, CHR 0xA1] @ ''lido: '' @ t)]\<rparr>)"
    by (simp add: main_def ejecutar_def init_DespliegueRH_def ligar_def c)
  with c show ?thesis by simp
qed


theorem config_invalida_termina_witness:
  "''roto.json'' \<noteq> [] \<and>
   archivos entorno_ejemplo ''roto.json'' =
     Some (Inl (JSONDecodeError ''Expecting value: line 1 column 1 (char 0)'')) \<and>
   main prov_guion entorno_ejemplo (Some ''roto.json'') (mundo_inicial [Inr (RGroupId ''sg-1'')]) =
     (1, \<lparr>nube = [Inr (RGroupId ''sg-1'')], llamadas = [],
          salida = [(Stderr, ''Error: Archivo de configuraci'' @ [CHR 0xC3, CHR 0xB3] @ ''n inv''
                      @ [CHR 0xC3, CHR 0xA1] @ ''lido: Expecting value: line 1 column 1 (char 0)'')],
          recursos_creados = []\<rparr>)"
proof -
  have h1: "''roto.json'' \<noteq> []"
    by simp
  have h2: "archivos entorno_ejemplo ''roto.json'' =
     Some (Inl (JSONDecodeError ''Expecting value: line 1 column 1 (char 0)''))"
    by (simp add: entorno_ejemplo_def)
  from config_invalida_termina [OF h1 h2, of "mundo_inicial [Inr (RGroupId ''sg-1'')]" prov_guion]
    h1 h2 show ?thesis
    by (simp add: mundo_inicial_def)
qed

text \<open>
  C8. When the configuration has been loaded and at least one of the three required
  variables is unset or empty, \<^verbatim>\<open>main\<close> ends with exit status 1 after printing, on the
  error stream, the heading, one line with the name and the description of every
  missing variable, and the example; nothing else changes, so no provider call has been
  made. Loading the configuration leaves the state as it was.
\<close>

theorem variables_faltantes_termina:
  assumes "cargar_configuracion env config_file w = (Inr cfg, w0)"
    and "(var, d) \<in> set variables_requeridas" and "falta env var"
  shows "w0 = w \<and>
    main prov env config_file w = (1, w\<lparr>salida := salida w @ informe_faltantes env\<rparr>) \<and>
    (Stderr, ''  - '' @ var @ '' ('' @ d @ '')'') \<in> set (informe_faltantes env)"
proof -
  from assms(2,3) have ne: "filter (\<lambda>(var, d). falta env var) variables_requeridas \<noteq> []"
    by (auto simp: filter_empty_conv)
  have w0: "w0 = w"
    using assms(1)
    by (auto simp: cargar_configuracion_def devolver_def lanzar_def ligar_imprimir
        split: option.splits if_splits sum.splits excepcion.splits)
  have "main prov env config_file w = (1, w\<lparr>salida := salida w @ informe_faltantes env\<rparr>)"
    using ne assms(1) w0
    by (simp add: main_def ejecutar_def init_DespliegueRH_def ligar_def
        validar_variables_entorno_eq)
  moreover have "(Stderr, ''  - '' @ var @ '' ('' @ d @ '')'') \<in> set (informe_faltantes env)"
    using assms(2,3) by (force simp: informe_faltantes_def)
  ultimately show ?thesis using w0 by simp
qed

theorem variables_faltantes_termina_witness:
  "cargar_configuracion entorno_sin_claves None (mundo_inicial [Inr (RGroupId ''sg-1'')]) =
     (Inr config_default, mundo_inicial [Inr (RGroupId ''sg-1'')]) \<and>
   (''AWS_SECRET_ACCESS_KEY'', ''AWS Secret Access Key'') \<in> set variables_requeridas \<and>
   falta entorno_sin_claves ''AWS_SECRET_ACCESS_KEY'' \<and>
   main prov_guion entorno_sin_claves None (mundo_inicial [Inr (RGroupId ''sg-1'')]) =
     (1, \<lparr>nube = [Inr (RGroupId ''sg-1'')], llamadas = [],
          salida =
            [(Stderr, ''Error: Las siguientes variables de entorno deben estar definidas:''),
             (Stderr, ''  - RDS_ADMIN_PASSWORD (Contrase'' @ [CHR 0xC3, CHR 0xB1]
                      @ ''a del administrador de RDS)''),
             (Stderr, ''  - AWS_SECRET_ACCESS_KEY (AWS Secret Access Key)''),
             (Stderr, CHR 0x0A # ''Ejemplo:''),
             (Stderr, ''  export RDS_ADMIN_PASSWORD='' @ [CHR 0x27] @ ''tu_password_seguro''
                      @ [CHR 0x27])],
          recursos_creados = []\<rparr>)"
proof -
  have h1: "cargar_configuracion entorno_sin_claves None (mundo_inicial [Inr (RGroupId ''sg-1'')]) =
     (Inr config_default, mundo_inicial [Inr (RGroupId ''sg-1'')])"
    by (simp add: cargar_configuracion_def devolver_def)
  have h2: "(''AWS_SECRET_ACCESS_KEY'', ''AWS Secret Access Key'') \<in> set variables_requeridas"
    by (simp add: variables_requeridas_def)
  have h3: "falta entorno_sin_claves ''AWS_SECRET_ACCESS_KEY''"
    by (simp add: falta_def entorno_sin_claves_def)
  have i: "informe_faltantes entorno_sin_claves =
            [(Stderr, ''Error: Las siguientes variables de entorno deben estar definidas:''),
             (Stderr, ''  - RDS_ADMIN_PASSWORD (Contrase'' @ [CHR 0xC3, CHR 0xB1]
                      @ ''a del administrador de RDS)''),
             (Stderr, ''  - AWS_SECRET_ACCESS_KEY (AWS Secret Access Key)''),
             (Stderr, CHR 0x0A # ''Ejemplo:''),
             (Stderr, ''  export RDS_ADMIN_PASSWORD='' @ [CHR 0x27] @ ''tu_password_seguro''
                      @ [CHR 0x27])]"
    by (simp add: informe_faltantes_def variables_requeridas_def falta_def entorno_sin_claves_def)
  from variables_faltantes_termina [OF h1 h2 h3, of prov_guion] h1 h2 h3 show ?thesis
    by (simp add: i mundo_inicial_def)
qed

subsection \<open>crear_security_group\<close>

lemma leer_GroupId_caso:
  "leer_GroupId r = (case r of RGroupId g \<Rightarrow> devolver g
     | _ \<Rightarrow> lanzar (Excepcion ([CHR 0x27] @ ''GroupId'' @ [CHR 0x27])))"
  by (cases r) simp_all

lemma leer_primer_grupo_caso:
  "leer_primer_grupo r = (case r of
       RSecurityGroups (g # gs) \<Rightarrow> devolver g
     | RSecurityGroups [] \<Rightarrow> lanzar (Excepcion ''list index out of range'')
     | _ \<Rightarrow> lanzar (Excepcion ([CHR 0x27] @ ''SecurityGroups'' @ [CHR 0x27])))"
  by (cases r rule: leer_primer_grupo.cases) simp_all

lemma crear_security_group_traza:
  assumes "cfg ''app_name'' = Some app" and "cfg ''environment'' = Some ambiente"
    and "crear_security_group prov cfg w = (r, w')"
  shows "\<exists>d tags res1 resto.
      llamadas w' = llamadas w @ (CreateSecurityGroup (py_str app @ ''-sg'') d tags, res1) # resto \<and>
      (\<forall>t. res1 = Inl (ClientError ''InvalidGroup.Duplicate'' t) \<longrightarrow>
         (\<exists>res2. resto = [(DescribeSecurityGroups [py_str app @ ''-sg''], res2)] \<and>
            (\<forall>g gs. res2 = Inr (RSecurityGroups (g # gs)) \<longrightarrow>
               r = Inr g \<and>
               salida w' = salida w @ [(Stdout, marca_aviso @ '' Security Group ya existe: '' @ g)]))) \<and>
      (\<forall>code t. res1 = Inl (ClientError code t) \<longrightarrow> code \<noteq> ''InvalidGroup.Duplicate'' \<longrightarrow>
         resto = [] \<and> r = Inl (ClientError code t) \<and>
         salida w' = salida w @ [(Stderr, marca_error @ '' Error creando Security Group: '' @ t)])"
  using assms(3)
  by (auto simp: crear_security_group_def leer_def assms(1,2) Let_def correr
      leer_GroupId_caso leer_primer_grupo_caso
      split: prod.splits sum.splits excepcion.splits respuesta.splits list.splits if_splits)

lemma buscar_grupo_agregar_reglas:
  "buscar_grupo (agregar_reglas ident ps reg) nombre = buscar_grupo reg nombre"
  by (induction reg) auto

lemma buscar_grupo_nuevo:
  "buscar_grupo reg nombre = None \<Longrightarrow> buscar_grupo (reg @ [(nombre, g, ps)]) nombre = Some g"
  by (induction reg) (auto split: if_splits)

lemma reglas_de_nuevo: "reglas_de (reg @ [(nombre, g, ps)]) g \<noteq> None"
  by (induction reg) auto

lemma crear_security_group_registro_libre:
  assumes "cfg ''app_name'' = Some app" and "cfg ''environment'' = Some ambiente"
    and "buscar_grupo (nube v) (py_str app @ ''-sg'') = None"
  shows "\<exists>g v1. crear_security_group prov_grupos cfg v = (Inr g, v1) \<and>
           buscar_grupo (nube v1) (py_str app @ ''-sg'') = Some g"
proof -
  from reglas_de_nuevo [of "nube v" "py_str app @ ''-sg''" "id_nuevo (nube v)" "[]"]
  obtain ps where "reglas_de (nube v @ [(py_str app @ ''-sg'', id_nuevo (nube v), [])])
      (id_nuevo (nube v)) = Some ps"
    by blast
  then show ?thesis
    using assms(3)
    by (simp add: crear_security_group_def leer_def assms(1,2) Let_def correr
        buscar_grupo_agregar_reglas buscar_grupo_nuevo)
qed

lemma crear_security_group_registro_ocupado:
  assumes "cfg ''app_name'' = Some app" and "cfg ''environment'' = Some ambiente"
    and "buscar_grupo (nube v) (py_str app @ ''-sg'') = Some g"
  shows "\<exists>t d tags. crear_security_group prov_grupos cfg v =
      (Inr g,
       v\<lparr>llamadas := llamadas v @
            [(CreateSecurityGroup (py_str app @ ''-sg'') d tags,
              Inl (ClientError ''InvalidGroup.Duplicate'' t)),
             (DescribeSecurityGroups [py_str app @ ''-sg''], Inr (RSecurityGroups [g]))],
          salida := salida v @ [(Stdout, marca_aviso @ '' Security Group ya existe: '' @ g)]\<rparr>)"
  using assms(3)
  by (intro exI) (simp add: crear_security_group_def leer_def assms(1,2) Let_def correr)

lemma crear_security_group_reglas:
  assumes "cfg ''app_name'' = Some app" and "cfg ''environment'' = Some ambiente"
    and "crear_security_group prov cfg w = (r, w')"
  shows "(\<forall>c t resto. nuevas w w' = (c, Inl (ClientError ''InvalidGroup.Duplicate'' t)) # resto \<longrightarrow>
            (\<exists>res2. resto = [(DescribeSecurityGroups [py_str app @ ''-sg''], res2)]) \<and>
            (\<forall>g ps res. (AuthorizeSecurityGroupIngress g ps, res) \<notin> set (nuevas w w'))) \<and>
         (\<forall>g ps res. (AuthorizeSecurityGroupIngress g ps, res) \<in> set (nuevas w w') \<longrightarrow>
            ps = reglas_ingreso \<and> (\<exists>c resto. nuevas w w' = (c, Inr (RGroupId g)) # resto))"
  using assms(3)
  by (auto simp: crear_security_group_def leer_def assms(1,2) Let_def correr nuevas_def
      leer_GroupId_caso leer_primer_grupo_caso
      split: prod.splits sum.splits excepcion.splits respuesta.splits list.splits if_splits)

text \<open>
  C3. The first provider call of \<^verbatim>\<open>crear_security_group\<close> is the creation of the group
  \<open>app_name-sg\<close>. When that call fails with the code \<open>InvalidGroup.Duplicate\<close>, the only
  other call is a lookup of the groups named \<open>app_name-sg\<close>, and when the lookup returns
  a group the function returns its identifier, without raising, after one warning on
  the standard output. When the creation fails with any other code, no other call is
  made and the same fault is raised again, after one line on the error stream.
  Against the reference provider the identifier is the one of the earlier creation: on
  a registry without the name the function creates the group and leaves it registered
  under the identifier it returns, and on a registry that has the name under an
  identifier the function returns that identifier through the duplicate fault and the
  lookup.
\<close>

theorem crear_security_group_duplicado:
  assumes "completa cfg" and "cfg ''app_name'' = Some app"
  shows "(crear_security_group prov cfg w = (r, w') \<longrightarrow>
      (\<exists>d tags res1 resto.
         llamadas w' = llamadas w @ (CreateSecurityGroup (py_str app @ ''-sg'') d tags, res1) # resto \<and>
         (\<forall>t. res1 = Inl (ClientError ''InvalidGroup.Duplicate'' t) \<longrightarrow>
            (\<exists>res2. resto = [(DescribeSecurityGroups [py_str app @ ''-sg''], res2)] \<and>
               (\<forall>g gs. res2 = Inr (RSecurityGroups (g # gs)) \<longrightarrow>
                  r = Inr g \<and>
                  salida w' = salida w @
                    [(Stdout, marca_aviso @ '' Security Group ya existe: '' @ g)]))) \<and>
         (\<forall>code t. res1 = Inl (ClientError code t) \<longrightarrow> code \<noteq> ''InvalidGroup.Duplicate'' \<longrightarrow>
            resto = [] \<and> r = Inl (ClientError code t) \<and>
            salida w' = salida w @
              [(Stderr, marca_error @ '' Error creando Security Group: '' @ t)]))) \<and>
    (buscar_grupo (nube v) (py_str app @ ''-sg'') = None \<longrightarrow>
      (\<exists>g v1. crear_security_group prov_grupos cfg v = (Inr g, v1) \<and>
         buscar_grupo (nube v1) (py_str app @ ''-sg'') = Some g)) \<and>
    (buscar_grupo (nube u) (py_str app @ ''-sg'') = Some g \<longrightarrow>
      (\<exists>t d tags. crear_security_group prov_grupos cfg u =
         (Inr g,
          u\<lparr>llamadas := llamadas u @
               [(CreateSecurityGroup (py_str app @ ''-sg'') d tags,
                 Inl (ClientError ''InvalidGroup.Duplicate'' t)),
                (DescribeSecurityGroups [py_str app @ ''-sg''], Inr (RSecurityGroups [g]))],
             salida := salida u @
               [(Stdout, marca_aviso @ '' Security Group ya existe: '' @ g)]\<rparr>)))"
proof -
  from assms(1) obtain ambiente where amb: "cfg ''environment'' = Some ambiente"
    by (rule completa_claves)
  show ?thesis
    using crear_security_group_traza [OF assms(2) amb, of prov w r w']
      crear_security_group_registro_libre [OF assms(2) amb, of v]
      crear_security_group_registro_ocupado [OF assms(2) amb, of u g]
    by blast
qed

theorem crear_security_group_duplicado_witness:
  "completa config_default \<and> config_default ''app_name'' = Some (VStr ''app-rh-devops'') \<and>
   crear_security_group prov_guion config_default
      (mundo_inicial [Inl (ClientError ''InvalidGroup.Duplicate'' ''ya existe''),
                      Inr (RSecurityGroups [''sg-77''])]) =
     (Inr ''sg-77'',
      \<lparr>nube = [],
       llamadas =
         [(CreateSecurityGroup ''app-rh-devops-sg''
             (''Security Group para aplicaci'' @ [CHR 0xC3, CHR 0xB3] @ ''n de RH - production'')
             [(''Name'', VStr ''app-rh-devops-sg''), (''Environment'', VStr ''production''),
              (''Application'', VStr ''Recursos Humanos'')],
           Inl (ClientError ''InvalidGroup.Duplicate'' ''ya existe'')),
          (DescribeSecurityGroups [''app-rh-devops-sg''], Inr (RSecurityGroups [''sg-77'']))],
       salida = [(Stdout, marca_aviso @ '' Security Group ya existe: sg-77'')],
       recursos_creados = []\<rparr>) \<and>
   buscar_grupo (nube (mundo_inicial ([] :: registro))) ''app-rh-devops-sg'' = None \<and>
   (\<exists>v1. crear_security_group prov_grupos config_default (mundo_inicial []) = (Inr ''sg-0'', v1) \<and>
      buscar_grupo (nube v1) ''app-rh-devops-sg'' = Some ''sg-0'' \<and>
      (\<exists>v2. crear_security_group prov_grupos config_default v1 = (Inr ''sg-0'', v2)))"
proof -
  have h1: "completa config_default"
    by (rule completa_config_default)
  have h2: "config_default ''app_name'' = Some (VStr ''app-rh-devops'')"
    by (simp add: config_default_def)
  note t = crear_security_group_duplicado [OF h1 h2]
  have e1: "crear_security_group prov_guion config_default
      (mundo_inicial [Inl (ClientError ''InvalidGroup.Duplicate'' ''ya existe''),
                      Inr (RSecurityGroups [''sg-77''])]) =
     (Inr ''sg-77'',
      \<lparr>nube = [],
       llamadas =
         [(CreateSecurityGroup ''app-rh-devops-sg''
             (''Security Group para aplicaci'' @ [CHR 0xC3, CHR 0xB3] @ ''n de RH - production'')
             [(''Name'', VStr ''app-rh-devops-sg''), (''Environment'', VStr ''production''),
              (''Application'', VStr ''Recursos Humanos'')],
           Inl (ClientError ''InvalidGroup.Duplicate'' ''ya existe'')),
          (DescribeSecurityGroups [''app-rh-devops-sg''], Inr (RSecurityGroups [''sg-77'']))],
       salida = [(Stdout, marca_aviso @ '' Security Group ya existe: sg-77'')],
       recursos_creados = []\<rparr>)"
    by (simp add: crear_security_group_def config_default_def leer_def correr mundo_inicial_def
        Let_def)
  have e2: "buscar_grupo (nube (mundo_inicial ([] :: registro)))
      (py_str (VStr ''app-rh-devops'') @ ''-sg'') = None"
    by (simp add: mundo_inicial_def)
  from t [where v = "mundo_inicial ([] :: registro)", THEN conjunct2, THEN conjunct1, THEN mp,
      OF e2]
  obtain g v1 where v1: "crear_security_group prov_grupos config_default (mundo_inicial []) = (Inr g, v1)"
      "buscar_grupo (nube v1) (py_str (VStr ''app-rh-devops'') @ ''-sg'') = Some g"
    by blast
  have "fst (crear_security_group prov_grupos config_default (mundo_inicial [])) = Inr ''sg-0''"
    by (simp add: crear_security_group_def config_default_def leer_def correr mundo_inicial_def
        Let_def id_nuevo_def digitos.simps)
  with v1 have g: "g = ''sg-0''"
    by simp
  from t [where u = v1 and g = g, THEN conjunct2, THEN conjunct2, THEN mp, OF v1(2)]
  obtain v2 where "crear_security_group prov_grupos config_default v1 = (Inr g, v2)"
    by blast
  with v1 g have ex: "\<exists>v1. crear_security_group prov_grupos config_default (mundo_inicial []) = (Inr ''sg-0'', v1) \<and>
      buscar_grupo (nube v1) ''app-rh-devops-sg'' = Some ''sg-0'' \<and>
      (\<exists>v2. crear_security_group prov_grupos config_default v1 = (Inr ''sg-0'', v2))"
    by auto
  from e2 have e2': "buscar_grupo (nube (mundo_inicial ([] :: registro))) ''app-rh-devops-sg'' = None"
    by simp
  from h1 h2 e1 e2' ex show ?thesis
    by blast
qed

text \<open>
  C10. In a run of \<^verbatim>\<open>crear_security_group\<close> whose creation call fails with the code
  \<open>InvalidGroup.Duplicate\<close>, the only other call is the lookup: no call attaches ingress
  rules. In any run, a call that attaches ingress rules attaches the two rules of the
  script (ports 443 and 22) to the group that the creation call of the same run has
  just returned. Against the reference provider, a run on a registry that has the name
  returns the registered identifier and leaves the registry, and so the rules of the
  group, as they were.
\<close>

theorem crear_security_group_sin_reglas_en_duplicado:
  assumes "completa cfg" and "cfg ''app_name'' = Some app"
  shows "(crear_security_group prov cfg w = (r, w') \<longrightarrow>
      (\<forall>c t resto. nuevas w w' = (c, Inl (ClientError ''InvalidGroup.Duplicate'' t)) # resto \<longrightarrow>
         (\<exists>res2. resto = [(DescribeSecurityGroups [py_str app @ ''-sg''], res2)]) \<and>
         (\<forall>g ps res. (AuthorizeSecurityGroupIngress g ps, res) \<notin> set (nuevas w w'))) \<and>
      (\<forall>g ps res. (AuthorizeSecurityGroupIngress g ps, res) \<in> set (nuevas w w') \<longrightarrow>
         ps = reglas_ingreso \<and> (\<exists>c resto. nuevas w w' = (c, Inr (RGroupId g)) # resto))) \<and>
    (buscar_grupo (nube u) (py_str app @ ''-sg'') = Some g \<longrightarrow>
      fst (crear_security_group prov_grupos cfg u) = Inr g \<and>
      nube (snd (crear_security_group prov_grupos cfg u)) = nube u)"
proof -
  from assms(1) obtain ambiente where amb: "cfg ''environment'' = Some ambiente"
    by (rule completa_claves)
  have "buscar_grupo (nube u) (py_str app @ ''-sg'') = Some g \<longrightarrow>
      fst (crear_security_group prov_grupos cfg u) = Inr g \<and>
      nube (snd (crear_security_group prov_grupos cfg u)) = nube u"
    using crear_security_group_registro_ocupado [OF assms(2) amb, of u g]
    by auto
  then show ?thesis
    using crear_security_group_reglas [OF assms(2) amb, of prov w r w']
    by blast
qed

theorem crear_security_group_sin_reglas_en_duplicado_witness:
  "completa config_default \<and> config_default ''app_name'' = Some (VStr ''app-rh-devops'') \<and>
   (\<exists>w'. crear_security_group prov_guion config_default
      (mundo_inicial [Inl (ClientError ''InvalidGroup.Duplicate'' ''ya existe''),
                      Inr (RSecurityGroups [''sg-77''])]) = (Inr ''sg-77'', w') \<and>
      map fst (nuevas (mundo_inicial [Inl (ClientError ''InvalidGroup.Duplicate'' ''ya existe''),
                      Inr (RSecurityGroups [''sg-77''])]) w') =
        [CreateSecurityGroup ''app-rh-devops-sg''
             (''Security Group para aplicaci'' @ [CHR 0xC3, CHR 0xB3] @ ''n de RH - production'')
             [(''Name'', VStr ''app-rh-devops-sg''), (''Environment'', VStr ''production''),
              (''Application'', VStr ''Recursos Humanos'')],
         DescribeSecurityGroups [''app-rh-devops-sg'']] \<and>
      (AuthorizeSecurityGroupIngress ''sg-77'' reglas_ingreso, Inr RNada) \<notin>
        set (nuevas (mundo_inicial [Inl (ClientError ''InvalidGroup.Duplicate'' ''ya existe''),
                      Inr (RSecurityGroups [''sg-77''])]) w')) \<and>
   (\<exists>w'. crear_security_group prov_guion config_default
      (mundo_inicial [Inr (RGroupId ''sg-1''), Inr RNada]) = (Inr ''sg-1'', w') \<and>
      (AuthorizeSecurityGroupIngress ''sg-1'' reglas_ingreso, Inr RNada) \<in>
        set (nuevas (mundo_inicial [Inr (RGroupId ''sg-1''), Inr RNada]) w')) \<and>
   buscar_grupo (nube (mundo_inicial [(''app-rh-devops-sg'', ''sg-0'', reglas_ingreso)]))
     ''app-rh-devops-sg'' = Some ''sg-0'' \<and>
   nube (snd (crear_security_group prov_grupos config_default
     (mundo_inicial [(''app-rh-devops-sg'', ''sg-0'', reglas_ingreso)]))) =
     [(''app-rh-devops-sg'', ''sg-0'', reglas_ingreso)]"
proof -
  have h1: "completa config_default"
    by (rule completa_config_default)
  have h2: "config_default ''app_name'' = Some (VStr ''app-rh-devops'')"
    by (simp add: config_default_def)
  note t = crear_security_group_sin_reglas_en_duplicado [OF h1 h2]
  let ?w = "mundo_inicial [Inl (ClientError ''InvalidGroup.Duplicate'' ''ya existe''),
                      Inr (RSecurityGroups [''sg-77''])]"
  let ?c = "CreateSecurityGroup ''app-rh-devops-sg''
             (''Security Group para aplicaci'' @ [CHR 0xC3, CHR 0xB3] @ ''n de RH - production'')
             [(''Name'', VStr ''app-rh-devops-sg''), (''Environment'', VStr ''production''),
              (''Application'', VStr ''Recursos Humanos'')]"
  let ?w' = "\<lparr>nube = [],
       llamadas =
         [(?c, Inl (ClientError ''InvalidGroup.Duplicate'' ''ya existe'')),
          (DescribeSecurityGroups [''app-rh-devops-sg''], Inr (RSecurityGroups [''sg-77'']))],
       salida = [(Stdout, marca_aviso @ '' Security Group ya existe: sg-77'')],
       recursos_creados = []\<rparr>"
  have e1: "crear_security_group prov_guion config_default ?w = (Inr ''sg-77'', ?w')"
    by (simp add: crear_security_group_def config_default_def leer_def correr mundo_inicial_def
        Let_def)
  have n1: "nuevas ?w ?w' = (?c, Inl (ClientError ''InvalidGroup.Duplicate'' ''ya existe'')) #
      [(DescribeSecurityGroups [''app-rh-devops-sg''], Inr (RSecurityGroups [''sg-77'']))]"
    by (simp add: nuevas_def mundo_inicial_def)
  note t1 = t [THEN conjunct1, THEN mp, OF e1, THEN conjunct1, rule_format, OF n1]
  have a1: "(AuthorizeSecurityGroupIngress ''sg-77'' reglas_ingreso, Inr RNada) \<notin> set (nuevas ?w ?w')"
    by (rule t1 [THEN conjunct2, rule_format])
  from n1 have m1: "map fst (nuevas ?w ?w') = [?c, DescribeSecurityGroups [''app-rh-devops-sg'']]"
    by simp
  let ?v = "mundo_inicial [Inr (RGroupId ''sg-1''), Inr RNada]"
  let ?v' = "\<lparr>nube = [],
       llamadas =
         [(?c, Inr (RGroupId ''sg-1'')),
          (AuthorizeSecurityGroupIngress ''sg-1'' reglas_ingreso, Inr RNada)],
       salida = [(Stdout, marca_ok @ '' Security Group creado: sg-1''),
                 (Stdout, marca_ok @ '' Reglas de seguridad configuradas para sg-1'')],
       recursos_creados = []\<rparr>"
  have e2: "crear_security_group prov_guion config_default ?v = (Inr ''sg-1'', ?v')"
    by (simp add: crear_security_group_def config_default_def leer_def correr mundo_inicial_def
        Let_def)
  have a2: "(AuthorizeSecurityGroupIngress ''sg-1'' reglas_ingreso, Inr RNada) \<in> set (nuevas ?v ?v')"
    by (simp add: nuevas_def mundo_inicial_def)
  let ?u = "mundo_inicial [(''app-rh-devops-sg'', ''sg-0'', reglas_ingreso)]"
  have e3: "buscar_grupo (nube ?u) (py_str (VStr ''app-rh-devops'') @ ''-sg'') = Some ''sg-0''"
    by (simp add: mundo_inicial_def)
  note t3 = t [THEN conjunct2, THEN mp, OF e3, THEN conjunct2]
  have a3: "nube (snd (crear_security_group prov_grupos config_default ?u)) =
     [(''app-rh-devops-sg'', ''sg-0'', reglas_ingreso)]"
    unfolding t3 by (simp add: mundo_inicial_def)
  from e3 have e3': "buscar_grupo (nube ?u) ''app-rh-devops-sg'' = Some ''sg-0''"
    by simp
  from e1 m1 a1 have p1: "\<exists>w'. crear_security_group prov_guion config_default ?w = (Inr ''sg-77'', w') \<and>
      map fst (nuevas ?w w') = [?c, DescribeSecurityGroups [''app-rh-devops-sg'']] \<and>
      (AuthorizeSecurityGroupIngress ''sg-77'' reglas_ingreso, Inr RNada) \<notin> set (nuevas ?w w')"
    by (intro exI [of _ ?w'] conjI) assumption+
  from e2 a2 have p2: "\<exists>w'. crear_security_group prov_guion config_default ?v = (Inr ''sg-1'', w') \<and>
      (AuthorizeSecurityGroupIngress ''sg-1'' reglas_ingreso, Inr RNada) \<in> set (nuevas ?v w')"
    by (intro exI [of _ ?v'] conjI) assumption+
  from h1 h2 p1 p2 e3' a3 show ?thesis
    by (intro conjI) assumption+
qed

subsection \<open>crear_bucket_s3_backup\<close>

text \<open>
  C5. A run of \<^verbatim>\<open>crear_bucket_s3_backup\<close> puts to the provider, in this order, the
  creation of the bucket, with no location constraint when the region is \<open>us-east-1\<close>
  and with the configured region as location constraint otherwise, and then the
  encryption, versioning, public-access-block and tagging calls, which do not depend
  on the region. The events of the run are the ones of the provider serving these five
  calls up to the first that fails, and the provider is left in the state it reached.
  A run in which no call fails has made all five, returns the bucket name and prints one
  line on the standard output; a run in which a call fails stops there and raises the
  fault of that call, after one line on the error stream when the fault is a
  \<^verbatim>\<open>ClientError\<close>. The run makes the first call always.
\<close>

theorem crear_bucket_s3_backup_region:
  assumes "cfg ''app_name'' = Some app" and "cfg ''region'' = Some region"
    and "cfg ''environment'' = Some ambiente"
    and "crear_bucket_s3_backup prov env cfg w = (r, w')"
    and "b = py_str app @ ''-backups-'' @ str_int (reloj env)"
    and "cs = [CreateBucket b (if region = VStr ''us-east-1'' then None else Some region),
       PutBucketEncryption b ''AES256'',
       PutBucketVersioning b ''Enabled'',
       PutPublicAccessBlock b True True True True,
       PutBucketTagging b [(''Name'', VStr b), (''Environment'', ambiente),
          (''Application'', VStr ''Recursos Humanos''), (''Purpose'', VStr ''Backups'')]]"
  shows "llamadas w' = llamadas w @ fst (atender prov (nube w) cs) \<and>
    nube w' = snd (atender prov (nube w) cs) \<and>
    recursos_creados w' = recursos_creados w \<and>
    r = (case fallos (nuevas w w') of [] \<Rightarrow> Inr b | e # es \<Rightarrow> Inl e) \<and>
    salida w' = salida w @
      (case fallos (nuevas w w') of
         [] \<Rightarrow> [(Stdout, marca_ok @ '' Bucket S3 creado con encriptaci'' @ [CHR 0xC3, CHR 0xB3]
                      @ ''n: '' @ b)]
       | ClientError code t # es \<Rightarrow> [(Stderr, marca_error @ '' Error creando bucket S3: '' @ t)]
       | e # es \<Rightarrow> []) \<and>
    ((\<forall>c e. (c, Inl e) \<notin> set (nuevas w w')) \<longrightarrow> r = Inr b \<and> map fst (nuevas w w') = cs) \<and>
    prefix (map fst (nuevas w w')) cs \<and>
    map fst (nuevas w w') \<noteq> [] \<and>
    (\<forall>x. r = Inr x \<longrightarrow> x = b \<and> length (nuevas w w') = 5) \<and>
    (\<forall>c e. (c, Inl e) \<in> set (nuevas w w') \<longrightarrow> r = Inl e \<and> last (nuevas w w') = (c, Inl e))"
proof -
  note d = crear_bucket_s3_backup_def leer_def assms(1,2,3,5,6) Let_def correr nuevas_def
  obtain r1 p1 where a1: "prov (nube w) (CreateBucket b (if region = VStr ''us-east-1'' then None else Some region)) = (r1, p1)"
    by (cases "prov (nube w) (CreateBucket b (if region = VStr ''us-east-1'' then None else Some region))")
  show ?thesis
  proof (cases r1)
    case f1: (Inl e)
    show ?thesis
      using assms(4) a1 f1
      by (cases e) (auto simp: d split: if_splits)
  next
    case x1: (Inr y1)
    obtain r2 p2 where a2: "prov (p1) (PutBucketEncryption b ''AES256'') = (r2, p2)"
      by (cases "prov (p1) (PutBucketEncryption b ''AES256'')")
    show ?thesis
    proof (cases r2)
      case f2: (Inl e)
      show ?thesis
        using assms(4) a1 x1 a2 f2
        by (cases e) (auto simp: d split: if_splits)
    next
      case x2: (Inr y2)
      obtain r3 p3 where a3: "prov (p2) (PutBucketVersioning b ''Enabled'') = (r3, p3)"
        by (cases "prov (p2) (PutBucketVersioning b ''Enabled'')")
      show ?thesis
      proof (cases r3)
        case f3: (Inl e)
        show ?thesis
          using assms(4) a1 x1 a2 x2 a3 f3
          by (cases e) (auto simp: d split: if_splits)
      next
        case x3: (Inr y3)
        obtain r4 p4 where a4: "prov (p3) (PutPublicAccessBlock b True True True True) = (r4, p4)"
          by (cases "prov (p3) (PutPublicAccessBlock b True True True True)")
        show ?thesis
        proof (cases r4)
          case f4: (Inl e)
          show ?thesis
            using assms(4) a1 x1 a2 x2 a3 x3 a4 f4
            by (cases e) (auto simp: d split: if_splits)
        next
          case x4: (Inr y4)
          obtain r5 p5 where a5: "prov (p4) (PutBucketTagging b [(''Name'', VStr b), (''Environment'', ambiente),
          (''Application'', VStr ''Recursos Humanos''), (''Purpose'', VStr ''Backups'')]) = (r5, p5)"
            by (cases "prov (p4) (PutBucketTagging b [(''Name'', VStr b), (''Environment'', ambiente),
          (''Application'', VStr ''Recursos Humanos''), (''Purpose'', VStr ''Backups'')])")
          show ?thesis
          proof (cases r5)
            case f5: (Inl e)
            show ?thesis
              using assms(4) a1 x1 a2 x2 a3 x3 a4 x4 a5 f5
              by (cases e) (auto simp: d split: if_splits)
          next
            case x5: (Inr y5)
            show ?thesis
              using assms(4) a1 x1 a2 x2 a3 x3 a4 x4 a5 x5
              by (auto simp: d split: if_splits)
          qed
        qed
      qed
    qed
  qed
qed

theorem crear_bucket_s3_backup_region_witness:
  "config_default ''app_name'' = Some (VStr ''app-rh-devops'') \<and>
   config_default ''region'' = Some (VStr ''us-east-1'') \<and>
   config_default ''environment'' = Some (VStr ''production'') \<and>
   crear_bucket_s3_backup prov_guion entorno_ejemplo config_default
       (guion []) =
     (Inr ''app-rh-devops-backups-1700000000'',
      \<lparr>nube = [],
        llamadas = map (\<lambda>c. (c, Inr RNada))
          [CreateBucket ''app-rh-devops-backups-1700000000'' None,
           PutBucketEncryption ''app-rh-devops-backups-1700000000'' ''AES256'',
           PutBucketVersioning ''app-rh-devops-backups-1700000000'' ''Enabled'',
           PutPublicAccessBlock ''app-rh-devops-backups-1700000000'' True True True True,
           PutBucketTagging ''app-rh-devops-backups-1700000000''
            [(''Name'', VStr ''app-rh-devops-backups-1700000000''),
             (''Environment'', VStr ''production''),
             (''Application'', VStr ''Recursos Humanos''), (''Purpose'', VStr ''Backups'')]],
        salida = [(Stdout, marca_ok @ '' Bucket S3 creado con encriptaci'' @ [CHR 0xC3, CHR 0xB3]
                     @ ''n: app-rh-devops-backups-1700000000'')],
        recursos_creados = []\<rparr>) \<and>
   (\<forall>c e. (c, Inl e) \<notin> set (nuevas (guion []) \<lparr>nube = [],
        llamadas = map (\<lambda>c. (c, Inr RNada))
          [CreateBucket ''app-rh-devops-backups-1700000000'' None,
           PutBucketEncryption ''app-rh-devops-backups-1700000000'' ''AES256'',
           PutBucketVersioning ''app-rh-devops-backups-1700000000'' ''Enabled'',
           PutPublicAccessBlock ''app-rh-devops-backups-1700000000'' True True True True,
           PutBucketTagging ''app-rh-devops-backups-1700000000''
            [(''Name'', VStr ''app-rh-devops-backups-1700000000''),
             (''Environment'', VStr ''production''),
             (''Application'', VStr ''Recursos Humanos''), (''Purpose'', VStr ''Backups'')]],
        salida = [(Stdout, marca_ok @ '' Bucket S3 creado con encriptaci'' @ [CHR 0xC3, CHR 0xB3]
                     @ ''n: app-rh-devops-backups-1700000000'')],
        recursos_creados = []\<rparr>)) \<and>
   map fst (nuevas (guion []) \<lparr>nube = [],
        llamadas = map (\<lambda>c. (c, Inr RNada))
          [CreateBucket ''app-rh-devops-backups-1700000000'' None,
           PutBucketEncryption ''app-rh-devops-backups-1700000000'' ''AES256'',
           PutBucketVersioning ''app-rh-devops-backups-1700000000'' ''Enabled'',
           PutPublicAccessBlock ''app-rh-devops-backups-1700000000'' True True True True,
           PutBucketTagging ''app-rh-devops-backups-1700000000''
            [(''Name'', VStr ''app-rh-devops-backups-1700000000''),
             (''Environment'', VStr ''production''),
             (''Application'', VStr ''Recursos Humanos''), (''Purpose'', VStr ''Backups'')]],
        salida = [(Stdout, marca_ok @ '' Bucket S3 creado con encriptaci'' @ [CHR 0xC3, CHR 0xB3]
                     @ ''n: app-rh-devops-backups-1700000000'')],
        recursos_creados = []\<rparr>) =
     [CreateBucket ''app-rh-devops-backups-1700000000'' None,
      PutBucketEncryption ''app-rh-devops-backups-1700000000'' ''AES256'',
      PutBucketVersioning ''app-rh-devops-backups-1700000000'' ''Enabled'',
      PutPublicAccessBlock ''app-rh-devops-backups-1700000000'' True True True True,
      PutBucketTagging ''app-rh-devops-backups-1700000000''
            [(''Name'', VStr ''app-rh-devops-backups-1700000000''),
             (''Environment'', VStr ''production''),
             (''Application'', VStr ''Recursos Humanos''), (''Purpose'', VStr ''Backups'')]] \<and>
   length (nuevas (guion []) \<lparr>nube = [],
        llamadas = map (\<lambda>c. (c, Inr RNada))
          [CreateBucket ''app-rh-devops-backups-1700000000'' None,
           PutBucketEncryption ''app-rh-devops-backups-1700000000'' ''AES256'',
           PutBucketVersioning ''app-rh-devops-backups-1700000000'' ''Enabled'',
           PutPublicAccessBlock ''app-rh-devops-backups-1700000000'' True True True True,
           PutBucketTagging ''app-rh-devops-backups-1700000000''
            [(''Name'', VStr ''app-rh-devops-backups-1700000000''),
             (''Environment'', VStr ''production''),
             (''Application'', VStr ''Recursos Humanos''), (''Purpose'', VStr ''Backups'')]],
        salida = [(Stdout, marca_ok @ '' Bucket S3 creado con encriptaci'' @ [CHR 0xC3, CHR 0xB3]
                     @ ''n: app-rh-devops-backups-1700000000'')],
        recursos_creados = []\<rparr>) = 5 \<and>
   (config_default ++ archivo_ejemplo) ''app_name'' = Some (VStr ''app-rh-devops'') \<and>
   (config_default ++ archivo_ejemplo) ''region'' = Some (VStr ''eu-west-1'') \<and>
   (config_default ++ archivo_ejemplo) ''environment'' = Some (VStr ''production'') \<and>
   crear_bucket_s3_backup prov_guion entorno_ejemplo (config_default ++ archivo_ejemplo)
       (guion []) =
     (Inr ''app-rh-devops-backups-1700000000'',
      \<lparr>nube = [],
        llamadas = map (\<lambda>c. (c, Inr RNada))
          [CreateBucket ''app-rh-devops-backups-1700000000'' (Some (VStr ''eu-west-1'')),
           PutBucketEncryption ''app-rh-devops-backups-1700000000'' ''AES256'',
           PutBucketVersioning ''app-rh-devops-backups-1700000000'' ''Enabled'',
           PutPublicAccessBlock ''app-rh-devops-backups-1700000000'' True True True True,
           PutBucketTagging ''app-rh-devops-backups-1700000000''
            [(''Name'', VStr ''app-rh-devops-backups-1700000000''),
             (''Environment'', VStr ''production''),
             (''Application'', VStr ''Recursos Humanos''), (''Purpose'', VStr ''Backups'')]],
        salida = [(Stdout, marca_ok @ '' Bucket S3 creado con encriptaci'' @ [CHR 0xC3, CHR 0xB3]
                     @ ''n: app-rh-devops-backups-1700000000'')],
        recursos_creados = []\<rparr>) \<and>
   (\<forall>c e. (c, Inl e) \<notin> set (nuevas (guion []) \<lparr>nube = [],
        llamadas = map (\<lambda>c. (c, Inr RNada))
          [CreateBucket ''app-rh-devops-backups-1700000000'' (Some (VStr ''eu-west-1'')),
           PutBucketEncryption ''app-rh-devops-backups-1700000000'' ''AES256'',
           PutBucketVersioning ''app-rh-devops-backups-1700000000'' ''Enabled'',
           PutPublicAccessBlock ''app-rh-devops-backups-1700000000'' True True True True,
           PutBucketTagging ''app-rh-devops-backups-1700000000''
            [(''Name'', VStr ''app-rh-devops-backups-1700000000''),
             (''Environment'', VStr ''production''),
             (''Application'', VStr ''Recursos Humanos''), (''Purpose'', VStr ''Backups'')]],
        salida = [(Stdout, marca_ok @ '' Bucket S3 creado con encriptaci'' @ [CHR 0xC3, CHR 0xB3]
                     @ ''n: app-rh-devops-backups-1700000000'')],
        recursos_creados = []\<rparr>)) \<and>
   map fst (nuevas (guion []) \<lparr>nube = [],
        llamadas = map (\<lambda>c. (c, Inr RNada))
          [CreateBucket ''app-rh-devops-backups-1700000000'' (Some (VStr ''eu-west-1'')),
           PutBucketEncryption ''app-rh-devops-backups-1700000000'' ''AES256'',
           PutBucketVersioning ''app-rh-devops-backups-1700000000'' ''Enabled'',
           PutPublicAccessBlock ''app-rh-devops-backups-1700000000'' True True True True,
           PutBucketTagging ''app-rh-devops-backups-1700000000''
            [(''Name'', VStr ''app-rh-devops-backups-1700000000''),
             (''Environment'', VStr ''production''),
             (''Application'', VStr ''Recursos Humanos''), (''Purpose'', VStr ''Backups'')]],
        salida = [(Stdout, marca_ok @ '' Bucket S3 creado con encriptaci'' @ [CHR 0xC3, CHR 0xB3]
                     @ ''n: app-rh-devops-backups-1700000000'')],
        recursos_creados = []\<rparr>) =
     [CreateBucket ''app-rh-devops-backups-1700000000'' (Some (VStr ''eu-west-1'')),
      PutBucketEncryption ''app-rh-devops-backups-1700000000'' ''AES256'',
      PutBucketVersioning ''app-rh-devops-backups-1700000000'' ''Enabled'',
      PutPublicAccessBlock ''app-rh-devops-backups-1700000000'' True True True True,
      PutBucketTagging ''app-rh-devops-backups-1700000000''
            [(''Name'', VStr ''app-rh-devops-backups-1700000000''),
             (''Environment'', VStr ''production''),
             (''Application'', VStr ''Recursos Humanos''), (''Purpose'', VStr ''Backups'')]] \<and>
   length (nuevas (guion []) \<lparr>nube = [],
        llamadas = map (\<lambda>c. (c, Inr RNada))
          [CreateBucket ''app-rh-devops-backups-1700000000'' (Some (VStr ''eu-west-1'')),
           PutBucketEncryption ''app-rh-devops-backups-1700000000'' ''AES256'',
           PutBucketVersioning ''app-rh-devops-backups-1700000000'' ''Enabled'',
           PutPublicAccessBlock ''app-rh-devops-backups-1700000000'' True True True True,
           PutBucketTagging ''app-rh-devops-backups-1700000000''
            [(''Name'', VStr ''app-rh-devops-backups-1700000000''),
             (''Environment'', VStr ''production''),
             (''Application'', VStr ''Recursos Humanos''), (''Purpose'', VStr ''Backups'')]],
        salida = [(Stdout, marca_ok @ '' Bucket S3 creado con encriptaci'' @ [CHR 0xC3, CHR 0xB3]
                     @ ''n: app-rh-devops-backups-1700000000'')],
        recursos_creados = []\<rparr>) = 5 \<and>
   crear_bucket_s3_backup prov_guion entorno_ejemplo config_default
       (guion [Inr RNada, Inl (ClientError ''AccessDenied'' ''acceso denegado'')]) =
     (Inl (ClientError ''AccessDenied'' ''acceso denegado''),
      \<lparr>nube = [],
        llamadas =
          [(CreateBucket ''app-rh-devops-backups-1700000000'' None, Inr RNada),
           (PutBucketEncryption ''app-rh-devops-backups-1700000000'' ''AES256'', Inl (ClientError ''AccessDenied'' ''acceso denegado''))],
        salida = [(Stderr, marca_error @ '' Error creando bucket S3: acceso denegado'')],
        recursos_creados = []\<rparr>) \<and>
   (PutBucketEncryption ''app-rh-devops-backups-1700000000'' ''AES256'', Inl (ClientError ''AccessDenied'' ''acceso denegado''))
     \<in> set (nuevas (guion [Inr RNada, Inl (ClientError ''AccessDenied'' ''acceso denegado'')]) \<lparr>nube = [],
        llamadas =
          [(CreateBucket ''app-rh-devops-backups-1700000000'' None, Inr RNada),
           (PutBucketEncryption ''app-rh-devops-backups-1700000000'' ''AES256'', Inl (ClientError ''AccessDenied'' ''acceso denegado''))],
        salida = [(Stderr, marca_error @ '' Error creando bucket S3: acceso denegado'')],
        recursos_creados = []\<rparr>) \<and>
   last (nuevas (guion [Inr RNada, Inl (ClientError ''AccessDenied'' ''acceso denegado'')]) \<lparr>nube = [],
        llamadas =
          [(CreateBucket ''app-rh-devops-backups-1700000000'' None, Inr RNada),
           (PutBucketEncryption ''app-rh-devops-backups-1700000000'' ''AES256'', Inl (ClientError ''AccessDenied'' ''acceso denegado''))],
        salida = [(Stderr, marca_error @ '' Error creando bucket S3: acceso denegado'')],
        recursos_creados = []\<rparr>) =
     (PutBucketEncryption ''app-rh-devops-backups-1700000000'' ''AES256'', Inl (ClientError ''AccessDenied'' ''acceso denegado''))"
proof -
  let ?b = "''app-rh-devops-backups-1700000000''"
  have b: "?b = py_str (VStr ''app-rh-devops'') @ ''-backups-'' @ str_int (reloj entorno_ejemplo)"
    by (simp add: entorno_ejemplo_def str_int_def digitos.simps)
  have k1: "config_default ''app_name'' = Some (VStr ''app-rh-devops'')"
    and k2: "config_default ''region'' = Some (VStr ''us-east-1'')"
    and k3: "config_default ''environment'' = Some (VStr ''production'')"
    by (simp_all add: config_default_def)
  have j1: "(config_default ++ archivo_ejemplo) ''app_name'' = Some (VStr ''app-rh-devops'')"
    and j2: "(config_default ++ archivo_ejemplo) ''region'' = Some (VStr ''eu-west-1'')"
    and j3: "(config_default ++ archivo_ejemplo) ''environment'' = Some (VStr ''production'')"
    by (simp_all add: config_default_def archivo_ejemplo_def map_add_def)
  have e1: "crear_bucket_s3_backup prov_guion entorno_ejemplo config_default
       (guion []) =
     (Inr ''app-rh-devops-backups-1700000000'',
      \<lparr>nube = [],
        llamadas = map (\<lambda>c. (c, Inr RNada))
          [CreateBucket ''app-rh-devops-backups-1700000000'' None,
           PutBucketEncryption ''app-rh-devops-backups-1700000000'' ''AES256'',
           PutBucketVersioning ''app-rh-devops-backups-1700000000'' ''Enabled'',
           PutPublicAccessBlock ''app-rh-devops-backups-1700000000'' True True True True,
           PutBucketTagging ''app-rh-devops-backups-1700000000''
            [(''Name'', VStr ''app-rh-devops-backups-1700000000''),
             (''Environment'', VStr ''production''),
             (''Application'', VStr ''Recursos Humanos''), (''Purpose'', VStr ''Backups'')]],
        salida = [(Stdout, marca_ok @ '' Bucket S3 creado con encriptaci'' @ [CHR 0xC3, CHR 0xB3]
                     @ ''n: app-rh-devops-backups-1700000000'')],
        recursos_creados = []\<rparr>)"
    by (simp add: crear_bucket_s3_backup_def k1 k2 k3 leer_def correr mundo_inicial_def guion_def
        Let_def entorno_ejemplo_def str_int_def digitos.simps)
  note t1 = crear_bucket_s3_backup_region [OF k1 k2 k3 e1 b refl]
  have h1: "(\<forall>c e. (c, Inl e) \<notin> set (nuevas (guion []) \<lparr>nube = [],
        llamadas = map (\<lambda>c. (c, Inr RNada))
          [CreateBucket ''app-rh-devops-backups-1700000000'' None,
           PutBucketEncryption ''app-rh-devops-backups-1700000000'' ''AES256'',
           PutBucketVersioning ''app-rh-devops-backups-1700000000'' ''Enabled'',
           PutPublicAccessBlock ''app-rh-devops-backups-1700000000'' True True True True,
           PutBucketTagging ''app-rh-devops-backups-1700000000''
            [(''Name'', VStr ''app-rh-devops-backups-1700000000''),
             (''Environment'', VStr ''production''),
             (''Application'', VStr ''Recursos Humanos''), (''Purpose'', VStr ''Backups'')]],
        salida = [(Stdout, marca_ok @ '' Bucket S3 creado con encriptaci'' @ [CHR 0xC3, CHR 0xB3]
                     @ ''n: app-rh-devops-backups-1700000000'')],
        recursos_creados = []\<rparr>))"
    by (simp add: nuevas_def guion_def mundo_inicial_def)
  from t1 [THEN conjunct2, THEN conjunct2, THEN conjunct2, THEN conjunct2, THEN conjunct2, THEN conjunct1, THEN mp, OF h1]
  have m1: "map fst (nuevas (guion []) \<lparr>nube = [],
        llamadas = map (\<lambda>c. (c, Inr RNada))
          [CreateBucket ''app-rh-devops-backups-1700000000'' None,
           PutBucketEncryption ''app-rh-devops-backups-1700000000'' ''AES256'',
           PutBucketVersioning ''app-rh-devops-backups-1700000000'' ''Enabled'',
           PutPublicAccessBlock ''app-rh-devops-backups-1700000000'' True True True True,
           PutBucketTagging ''app-rh-devops-backups-1700000000''
            [(''Name'', VStr ''app-rh-devops-backups-1700000000''),
             (''Environment'', VStr ''production''),
             (''Application'', VStr ''Recursos Humanos''), (''Purpose'', VStr ''Backups'')]],
        salida = [(Stdout, marca_ok @ '' Bucket S3 creado con encriptaci'' @ [CHR 0xC3, CHR 0xB3]
                     @ ''n: app-rh-devops-backups-1700000000'')],
        recursos_creados = []\<rparr>) =
     [CreateBucket ''app-rh-devops-backups-1700000000'' None,
      PutBucketEncryption ''app-rh-devops-backups-1700000000'' ''AES256'',
      PutBucketVersioning ''app-rh-devops-backups-1700000000'' ''Enabled'',
      PutPublicAccessBlock ''app-rh-devops-backups-1700000000'' True True True True,
      PutBucketTagging ''app-rh-devops-backups-1700000000''
            [(''Name'', VStr ''app-rh-devops-backups-1700000000''),
             (''Environment'', VStr ''production''),
             (''Application'', VStr ''Recursos Humanos''), (''Purpose'', VStr ''Backups'')]]"
    by simp
  from t1 [THEN conjunct2, THEN conjunct2, THEN conjunct2, THEN conjunct2, THEN conjunct2, THEN conjunct2, THEN conjunct2, THEN conjunct2, THEN conjunct1, THEN spec, THEN mp, OF refl]
  have l1: "length (nuevas (guion []) \<lparr>nube = [],
        llamadas = map (\<lambda>c. (c, Inr RNada))
          [CreateBucket ''app-rh-devops-backups-1700000000'' None,
           PutBucketEncryption ''app-rh-devops-backups-1700000000'' ''AES256'',
           PutBucketVersioning ''app-rh-devops-backups-1700000000'' ''Enabled'',
           PutPublicAccessBlock ''app-rh-devops-backups-1700000000'' True True True True,
           PutBucketTagging ''app-rh-devops-backups-1700000000''
            [(''Name'', VStr ''app-rh-devops-backups-1700000000''),
             (''Environment'', VStr ''production''),
             (''Application'', VStr ''Recursos Humanos''), (''Purpose'', VStr ''Backups'')]],
        salida = [(Stdout, marca_ok @ '' Bucket S3 creado con encriptaci'' @ [CHR 0xC3, CHR 0xB3]
                     @ ''n: app-rh-devops-backups-1700000000'')],
        recursos_creados = []\<rparr>) = 5"
    by simp
  have e2: "crear_bucket_s3_backup prov_guion entorno_ejemplo (config_default ++ archivo_ejemplo)
       (guion []) =
     (Inr ''app-rh-devops-backups-1700000000'',
      \<lparr>nube = [],
        llamadas = map (\<lambda>c. (c, Inr RNada))
          [CreateBucket ''app-rh-devops-backups-1700000000'' (Some (VStr ''eu-west-1'')),
           PutBucketEncryption ''app-rh-devops-backups-1700000000'' ''AES256'',
           PutBucketVersioning ''app-rh-devops-backups-1700000000'' ''Enabled'',
           PutPublicAccessBlock ''app-rh-devops-backups-1700000000'' True True True True,
           PutBucketTagging ''app-rh-devops-backups-1700000000''
            [(''Name'', VStr ''app-rh-devops-backups-1700000000''),
             (''Environment'', VStr ''production''),
             (''Application'', VStr ''Recursos Humanos''), (''Purpose'', VStr ''Backups'')]],
        salida = [(Stdout, marca_ok @ '' Bucket S3 creado con encriptaci'' @ [CHR 0xC3, CHR 0xB3]
                     @ ''n: app-rh-devops-backups-1700000000'')],
        recursos_creados = []\<rparr>)"
    by (simp add: crear_bucket_s3_backup_def j1 j2 j3 leer_def correr mundo_inicial_def guion_def
        Let_def entorno_ejemplo_def str_int_def digitos.simps)
  note t2 = crear_bucket_s3_backup_region [OF j1 j2 j3 e2 b refl]
  have h2: "(\<forall>c e. (c, Inl e) \<notin> set (nuevas (guion []) \<lparr>nube = [],
        llamadas = map (\<lambda>c. (c, Inr RNada))
          [CreateBucket ''app-rh-devops-backups-1700000000'' (Some (VStr ''eu-west-1'')),
           PutBucketEncryption ''app-rh-devops-backups-1700000000'' ''AES256'',
           PutBucketVersioning ''app-rh-devops-backups-1700000000'' ''Enabled'',
           PutPublicAccessBlock ''app-rh-devops-backups-1700000000'' True True True True,
           PutBucketTagging ''app-rh-devops-backups-1700000000''
            [(''Name'', VStr ''app-rh-devops-backups-1700000000''),
             (''Environment'', VStr ''production''),
             (''Application'', VStr ''Recursos Humanos''), (''Purpose'', VStr ''Backups'')]],
        salida = [(Stdout, marca_ok @ '' Bucket S3 creado con encriptaci'' @ [CHR 0xC3, CHR 0xB3]
                     @ ''n: app-rh-devops-backups-1700000000'')],
        recursos_creados = []\<rparr>))"
    by (simp add: nuevas_def guion_def mundo_inicial_def)
  from t2 [THEN conjunct2, THEN conjunct2, THEN conjunct2, THEN conjunct2, THEN conjunct2, THEN conjunct1, THEN mp, OF h2]
  have m2: "map fst (nuevas (guion []) \<lparr>nube = [],
        llamadas = map (\<lambda>c. (c, Inr RNada))
          [CreateBucket ''app-rh-devops-backups-1700000000'' (Some (VStr ''eu-west-1'')),
           PutBucketEncryption ''app-rh-devops-backups-1700000000'' ''AES256'',
           PutBucketVersioning ''app-rh-devops-backups-1700000000'' ''Enabled'',
           PutPublicAccessBlock ''app-rh-devops-backups-1700000000'' True True True True,
           PutBucketTagging ''app-rh-devops-backups-1700000000''
            [(''Name'', VStr ''app-rh-devops-backups-1700000000''),
             (''Environment'', VStr ''production''),
             (''Application'', VStr ''Recursos Humanos''), (''Purpose'', VStr ''Backups'')]],
        salida = [(Stdout, marca_ok @ '' Bucket S3 creado con encriptaci'' @ [CHR 0xC3, CHR 0xB3]
                     @ ''n: app-rh-devops-backups-1700000000'')],
        recursos_creados = []\<rparr>) =
     [CreateBucket ''app-rh-devops-backups-1700000000'' (Some (VStr ''eu-west-1'')),
      PutBucketEncryption ''app-rh-devops-backups-1700000000'' ''AES256'',
      PutBucketVersioning ''app-rh-devops-backups-1700000000'' ''Enabled'',
      PutPublicAccessBlock ''app-rh-devops-backups-1700000000'' True True True True,
      PutBucketTagging ''app-rh-devops-backups-1700000000''
            [(''Name'', VStr ''app-rh-devops-backups-1700000000''),
             (''Environment'', VStr ''production''),
             (''Application'', VStr ''Recursos Humanos''), (''Purpose'', VStr ''Backups'')]]"
    by simp
  from t2 [THEN conjunct2, THEN conjunct2, THEN conjunct2, THEN conjunct2, THEN conjunct2, THEN conjunct2, THEN conjunct2, THEN conjunct2, THEN conjunct1, THEN spec, THEN mp, OF refl]
  have l2: "length (nuevas (guion []) \<lparr>nube = [],
        llamadas = map (\<lambda>c. (c, Inr RNada))
          [CreateBucket ''app-rh-devops-backups-1700000000'' (Some (VStr ''eu-west-1'')),
           PutBucketEncryption ''app-rh-devops-backups-1700000000'' ''AES256'',
           PutBucketVersioning ''app-rh-devops-backups-1700000000'' ''Enabled'',
           PutPublicAccessBlock ''app-rh-devops-backups-1700000000'' True True True True,
           PutBucketTagging ''app-rh-devops-backups-1700000000''
            [(''Name'', VStr ''app-rh-devops-backups-1700000000''),
             (''Environment'', VStr ''production''),
             (''Application'', VStr ''Recursos Humanos''), (''Purpose'', VStr ''Backups'')]],
        salida = [(Stdout, marca_ok @ '' Bucket S3 creado con encriptaci'' @ [CHR 0xC3, CHR 0xB3]
                     @ ''n: app-rh-devops-backups-1700000000'')],
        recursos_creados = []\<rparr>) = 5"
    by simp
  have e3: "crear_bucket_s3_backup prov_guion entorno_ejemplo config_default
       (guion [Inr RNada, Inl (ClientError ''AccessDenied'' ''acceso denegado'')]) =
     (Inl (ClientError ''AccessDenied'' ''acceso denegado''),
      \<lparr>nube = [],
        llamadas =
          [(CreateBucket ''app-rh-devops-backups-1700000000'' None, Inr RNada),
           (PutBucketEncryption ''app-rh-devops-backups-1700000000'' ''AES256'', Inl (ClientError ''AccessDenied'' ''acceso denegado''))],
        salida = [(Stderr, marca_error @ '' Error creando bucket S3: acceso denegado'')],
        recursos_creados = []\<rparr>)"
    by (simp add: crear_bucket_s3_backup_def k1 k2 k3 leer_def correr mundo_inicial_def guion_def
        Let_def entorno_ejemplo_def str_int_def digitos.simps)
  note t3 = crear_bucket_s3_backup_region [OF k1 k2 k3 e3 b refl]
  have h3: "(PutBucketEncryption ''app-rh-devops-backups-1700000000'' ''AES256'', Inl (ClientError ''AccessDenied'' ''acceso denegado''))
     \<in> set (nuevas (guion [Inr RNada, Inl (ClientError ''AccessDenied'' ''acceso denegado'')]) \<lparr>nube = [],
        llamadas =
          [(CreateBucket ''app-rh-devops-backups-1700000000'' None, Inr RNada),
           (PutBucketEncryption ''app-rh-devops-backups-1700000000'' ''AES256'', Inl (ClientError ''AccessDenied'' ''acceso denegado''))],
        salida = [(Stderr, marca_error @ '' Error creando bucket S3: acceso denegado'')],
        recursos_creados = []\<rparr>)"
    by (simp add: nuevas_def guion_def mundo_inicial_def)
  from t3 [THEN conjunct2, THEN conjunct2, THEN conjunct2, THEN conjunct2, THEN conjunct2, THEN conjunct2, THEN conjunct2, THEN conjunct2, THEN conjunct2, THEN spec, THEN spec, THEN mp, OF h3]
  have u3: "last (nuevas (guion [Inr RNada, Inl (ClientError ''AccessDenied'' ''acceso denegado'')]) \<lparr>nube = [],
        llamadas =
          [(CreateBucket ''app-rh-devops-backups-1700000000'' None, Inr RNada),
           (PutBucketEncryption ''app-rh-devops-backups-1700000000'' ''AES256'', Inl (ClientError ''AccessDenied'' ''acceso denegado''))],
        salida = [(Stderr, marca_error @ '' Error creando bucket S3: acceso denegado'')],
        recursos_creados = []\<rparr>) =
     (PutBucketEncryption ''app-rh-devops-backups-1700000000'' ''AES256'', Inl (ClientError ''AccessDenied'' ''acceso denegado''))"
    by simp
  from k1 k2 k3 e1 h1 m1 l1 j1 j2 j3 e2 h2 m2 l2 e3 h3 u3 show ?thesis
    by (intro conjI) assumption+
qed

subsection \<open>desplegar\<close>

lemma conserva_devolver: "conserva (devolver x)"
  by (simp add: conserva_def devolver_def)

lemma conserva_lanzar: "conserva (lanzar e)"
  by (simp add: conserva_def lanzar_def)

lemma conserva_imprimir: "conserva (imprimir fl s)"
  by (auto simp: conserva_def imprimir_def)

lemma conserva_invocar: "conserva (invocar prov c)"
  by (auto simp: conserva_def invocar_def split: prod.splits)

lemma conserva_leer: "conserva (leer cfg k)"
  by (simp add: leer_def conserva_devolver conserva_lanzar split: option.splits)

lemma conserva_ligar:
  assumes "conserva m" and "\<And>x. conserva (f x)"
  shows "conserva (ligar m f)"
  unfolding conserva_def ligar_def
proof (intro allI impI)
  fix w r w'
  assume a: "(case m w of (Inl e, w') \<Rightarrow> (Inl e, w') | (Inr x, w') \<Rightarrow> f x w') = (r, w')"
  obtain r1 w1 where m: "m w = (r1, w1)"
    by (cases "m w")
  with assms(1) have f1: "recursos_creados w1 = recursos_creados w"
    by (simp add: conserva_def)
  show "recursos_creados w' = recursos_creados w"
  proof (cases r1)
    case (Inl e)
    with a m f1 show ?thesis by simp
  next
    case (Inr x)
    with a m have "f x w1 = (r, w')" by simp
    with assms(2) [of x] have "recursos_creados w' = recursos_creados w1"
      by (simp add: conserva_def)
    with f1 show ?thesis by simp
  qed
qed

lemma conserva_except_ClientError:
  assumes "conserva m" and "\<And>c t. conserva (h c t)"
  shows "conserva (except_ClientError m h)"
  unfolding conserva_def except_ClientError_def
proof (intro allI impI)
  fix w r w'
  assume a: "(case m w of (Inl (ClientError c t), w') \<Rightarrow> h c t w' | (r, w') \<Rightarrow> (r, w')) = (r, w')"
  obtain r1 w1 where m: "m w = (r1, w1)"
    by (cases "m w")
  with assms(1) have f1: "recursos_creados w1 = recursos_creados w"
    by (simp add: conserva_def)
  show "recursos_creados w' = recursos_creados w"
  proof (cases "\<exists>c t. r1 = Inl (ClientError c t)")
    case True
    then obtain c t where "r1 = Inl (ClientError c t)" by blast
    with a m have "h c t w1 = (r, w')" by simp
    with assms(2) [of c t] have "recursos_creados w' = recursos_creados w1"
      by (simp add: conserva_def)
    with f1 show ?thesis by simp
  next
    case False
    with a m have "w' = w1"
      by (auto split: sum.splits excepcion.splits)
    with f1 show ?thesis by simp
  qed
qed

lemma conserva_si: "conserva m \<Longrightarrow> conserva n \<Longrightarrow> conserva (if b then m else n)"
  by simp

lemma conserva_leer_GroupId: "conserva (leer_GroupId r)"
  by (cases r) (simp_all add: conserva_devolver conserva_lanzar)

lemma conserva_leer_primer_grupo: "conserva (leer_primer_grupo r)"
  by (cases r rule: leer_primer_grupo.cases) (simp_all add: conserva_devolver conserva_lanzar)

lemma conserva_leer_primera_instancia: "conserva (leer_primera_instancia r)"
  by (cases r rule: leer_primera_instancia.cases) (simp_all add: conserva_devolver conserva_lanzar)

lemmas conserva_reglas = conserva_devolver conserva_lanzar conserva_imprimir conserva_invocar
  conserva_leer conserva_ligar conserva_except_ClientError conserva_si conserva_leer_GroupId
  conserva_leer_primer_grupo conserva_leer_primera_instancia

lemma conserva_crear_security_group: "conserva (crear_security_group prov cfg)"
  unfolding crear_security_group_def Let_def by (intro conserva_reglas)

lemma conserva_crear_bucket_s3_backup: "conserva (crear_bucket_s3_backup prov env cfg)"
  unfolding crear_bucket_s3_backup_def Let_def by (intro conserva_reglas)

lemma conserva_crear_instancia_ec2: "conserva (crear_instancia_ec2 prov cfg sg_id)"
  unfolding crear_instancia_ec2_def Let_def by (intro conserva_reglas)

lemma conserva_crear_base_datos_rds: "conserva (crear_base_datos_rds prov env cfg)"
  unfolding crear_base_datos_rds_def Let_def by (intro conserva_reglas)

lemma desplegar_eq:
  assumes "cfg ''region'' = Some region" and "cfg ''environment'' = Some ambiente"
    and "cfg ''app_name'' = Some app"
  shows "desplegar prov env cfg w =
     (case desplegar_pasos prov env cfg (inicio region ambiente app w) of
        (Inl e, w1) \<Rightarrow>
          if es_Exception e then (Inl (SystemExit 1), abortado e w1) else (Inl e, w1)
      | (Inr u, w1) \<Rightarrow> (Inr u, w1))"
  by (simp add: desplegar_def leer_def assms ligar_devolver ligar_imprimir vaciar_recursos_def
      ligar_def except_Exception_def inicio_def encabezado_def abortado_def imprimir_def
      lanzar_def split: prod.splits sum.splits)

lemma desplegar_pasos_falla_1:
  assumes "crear_security_group prov cfg (anuncio ''[1/4] Creando Security Group...'' w) = (Inl e, w1)"
  shows "desplegar_pasos prov env cfg w = (Inl e, w1)"
  using assms by (simp add: desplegar_pasos_def ligar_def imprimir_def anuncio_def)

lemma desplegar_pasos_falla_2:
  assumes "crear_security_group prov cfg (anuncio ''[1/4] Creando Security Group...'' w) = (Inr sg_id, w1)"
    and "crear_bucket_s3_backup prov env cfg
           (anuncio ''[2/4] Creando bucket S3 para backups...''
              (registrado ''security_group'' sg_id w1)) = (Inl e, w2)"
  shows "desplegar_pasos prov env cfg w = (Inl e, w2)"
  using assms
  by (simp add: desplegar_pasos_def ligar_def imprimir_def anuncio_def registrado_def anotar_def)

lemma desplegar_pasos_falla_3:
  assumes "crear_security_group prov cfg (anuncio ''[1/4] Creando Security Group...'' w) = (Inr sg_id, w1)"
    and "crear_bucket_s3_backup prov env cfg
           (anuncio ''[2/4] Creando bucket S3 para backups...''
              (registrado ''security_group'' sg_id w1)) = (Inr bucket_name, w2)"
    and "crear_instancia_ec2 prov cfg sg_id
           (anuncio ''[3/4] Creando instancia EC2...''
              (registrado ''s3_bucket'' bucket_name w2)) = (Inl e, w3)"
  shows "desplegar_pasos prov env cfg w = (Inl e, w3)"
  using assms
  by (simp add: desplegar_pasos_def ligar_def imprimir_def anuncio_def registrado_def anotar_def)

lemma desplegar_pasos_falla_4:
  assumes "crear_security_group prov cfg (anuncio ''[1/4] Creando Security Group...'' w) = (Inr sg_id, w1)"
    and "crear_bucket_s3_backup prov env cfg
           (anuncio ''[2/4] Creando bucket S3 para backups...''
              (registrado ''security_group'' sg_id w1)) = (Inr bucket_name, w2)"
    and "crear_instancia_ec2 prov cfg sg_id
           (anuncio ''[3/4] Creando instancia EC2...''
              (registrado ''s3_bucket'' bucket_name w2)) = (Inr instance_id, w3)"
    and "crear_base_datos_rds prov env cfg
           (anuncio ''[4/4] Creando base de datos RDS...''
              (registrado ''ec2_instance'' instance_id w3)) = (Inl e, w4)"
  shows "desplegar_pasos prov env cfg w = (Inl e, w4)"
  using assms
  by (simp add: desplegar_pasos_def ligar_def imprimir_def anuncio_def registrado_def anotar_def)

lemma conserva_igual: "conserva m \<Longrightarrow> m w = (r, w') \<Longrightarrow> recursos_creados w' = recursos_creados w"
  by (simp add: conserva_def)

lemma main_SystemExit:
  assumes "init_DespliegueRH prov env config_file v = (Inr cfg, w)"
    and "desplegar prov env cfg w = (Inl (SystemExit n), w')"
  shows "main prov env config_file v = (n, w')"
  using assms by (simp add: main_def ejecutar_def ligar_def)

lemma desplegar_pasos_exito:
  assumes "crear_security_group prov cfg (anuncio ''[1/4] Creando Security Group...'' w) = (Inr sg_id, w1)"
    and "crear_bucket_s3_backup prov env cfg
           (anuncio ''[2/4] Creando bucket S3 para backups...''
              (registrado ''security_group'' sg_id w1)) = (Inr bucket_name, w2)"
    and "crear_instancia_ec2 prov cfg sg_id
           (anuncio ''[3/4] Creando instancia EC2...''
              (registrado ''s3_bucket'' bucket_name w2)) = (Inr instance_id, w3)"
    and "crear_base_datos_rds prov env cfg
           (anuncio ''[4/4] Creando base de datos RDS...''
              (registrado ''ec2_instance'' instance_id w3)) = (Inr db_instance_id, w4)"
  shows "desplegar_pasos prov env cfg w =
     (Inr (),
      w4\<lparr>recursos_creados := poner ''rds_instance'' db_instance_id (recursos_creados w4),
         salida := salida w4 @
           [(Stdout, CHR 0x0A # raya), (Stdout, ''DESPLIEGUE COMPLETADO EXITOSAMENTE''),
            (Stdout, raya), (Stdout, CHR 0x0A # ''Recursos creados:'')] @
           listado (poner ''rds_instance'' db_instance_id (recursos_creados w4)) @
           recordatorio\<rparr>)"
  using assms
  by (simp add: desplegar_pasos_def ligar_def imprimir_def anuncio_def registrado_def anotar_def
      imprimir_recursos_def imprimir_lista_eq listado_def recordatorio_def split_def o_def
      devolver_def)

lemmas evaluar = desplegar_def desplegar_pasos_def crear_security_group_def
  crear_bucket_s3_backup_def crear_instancia_ec2_def crear_base_datos_rds_def
  ligar_def except_ClientError_def except_Exception_def imprimir_def devolver_def lanzar_def
  invocar_def leer_def anotar_def vaciar_recursos_def config_default_def guion_def
  mundo_inicial_def Let_def si_aplicado entorno_ejemplo_def str_int_def digitos.simps

lemma raya_sin_etiqueta: "\<not> contiene ''security_group'' (replicate n (CHR ''=''))"
  by (induction n) simp_all

text \<open>
  C1. \<^verbatim>\<open>desplegar\<close> runs the four steps in order, each in the state the step before has
  left, after recording the identifier of that step and printing the title of the next.
  When a step raises an exception of the class \<^verbatim>\<open>Exception\<close> (any provider fault that
  the step has not recovered from), \<^verbatim>\<open>desplegar\<close> ends at once by raising \<^verbatim>\<open>SystemExit(1)\<close>:
  its final state is the state in which the failing step ended, with only the two
  lines of the handler added to the output, so no later step has been run and no
  further provider call made; and \<^verbatim>\<open>recursos_creados\<close> holds the identifiers of exactly
  the steps before the failing one, in order. \<^verbatim>\<open>main\<close> then ends with exit status 1.
\<close>

theorem desplegar_se_detiene:
  assumes "cfg ''region'' = Some region" and "cfg ''environment'' = Some ambiente"
    and "cfg ''app_name'' = Some app"
    and "es_Exception e"
    and "w0 = inicio region ambiente app w"
  shows
    "(crear_security_group prov cfg (anuncio ''[1/4] Creando Security Group...'' w0) = (Inl e, w1) \<longrightarrow>
        desplegar prov env cfg w = (Inl (SystemExit 1), abortado e w1) \<and>
        recursos_creados w1 = []) \<and>
     (crear_security_group prov cfg (anuncio ''[1/4] Creando Security Group...'' w0) = (Inr sg_id, w1) \<and>
      crear_bucket_s3_backup prov env cfg
          (anuncio ''[2/4] Creando bucket S3 para backups...'' (registrado ''security_group'' sg_id w1)) = (Inl e, w2) \<longrightarrow>
        desplegar prov env cfg w = (Inl (SystemExit 1), abortado e w2) \<and>
        recursos_creados w2 = [(''security_group'', sg_id)]) \<and>
     (crear_security_group prov cfg (anuncio ''[1/4] Creando Security Group...'' w0) = (Inr sg_id, w1) \<and>
      crear_bucket_s3_backup prov env cfg
          (anuncio ''[2/4] Creando bucket S3 para backups...'' (registrado ''security_group'' sg_id w1)) = (Inr bucket_name, w2) \<and>
      crear_instancia_ec2 prov cfg sg_id
          (anuncio ''[3/4] Creando instancia EC2...'' (registrado ''s3_bucket'' bucket_name w2)) = (Inl e, w3) \<longrightarrow>
        desplegar prov env cfg w = (Inl (SystemExit 1), abortado e w3) \<and>
        recursos_creados w3 = [(''security_group'', sg_id), (''s3_bucket'', bucket_name)]) \<and>
     (crear_security_group prov cfg (anuncio ''[1/4] Creando Security Group...'' w0) = (Inr sg_id, w1) \<and>
      crear_bucket_s3_backup prov env cfg
          (anuncio ''[2/4] Creando bucket S3 para backups...'' (registrado ''security_group'' sg_id w1)) = (Inr bucket_name, w2) \<and>
      crear_instancia_ec2 prov cfg sg_id
          (anuncio ''[3/4] Creando instancia EC2...'' (registrado ''s3_bucket'' bucket_name w2)) = (Inr instance_id, w3) \<and>
      crear_base_datos_rds prov env cfg
          (anuncio ''[4/4] Creando base de datos RDS...'' (registrado ''ec2_instance'' instance_id w3)) = (Inl e, w4) \<longrightarrow>
        desplegar prov env cfg w = (Inl (SystemExit 1), abortado e w4) \<and>
        recursos_creados w4 =
          [(''security_group'', sg_id), (''s3_bucket'', bucket_name),
           (''ec2_instance'', instance_id)]) \<and>
     (init_DespliegueRH prov env config_file v = (Inr cfg, w) \<and>
      desplegar prov env cfg w = (Inl (SystemExit 1), w') \<longrightarrow>
        main prov env config_file v = (1, w'))"
proof (intro conjI impI)
  assume a: "crear_security_group prov cfg (anuncio ''[1/4] Creando Security Group...'' w0) = (Inl e, w1)"
  from a have "desplegar_pasos prov env cfg w0 = (Inl e, w1)"
    by (rule desplegar_pasos_falla_1)
  then show "desplegar prov env cfg w = (Inl (SystemExit 1), abortado e w1)"
    using assms by (simp add: desplegar_eq)
  from conserva_igual [OF conserva_crear_security_group a]
  show "recursos_creados w1 = []"
    by (simp add: assms(5) anuncio_def inicio_def)
next
  assume a: "crear_security_group prov cfg (anuncio ''[1/4] Creando Security Group...'' w0) = (Inr sg_id, w1) \<and>
      crear_bucket_s3_backup prov env cfg
          (anuncio ''[2/4] Creando bucket S3 para backups...'' (registrado ''security_group'' sg_id w1)) = (Inl e, w2)"
  then have a1: "crear_security_group prov cfg (anuncio ''[1/4] Creando Security Group...'' w0) = (Inr sg_id, w1)"
    and a2: "crear_bucket_s3_backup prov env cfg
          (anuncio ''[2/4] Creando bucket S3 para backups...'' (registrado ''security_group'' sg_id w1)) = (Inl e, w2)"
    by simp_all
  from a1 a2 have "desplegar_pasos prov env cfg w0 = (Inl e, w2)"
    by (rule desplegar_pasos_falla_2)
  then show "desplegar prov env cfg w = (Inl (SystemExit 1), abortado e w2)"
    using assms by (simp add: desplegar_eq)
  from conserva_igual [OF conserva_crear_security_group a1]
  have r1: "recursos_creados w1 = []"
    by (simp add: assms(5) anuncio_def inicio_def)
  from conserva_igual [OF conserva_crear_bucket_s3_backup a2]
  show "recursos_creados w2 = [(''security_group'', sg_id)]"
    by (simp add: anuncio_def registrado_def r1)
next
  assume a: "crear_security_group prov cfg (anuncio ''[1/4] Creando Security Group...'' w0) = (Inr sg_id, w1) \<and>
      crear_bucket_s3_backup prov env cfg
          (anuncio ''[2/4] Creando bucket S3 para backups...'' (registrado ''security_group'' sg_id w1)) = (Inr bucket_name, w2) \<and>
      crear_instancia_ec2 prov cfg sg_id
          (anuncio ''[3/4] Creando instancia EC2...'' (registrado ''s3_bucket'' bucket_name w2)) = (Inl e, w3)"
  then have a1: "crear_security_group prov cfg (anuncio ''[1/4] Creando Security Group...'' w0) = (Inr sg_id, w1)"
    and a2: "crear_bucket_s3_backup prov env cfg
          (anuncio ''[2/4] Creando bucket S3 para backups...'' (registrado ''security_group'' sg_id w1)) = (Inr bucket_name, w2)"
    and a3: "crear_instancia_ec2 prov cfg sg_id
          (anuncio ''[3/4] Creando instancia EC2...'' (registrado ''s3_bucket'' bucket_name w2)) = (Inl e, w3)"
    by simp_all
  from a1 a2 a3 have "desplegar_pasos prov env cfg w0 = (Inl e, w3)"
    by (rule desplegar_pasos_falla_3)
  then show "desplegar prov env cfg w = (Inl (SystemExit 1), abortado e w3)"
    using assms by (simp add: desplegar_eq)
  from conserva_igual [OF conserva_crear_security_group a1]
  have r1: "recursos_creados w1 = []"
    by (simp add: assms(5) anuncio_def inicio_def)
  from conserva_igual [OF conserva_crear_bucket_s3_backup a2]
  have r2: "recursos_creados w2 = [(''security_group'', sg_id)]"
    by (simp add: anuncio_def registrado_def r1)
  from conserva_igual [OF conserva_crear_instancia_ec2 a3]
  show "recursos_creados w3 = [(''security_group'', sg_id), (''s3_bucket'', bucket_name)]"
    by (simp add: anuncio_def registrado_def r2)
next
  assume a: "crear_security_group prov cfg (anuncio ''[1/4] Creando Security Group...'' w0) = (Inr sg_id, w1) \<and>
      crear_bucket_s3_backup prov env cfg
          (anuncio ''[2/4] Creando bucket S3 para backups...'' (registrado ''security_group'' sg_id w1)) = (Inr bucket_name, w2) \<and>
      crear_instancia_ec2 prov cfg sg_id
          (anuncio ''[3/4] Creando instancia EC2...'' (registrado ''s3_bucket'' bucket_name w2)) = (Inr instance_id, w3) \<and>
      crear_base_datos_rds prov env cfg
          (anuncio ''[4/4] Creando base de datos RDS...'' (registrado ''ec2_instance'' instance_id w3)) = (Inl e, w4)"
  then have a1: "crear_security_group prov cfg (anuncio ''[1/4] Creando Security Group...'' w0) = (Inr sg_id, w1)"
    and a2: "crear_bucket_s3_backup prov env cfg
          (anuncio ''[2/4] Creando bucket S3 para backups...'' (registrado ''security_group'' sg_id w1)) = (Inr bucket_name, w2)"
    and a3: "crear_instancia_ec2 prov cfg sg_id
          (anuncio ''[3/4] Creando instancia EC2...'' (registrado ''s3_bucket'' bucket_name w2)) = (Inr instance_id, w3)"
    and a4: "crear_base_datos_rds prov env cfg
          (anuncio ''[4/4] Creando base de datos RDS...'' (registrado ''ec2_instance'' instance_id w3)) = (Inl e, w4)"
    by simp_all
  from a1 a2 a3 a4 have "desplegar_pasos prov env cfg w0 = (Inl e, w4)"
    by (rule desplegar_pasos_falla_4)
  then show "desplegar prov env cfg w = (Inl (SystemExit 1), abortado e w4)"
    using assms by (simp add: desplegar_eq)
  from conserva_igual [OF conserva_crear_security_group a1]
  have r1: "recursos_creados w1 = []"
    by (simp add: assms(5) anuncio_def inicio_def)
  from conserva_igual [OF conserva_crear_bucket_s3_backup a2]
  have r2: "recursos_creados w2 = [(''security_group'', sg_id)]"
    by (simp add: anuncio_def registrado_def r1)
  from conserva_igual [OF conserva_crear_instancia_ec2 a3]
  have r3: "recursos_creados w3 = [(''security_group'', sg_id), (''s3_bucket'', bucket_name)]"
    by (simp add: anuncio_def registrado_def r2)
  from conserva_igual [OF conserva_crear_base_datos_rds a4]
  show "recursos_creados w4 =
          [(''security_group'', sg_id), (''s3_bucket'', bucket_name),
           (''ec2_instance'', instance_id)]"
    by (simp add: anuncio_def registrado_def r3)
next
  assume "init_DespliegueRH prov env config_file v = (Inr cfg, w) \<and>
      desplegar prov env cfg w = (Inl (SystemExit 1), w')"
  then show "main prov env config_file v = (1, w')"
    by (simp add: main_SystemExit)
qed

theorem desplegar_se_detiene_witness:
  "config_default ''region'' = Some (VStr ''us-east-1'') \<and>
   config_default ''environment'' = Some (VStr ''production'') \<and>
   config_default ''app_name'' = Some (VStr ''app-rh-devops'') \<and>
   es_Exception (ClientError ''UnauthorizedOperation'' ''no autorizado'') \<and>
   fst (desplegar prov_guion entorno_ejemplo config_default (guion [Inl (ClientError ''UnauthorizedOperation'' ''no autorizado'')])) = Inl (SystemExit 1) \<and>
   recursos_creados (snd (desplegar prov_guion entorno_ejemplo config_default (guion [Inl (ClientError ''UnauthorizedOperation'' ''no autorizado'')]))) =
     [] \<and>
   es_Exception (ClientError ''AccessDenied'' ''acceso denegado'') \<and>
   fst (desplegar prov_guion entorno_ejemplo config_default (guion [Inr (RGroupId ''sg-1''), Inr RNada, Inl (ClientError ''AccessDenied'' ''acceso denegado'')])) = Inl (SystemExit 1) \<and>
   recursos_creados (snd (desplegar prov_guion entorno_ejemplo config_default (guion [Inr (RGroupId ''sg-1''), Inr RNada, Inl (ClientError ''AccessDenied'' ''acceso denegado'')]))) =
     [(''security_group'', ''sg-1'')] \<and>
   es_Exception (ClientError ''InsufficientInstanceCapacity'' ''sin capacidad'') \<and>
   fst (desplegar prov_guion entorno_ejemplo config_default (guion [Inr (RGroupId ''sg-1''), Inr RNada, Inr RNada, Inr RNada, Inr RNada, Inr RNada, Inr RNada, Inl (ClientError ''InsufficientInstanceCapacity'' ''sin capacidad'')])) = Inl (SystemExit 1) \<and>
   recursos_creados (snd (desplegar prov_guion entorno_ejemplo config_default (guion [Inr (RGroupId ''sg-1''), Inr RNada, Inr RNada, Inr RNada, Inr RNada, Inr RNada, Inr RNada, Inl (ClientError ''InsufficientInstanceCapacity'' ''sin capacidad'')]))) =
     [(''security_group'', ''sg-1''), (''s3_bucket'', ''app-rh-devops-backups-1700000000'')] \<and>
   es_Exception (ClientError ''InvalidParameterValue'' ''valor no valido'') \<and>
   fst (desplegar prov_guion entorno_ejemplo config_default (guion [Inr (RGroupId ''sg-1''), Inr RNada, Inr RNada, Inr RNada, Inr RNada, Inr RNada, Inr RNada, Inr (RInstances [''i-1'']), Inr RNada, Inl (ClientError ''InvalidParameterValue'' ''valor no valido'')])) = Inl (SystemExit 1) \<and>
   recursos_creados (snd (desplegar prov_guion entorno_ejemplo config_default (guion [Inr (RGroupId ''sg-1''), Inr RNada, Inr RNada, Inr RNada, Inr RNada, Inr RNada, Inr RNada, Inr (RInstances [''i-1'']), Inr RNada, Inl (ClientError ''InvalidParameterValue'' ''valor no valido'')]))) =
     [(''security_group'', ''sg-1''), (''s3_bucket'', ''app-rh-devops-backups-1700000000''), (''ec2_instance'', ''i-1'')]"
proof -
  have k1: "config_default ''region'' = Some (VStr ''us-east-1'')"
    and k2: "config_default ''environment'' = Some (VStr ''production'')"
    and k3: "config_default ''app_name'' = Some (VStr ''app-rh-devops'')"
    by (simp_all add: config_default_def)
  have f11: "crear_security_group prov_guion config_default (anuncio ''[1/4] Creando Security Group...'' (inicio (VStr ''us-east-1'') (VStr ''production'') (VStr ''app-rh-devops'') (guion [Inl (ClientError ''UnauthorizedOperation'' ''no autorizado'')]))) =
      (Inl (ClientError ''UnauthorizedOperation'' ''no autorizado''), snd (crear_security_group prov_guion config_default (anuncio ''[1/4] Creando Security Group...'' (inicio (VStr ''us-east-1'') (VStr ''production'') (VStr ''app-rh-devops'') (guion [Inl (ClientError ''UnauthorizedOperation'' ''no autorizado'')])))))"
    by (simp add: prod_eq_iff crear_security_group_def crear_bucket_s3_backup_def
        crear_instancia_ec2_def crear_base_datos_rds_def config_default_def leer_def correr
        mundo_inicial_def guion_def Let_def anuncio_def inicio_def registrado_def
        entorno_ejemplo_def str_int_def digitos.simps)
  have x1: "es_Exception (ClientError ''UnauthorizedOperation'' ''no autorizado'')"
    by simp
  note t1 = desplegar_se_detiene [OF k1 k2 k3 x1 refl, THEN conjunct1, THEN mp, OF f11]
  from t1 have c1: "fst (desplegar prov_guion entorno_ejemplo config_default (guion [Inl (ClientError ''UnauthorizedOperation'' ''no autorizado'')])) = Inl (SystemExit 1) \<and>
   recursos_creados (snd (desplegar prov_guion entorno_ejemplo config_default (guion [Inl (ClientError ''UnauthorizedOperation'' ''no autorizado'')]))) =
     []"
    by (simp add: abortado_def)
  have f21: "crear_security_group prov_guion config_default (anuncio ''[1/4] Creando Security Group...'' (inicio (VStr ''us-east-1'') (VStr ''production'') (VStr ''app-rh-devops'') (guion [Inr (RGroupId ''sg-1''), Inr RNada, Inl (ClientError ''AccessDenied'' ''acceso denegado'')]))) =
      (Inr ''sg-1'', snd (crear_security_group prov_guion config_default (anuncio ''[1/4] Creando Security Group...'' (inicio (VStr ''us-east-1'') (VStr ''production'') (VStr ''app-rh-devops'') (guion [Inr (RGroupId ''sg-1''), Inr RNada, Inl (ClientError ''AccessDenied'' ''acceso denegado'')])))))"
    by (simp add: prod_eq_iff crear_security_group_def crear_bucket_s3_backup_def
        crear_instancia_ec2_def crear_base_datos_rds_def config_default_def leer_def correr
        mundo_inicial_def guion_def Let_def anuncio_def inicio_def registrado_def
        entorno_ejemplo_def str_int_def digitos.simps)
  have f22: "crear_bucket_s3_backup prov_guion entorno_ejemplo config_default (anuncio ''[2/4] Creando bucket S3 para backups...'' (registrado ''security_group'' ''sg-1'' (snd (crear_security_group prov_guion config_default (anuncio ''[1/4] Creando Security Group...'' (inicio (VStr ''us-east-1'') (VStr ''production'') (VStr ''app-rh-devops'') (guion [Inr (RGroupId ''sg-1''), Inr RNada, Inl (ClientError ''AccessDenied'' ''acceso denegado'')]))))))) =
      (Inl (ClientError ''AccessDenied'' ''acceso denegado''), snd (crear_bucket_s3_backup prov_guion entorno_ejemplo config_default (anuncio ''[2/4] Creando bucket S3 para backups...'' (registrado ''security_group'' ''sg-1'' (snd (crear_security_group prov_guion config_default (anuncio ''[1/4] Creando Security Group...'' (inicio (VStr ''us-east-1'') (VStr ''production'') (VStr ''app-rh-devops'') (guion [Inr (RGroupId ''sg-1''), Inr RNada, Inl (ClientError ''AccessDenied'' ''acceso denegado'')])))))))))"
    by (simp add: prod_eq_iff crear_security_group_def crear_bucket_s3_backup_def
        crear_instancia_ec2_def crear_base_datos_rds_def config_default_def leer_def correr
        mundo_inicial_def guion_def Let_def anuncio_def inicio_def registrado_def
        entorno_ejemplo_def str_int_def digitos.simps)
  have x2: "es_Exception (ClientError ''AccessDenied'' ''acceso denegado'')"
    by simp
  note t2 = desplegar_se_detiene [OF k1 k2 k3 x2 refl, THEN conjunct2, THEN conjunct1, THEN mp, OF conjI [OF f21 f22]]
  from t2 have c2: "fst (desplegar prov_guion entorno_ejemplo config_default (guion [Inr (RGroupId ''sg-1''), Inr RNada, Inl (ClientError ''AccessDenied'' ''acceso denegado'')])) = Inl (SystemExit 1) \<and>
   recursos_creados (snd (desplegar prov_guion entorno_ejemplo config_default (guion [Inr (RGroupId ''sg-1''), Inr RNada, Inl (ClientError ''AccessDenied'' ''acceso denegado'')]))) =
     [(''security_group'', ''sg-1'')]"
    by (simp add: abortado_def)
  have f31: "crear_security_group prov_guion config_default (anuncio ''[1/4] Creando Security Group...'' (inicio (VStr ''us-east-1'') (VStr ''production'') (VStr ''app-rh-devops'') (guion [Inr (RGroupId ''sg-1''), Inr RNada, Inr RNada, Inr RNada, Inr RNada, Inr RNada, Inr RNada, Inl (ClientError ''InsufficientInstanceCapacity'' ''sin capacidad'')]))) =
      (Inr ''sg-1'', snd (crear_security_group prov_guion config_default (anuncio ''[1/4] Creando Security Group...'' (inicio (VStr ''us-east-1'') (VStr ''production'') (VStr ''app-rh-devops'') (guion [Inr (RGroupId ''sg-1''), Inr RNada, Inr RNada, Inr RNada, Inr RNada, Inr RNada, Inr RNada, Inl (ClientError ''InsufficientInstanceCapacity'' ''sin capacidad'')])))))"
    by (simp add: prod_eq_iff crear_security_group_def crear_bucket_s3_backup_def
        crear_instancia_ec2_def crear_base_datos_rds_def config_default_def leer_def correr
        mundo_inicial_def guion_def Let_def anuncio_def inicio_def registrado_def
        entorno_ejemplo_def str_int_def digitos.simps)
  have f32: "crear_bucket_s3_backup prov_guion entorno_ejemplo config_default (anuncio ''[2/4] Creando bucket S3 para backups...'' (registrado ''security_group'' ''sg-1'' (snd (crear_security_group prov_guion config_default (anuncio ''[1/4] Creando Security Group...'' (inicio (VStr ''us-east-1'') (VStr ''production'') (VStr ''app-rh-devops'') (guion [Inr (RGroupId ''sg-1''), Inr RNada, Inr RNada, Inr RNada, Inr RNada, Inr RNada, Inr RNada, Inl (ClientError ''InsufficientInstanceCapacity'' ''sin capacidad'')]))))))) =
      (Inr ''app-rh-devops-backups-1700000000'', snd (crear_bucket_s3_backup prov_guion entorno_ejemplo config_default (anuncio ''[2/4] Creando bucket S3 para backups...'' (registrado ''security_group'' ''sg-1'' (snd (crear_security_group prov_guion config_default (anuncio ''[1/4] Creando Security Group...'' (inicio (VStr ''us-east-1'') (VStr ''production'') (VStr ''app-rh-devops'') (guion [Inr (RGroupId ''sg-1''), Inr RNada, Inr RNada, Inr RNada, Inr RNada, Inr RNada, Inr RNada, Inl (ClientError ''InsufficientInstanceCapacity'' ''sin capacidad'')])))))))))"
    by (simp add: prod_eq_iff crear_security_group_def crear_bucket_s3_backup_def
        crear_instancia_ec2_def crear_base_datos_rds_def config_default_def leer_def correr
        mundo_inicial_def guion_def Let_def anuncio_def inicio_def registrado_def
        entorno_ejemplo_def str_int_def digitos.simps)
  have f33: "crear_instancia_ec2 prov_guion config_default ''sg-1'' (anuncio ''[3/4] Creando instancia EC2...'' (registrado ''s3_bucket'' ''app-rh-devops-backups-1700000000'' (snd (crear_bucket_s3_backup prov_guion entorno_ejemplo config_default (anuncio ''[2/4] Creando bucket S3 para backups...'' (registrado ''security_group'' ''sg-1'' (snd (crear_security_group prov_guion config_default (anuncio ''[1/4] Creando Security Group...'' (inicio (VStr ''us-east-1'') (VStr ''production'') (VStr ''app-rh-devops'') (guion [Inr (RGroupId ''sg-1''), Inr RNada, Inr RNada, Inr RNada, Inr RNada, Inr RNada, Inr RNada, Inl (ClientError ''InsufficientInstanceCapacity'' ''sin capacidad'')]))))))))))) =
      (Inl (ClientError ''InsufficientInstanceCapacity'' ''sin capacidad''), snd (crear_instancia_ec2 prov_guion config_default ''sg-1'' (anuncio ''[3/4] Creando instancia EC2...'' (registrado ''s3_bucket'' ''app-rh-devops-backups-1700000000'' (snd (crear_bucket_s3_backup prov_guion entorno_ejemplo config_default (anuncio ''[2/4] Creando bucket S3 para backups...'' (registrado ''security_group'' ''sg-1'' (snd (crear_security_group prov_guion config_default (anuncio ''[1/4] Creando Security Group...'' (inicio (VStr ''us-east-1'') (VStr ''production'') (VStr ''app-rh-devops'') (guion [Inr (RGroupId ''sg-1''), Inr RNada, Inr RNada, Inr RNada, Inr RNada, Inr RNada, Inr RNada, Inl (ClientError ''InsufficientInstanceCapacity'' ''sin capacidad'')])))))))))))))"
    by (simp add: prod_eq_iff crear_security_group_def crear_bucket_s3_backup_def
        crear_instancia_ec2_def crear_base_datos_rds_def config_default_def leer_def correr
        mundo_inicial_def guion_def Let_def anuncio_def inicio_def registrado_def
        entorno_ejemplo_def str_int_def digitos.simps)
  have x3: "es_Exception (ClientError ''InsufficientInstanceCapacity'' ''sin capacidad'')"
    by simp
  note t3 = desplegar_se_detiene [OF k1 k2 k3 x3 refl, THEN conjunct2, THEN conjunct2, THEN conjunct1, THEN mp, OF conjI [OF f31 conjI [OF f32 f33]]]
  from t3 have c3: "fst (desplegar prov_guion entorno_ejemplo config_default (guion [Inr (RGroupId ''sg-1''), Inr RNada, Inr RNada, Inr RNada, Inr RNada, Inr RNada, Inr RNada, Inl (ClientError ''InsufficientInstanceCapacity'' ''sin capacidad'')])) = Inl (SystemExit 1) \<and>
   recursos_creados (snd (desplegar prov_guion entorno_ejemplo config_default (guion [Inr (RGroupId ''sg-1''), Inr RNada, Inr RNada, Inr RNada, Inr RNada, Inr RNada, Inr RNada, Inl (ClientError ''InsufficientInstanceCapacity'' ''sin capacidad'')]))) =
     [(''security_group'', ''sg-1''), (''s3_bucket'', ''app-rh-devops-backups-1700000000'')]"
    by (simp add: abortado_def)
  have f41: "crear_security_group prov_guion config_default (anuncio ''[1/4] Creando Security Group...'' (inicio (VStr ''us-east-1'') (VStr ''production'') (VStr ''app-rh-devops'') (guion [Inr (RGroupId ''sg-1''), Inr RNada, Inr RNada, Inr RNada, Inr RNada, Inr RNada, Inr RNada, Inr (RInstances [''i-1'']), Inr RNada, Inl (ClientError ''InvalidParameterValue'' ''valor no valido'')]))) =
      (Inr ''sg-1'', snd (crear_security_group prov_guion config_default (anuncio ''[1/4] Creando Security Group...'' (inicio (VStr ''us-east-1'') (VStr ''production'') (VStr ''app-rh-devops'') (guion [Inr (RGroupId ''sg-1''), Inr RNada, Inr RNada, Inr RNada, Inr RNada, Inr RNada, Inr RNada, Inr (RInstances [''i-1'']), Inr RNada, Inl (ClientError ''InvalidParameterValue'' ''valor no valido'')])))))"
    by (simp add: prod_eq_iff crear_security_group_def crear_bucket_s3_backup_def
        crear_instancia_ec2_def crear_base_datos_rds_def config_default_def leer_def correr
        mundo_inicial_def guion_def Let_def anuncio_def inicio_def registrado_def
        entorno_ejemplo_def str_int_def digitos.simps)
  have f42: "crear_bucket_s3_backup prov_guion entorno_ejemplo config_default (anuncio ''[2/4] Creando bucket S3 para backups...'' (registrado ''security_group'' ''sg-1'' (snd (crear_security_group prov_guion config_default (anuncio ''[1/4] Creando Security Group...'' (inicio (VStr ''us-east-1'') (VStr ''production'') (VStr ''app-rh-devops'') (guion [Inr (RGroupId ''sg-1''), Inr RNada, Inr RNada, Inr RNada, Inr RNada, Inr RNada, Inr RNada, Inr (RInstances [''i-1'']), Inr RNada, Inl (ClientError ''InvalidParameterValue'' ''valor no valido'')]))))))) =
      (Inr ''app-rh-devops-backups-1700000000'', snd (crear_bucket_s3_backup prov_guion entorno_ejemplo config_default (anuncio ''[2/4] Creando bucket S3 para backups...'' (registrado ''security_group'' ''sg-1'' (snd (crear_security_group prov_guion config_default (anuncio ''[1/4] Creando Security Group...'' (inicio (VStr ''us-east-1'') (VStr ''production'') (VStr ''app-rh-devops'') (guion [Inr (RGroupId ''sg-1''), Inr RNada, Inr RNada, Inr RNada, Inr RNada, Inr RNada, Inr RNada, Inr (RInstances [''i-1'']), Inr RNada, Inl (ClientError ''InvalidParameterValue'' ''valor no valido'')])))))))))"
    by (simp add: prod_eq_iff crear_security_group_def crear_bucket_s3_backup_def
        crear_instancia_ec2_def crear_base_datos_rds_def config_default_def leer_def correr
        mundo_inicial_def guion_def Let_def anuncio_def inicio_def registrado_def
        entorno_ejemplo_def str_int_def digitos.simps)
  have f43: "crear_instancia_ec2 prov_guion config_default ''sg-1'' (anuncio ''[3/4] Creando instancia EC2...'' (registrado ''s3_bucket'' ''app-rh-devops-backups-1700000000'' (snd (crear_bucket_s3_backup prov_guion entorno_ejemplo config_default (anuncio ''[2/4] Creando bucket S3 para backups...'' (registrado ''security_group'' ''sg-1'' (snd (crear_security_group prov_guion config_default (anuncio ''[1/4] Creando Security Group...'' (inicio (VStr ''us-east-1'') (VStr ''production'') (VStr ''app-rh-devops'') (guion [Inr (RGroupId ''sg-1''), Inr RNada, Inr RNada, Inr RNada, Inr RNada, Inr RNada, Inr RNada, Inr (RInstances [''i-1'']), Inr RNada, Inl (ClientError ''InvalidParameterValue'' ''valor no valido'')]))))))))))) =
      (Inr ''i-1'', snd (crear_instancia_ec2 prov_guion config_default ''sg-1'' (anuncio ''[3/4] Creando instancia EC2...'' (registrado ''s3_bucket'' ''app-rh-devops-backups-1700000000'' (snd (crear_bucket_s3_backup prov_guion entorno_ejemplo config_default (anuncio ''[2/4] Creando bucket S3 para backups...'' (registrado ''security_group'' ''sg-1'' (snd (crear_security_group prov_guion config_default (anuncio ''[1/4] Creando Security Group...'' (inicio (VStr ''us-east-1'') (VStr ''production'') (VStr ''app-rh-devops'') (guion [Inr (RGroupId ''sg-1''), Inr RNada, Inr RNada, Inr RNada, Inr RNada, Inr RNada, Inr RNada, Inr (RInstances [''i-1'']), Inr RNada, Inl (ClientError ''InvalidParameterValue'' ''valor no valido'')])))))))))))))"
    by (simp add: prod_eq_iff crear_security_group_def crear_bucket_s3_backup_def
        crear_instancia_ec2_def crear_base_datos_rds_def config_default_def leer_def correr
        mundo_inicial_def guion_def Let_def anuncio_def inicio_def registrado_def
        entorno_ejemplo_def str_int_def digitos.simps)
  have f44: "crear_base_datos_rds prov_guion entorno_ejemplo config_default (anuncio ''[4/4] Creando base de datos RDS...'' (registrado ''ec2_instance'' ''i-1'' (snd (crear_instancia_ec2 prov_guion config_default ''sg-1'' (anuncio ''[3/4] Creando instancia EC2...'' (registrado ''s3_bucket'' ''app-rh-devops-backups-1700000000'' (snd (crear_bucket_s3_backup prov_guion entorno_ejemplo config_default (anuncio ''[2/4] Creando bucket S3 para backups...'' (registrado ''security_group'' ''sg-1'' (snd (crear_security_group prov_guion config_default (anuncio ''[1/4] Creando Security Group...'' (inicio (VStr ''us-east-1'') (VStr ''production'') (VStr ''app-rh-devops'') (guion [Inr (RGroupId ''sg-1''), Inr RNada, Inr RNada, Inr RNada, Inr RNada, Inr RNada, Inr RNada, Inr (RInstances [''i-1'']), Inr RNada, Inl (ClientError ''InvalidParameterValue'' ''valor no valido'')]))))))))))))))) =
      (Inl (ClientError ''InvalidParameterValue'' ''valor no valido''), snd (crear_base_datos_rds prov_guion entorno_ejemplo config_default (anuncio ''[4/4] Creando base de datos RDS...'' (registrado ''ec2_instance'' ''i-1'' (snd (crear_instancia_ec2 prov_guion config_default ''sg-1'' (anuncio ''[3/4] Creando instancia EC2...'' (registrado ''s3_bucket'' ''app-rh-devops-backups-1700000000'' (snd (crear_bucket_s3_backup prov_guion entorno_ejemplo config_default (anuncio ''[2/4] Creando bucket S3 para backups...'' (registrado ''security_group'' ''sg-1'' (snd (crear_security_group prov_guion config_default (anuncio ''[1/4] Creando Security Group...'' (inicio (VStr ''us-east-1'') (VStr ''production'') (VStr ''app-rh-devops'') (guion [Inr (RGroupId ''sg-1''), Inr RNada, Inr RNada, Inr RNada, Inr RNada, Inr RNada, Inr RNada, Inr (RInstances [''i-1'']), Inr RNada, Inl (ClientError ''InvalidParameterValue'' ''valor no valido'')])))))))))))))))))"
    by (simp add: prod_eq_iff crear_security_group_def crear_bucket_s3_backup_def
        crear_instancia_ec2_def crear_base_datos_rds_def config_default_def leer_def correr
        mundo_inicial_def guion_def Let_def anuncio_def inicio_def registrado_def
        entorno_ejemplo_def str_int_def digitos.simps)
  have x4: "es_Exception (ClientError ''InvalidParameterValue'' ''valor no valido'')"
    by simp
  note t4 = desplegar_se_detiene [OF k1 k2 k3 x4 refl, THEN conjunct2, THEN conjunct2, THEN conjunct2, THEN conjunct1, THEN mp, OF conjI [OF f41 conjI [OF f42 conjI [OF f43 f44]]]]
  from t4 have c4: "fst (desplegar prov_guion entorno_ejemplo config_default (guion [Inr (RGroupId ''sg-1''), Inr RNada, Inr RNada, Inr RNada, Inr RNada, Inr RNada, Inr RNada, Inr (RInstances [''i-1'']), Inr RNada, Inl (ClientError ''InvalidParameterValue'' ''valor no valido'')])) = Inl (SystemExit 1) \<and>
   recursos_creados (snd (desplegar prov_guion entorno_ejemplo config_default (guion [Inr (RGroupId ''sg-1''), Inr RNada, Inr RNada, Inr RNada, Inr RNada, Inr RNada, Inr RNada, Inr (RInstances [''i-1'']), Inr RNada, Inl (ClientError ''InvalidParameterValue'' ''valor no valido'')]))) =
     [(''security_group'', ''sg-1''), (''s3_bucket'', ''app-rh-devops-backups-1700000000''), (''ec2_instance'', ''i-1'')]"
    by (simp add: abortado_def)
  from k1 k2 k3 x1 c1 x2 c2 x3 c3 x4 c4 show ?thesis
    by (intro conjI) (erule conjunct1 conjunct2 | assumption)+
qed

text \<open>
  C2, as amended. When the steps of \<^verbatim>\<open>desplegar\<close> end with an exception of the class
  \<^verbatim>\<open>Exception\<close>, \<^verbatim>\<open>desplegar\<close> adds exactly two lines to the output, the text of the
  exception on the error stream and the warning that some resources may have been
  created on the standard output, and raises \<^verbatim>\<open>SystemExit(1)\<close>; it prints nothing of
  \<^verbatim>\<open>recursos_creados\<close>. The listing of \<^verbatim>\<open>recursos_creados\<close> is printed when all four steps
  have returned: then the output ends with the listing of all the entries, followed
  by the reminders.
\<close>

theorem desplegar_informa_error:
  assumes "cfg ''region'' = Some region" and "cfg ''environment'' = Some ambiente"
    and "cfg ''app_name'' = Some app"
    and "desplegar_pasos prov env cfg (inicio region ambiente app w) = (r, w1)"
  shows "(\<forall>e. r = Inl e \<and> es_Exception e \<longrightarrow>
      desplegar prov env cfg w =
        (Inl (SystemExit 1),
         w1\<lparr>salida := salida w1 @
           [(Stderr, CHR 0x0A # marca_error @ '' Error durante el despliegue: ''
                     @ str_excepcion e),
            (Stdout, CHR 0x0A # marca_aviso
               @ '' Algunos recursos pueden haber sido creados. Revisa la consola de AWS.'')]\<rparr>)) \<and>
    (r = Inr () \<longrightarrow>
      desplegar prov env cfg w = (Inr (), w1) \<and>
      (\<exists>antes. salida w1 = antes @ listado (recursos_creados w1) @ recordatorio))"
proof (intro conjI allI impI)
  fix e
  assume "r = Inl e \<and> es_Exception e"
  with assms show "desplegar prov env cfg w =
        (Inl (SystemExit 1),
         w1\<lparr>salida := salida w1 @
           [(Stderr, CHR 0x0A # marca_error @ '' Error durante el despliegue: ''
                     @ str_excepcion e),
            (Stdout, CHR 0x0A # marca_aviso
               @ '' Algunos recursos pueden haber sido creados. Revisa la consola de AWS.'')]\<rparr>)"
    by (simp add: desplegar_eq abortado_def)
next
  assume "r = Inr ()"
  with assms show "desplegar prov env cfg w = (Inr (), w1)"
    by (simp add: desplegar_eq)
next
  assume r: "r = Inr ()"
  let ?w0 = "inicio region ambiente app w"
  obtain r1 v1 where p1: "crear_security_group prov cfg
      (anuncio ''[1/4] Creando Security Group...'' ?w0) = (r1, v1)"
    by (cases "crear_security_group prov cfg (anuncio ''[1/4] Creando Security Group...'' ?w0)")
  show "\<exists>antes. salida w1 = antes @ listado (recursos_creados w1) @ recordatorio"
  proof (cases r1)
    case (Inl e)
    with p1 assms(4) r show ?thesis
      by (simp add: desplegar_pasos_falla_1)
  next
    case sg: (Inr sg_id)
    obtain r2 v2 where p2: "crear_bucket_s3_backup prov env cfg
           (anuncio ''[2/4] Creando bucket S3 para backups...''
              (registrado ''security_group'' sg_id v1)) = (r2, v2)"
      by (cases "crear_bucket_s3_backup prov env cfg
           (anuncio ''[2/4] Creando bucket S3 para backups...''
              (registrado ''security_group'' sg_id v1))")
    show ?thesis
    proof (cases r2)
      case (Inl e)
      with p1 p2 sg assms(4) r show ?thesis
        by (simp add: desplegar_pasos_falla_2)
    next
      case b: (Inr bucket_name)
      obtain r3 v3 where p3: "crear_instancia_ec2 prov cfg sg_id
           (anuncio ''[3/4] Creando instancia EC2...''
              (registrado ''s3_bucket'' bucket_name v2)) = (r3, v3)"
        by (cases "crear_instancia_ec2 prov cfg sg_id
           (anuncio ''[3/4] Creando instancia EC2...''
              (registrado ''s3_bucket'' bucket_name v2))")
      show ?thesis
      proof (cases r3)
        case (Inl e)
        with p1 p2 p3 sg b assms(4) r show ?thesis
          by (simp add: desplegar_pasos_falla_3)
      next
        case i: (Inr instance_id)
        obtain r4 v4 where p4: "crear_base_datos_rds prov env cfg
           (anuncio ''[4/4] Creando base de datos RDS...''
              (registrado ''ec2_instance'' instance_id v3)) = (r4, v4)"
          by (cases "crear_base_datos_rds prov env cfg
           (anuncio ''[4/4] Creando base de datos RDS...''
              (registrado ''ec2_instance'' instance_id v3))")
        show ?thesis
        proof (cases r4)
          case (Inl e)
          with p1 p2 p3 p4 sg b i assms(4) r show ?thesis
            by (simp add: desplegar_pasos_falla_4)
        next
          case (Inr db_instance_id)
          with p1 p2 p3 p4 sg b i have "desplegar_pasos prov env cfg ?w0 =
            (Inr (),
             v4\<lparr>recursos_creados := poner ''rds_instance'' db_instance_id (recursos_creados v4),
               salida := salida v4 @
                 [(Stdout, CHR 0x0A # raya), (Stdout, ''DESPLIEGUE COMPLETADO EXITOSAMENTE''),
                  (Stdout, raya), (Stdout, CHR 0x0A # ''Recursos creados:'')] @
                 listado (poner ''rds_instance'' db_instance_id (recursos_creados v4)) @
                 recordatorio\<rparr>)"
            by (simp add: desplegar_pasos_exito)
          with assms(4) have "w1 = v4\<lparr>recursos_creados := poner ''rds_instance'' db_instance_id (recursos_creados v4),
               salida := salida v4 @
                 [(Stdout, CHR 0x0A # raya), (Stdout, ''DESPLIEGUE COMPLETADO EXITOSAMENTE''),
                  (Stdout, raya), (Stdout, CHR 0x0A # ''Recursos creados:'')] @
                 listado (poner ''rds_instance'' db_instance_id (recursos_creados v4)) @
                 recordatorio\<rparr>"
            by simp
          then have "salida w1 = (salida v4 @
                 [(Stdout, CHR 0x0A # raya), (Stdout, ''DESPLIEGUE COMPLETADO EXITOSAMENTE''),
                  (Stdout, raya), (Stdout, CHR 0x0A # ''Recursos creados:'')]) @
                 listado (recursos_creados w1) @ recordatorio"
            by simp
          then show ?thesis
            by (rule exI)
        qed
      qed
    qed
  qed
qed

theorem desplegar_informa_error_witness:
  "config_default ''region'' = Some (VStr ''us-east-1'') \<and>
   config_default ''environment'' = Some (VStr ''production'') \<and>
   config_default ''app_name'' = Some (VStr ''app-rh-devops'') \<and>
   fst (desplegar_pasos prov_guion entorno_ejemplo config_default
        (inicio (VStr ''us-east-1'') (VStr ''production'') (VStr ''app-rh-devops'')
          (guion [Inr (RGroupId ''sg-1''), Inr RNada,
        Inl (ClientError ''AccessDenied'' ''acceso denegado'')]))) = Inl (ClientError ''AccessDenied'' ''acceso denegado'') \<and>
   es_Exception (ClientError ''AccessDenied'' ''acceso denegado'') \<and>
   fst (desplegar prov_guion entorno_ejemplo config_default
      (guion [Inr (RGroupId ''sg-1''), Inr RNada,
        Inl (ClientError ''AccessDenied'' ''acceso denegado'')])) = Inl (SystemExit 1) \<and>
   salida (snd (desplegar prov_guion entorno_ejemplo config_default
      (guion [Inr (RGroupId ''sg-1''), Inr RNada,
        Inl (ClientError ''AccessDenied'' ''acceso denegado'')]))) =
     salida (snd (desplegar_pasos prov_guion entorno_ejemplo config_default
        (inicio (VStr ''us-east-1'') (VStr ''production'') (VStr ''app-rh-devops'')
          (guion [Inr (RGroupId ''sg-1''), Inr RNada,
        Inl (ClientError ''AccessDenied'' ''acceso denegado'')])))) @
       [(Stderr, CHR 0x0A # marca_error @ '' Error durante el despliegue: acceso denegado''),
        (Stdout, CHR 0x0A # marca_aviso
           @ '' Algunos recursos pueden haber sido creados. Revisa la consola de AWS.'')] \<and>
   fst (desplegar_pasos prov_guion entorno_ejemplo config_default
        (inicio (VStr ''us-east-1'') (VStr ''production'') (VStr ''app-rh-devops'')
          (guion [Inr (RGroupId ''sg-1''), Inr RNada, Inr RNada, Inr RNada, Inr RNada, Inr RNada,
        Inr RNada, Inr (RInstances [''i-1''])]))) = Inr () \<and>
   fst (desplegar prov_guion entorno_ejemplo config_default
      (guion [Inr (RGroupId ''sg-1''), Inr RNada, Inr RNada, Inr RNada, Inr RNada, Inr RNada,
        Inr RNada, Inr (RInstances [''i-1''])])) = Inr () \<and>
   recursos_creados (snd (desplegar prov_guion entorno_ejemplo config_default
      (guion [Inr (RGroupId ''sg-1''), Inr RNada, Inr RNada, Inr RNada, Inr RNada, Inr RNada,
        Inr RNada, Inr (RInstances [''i-1''])]))) =
       [(''security_group'', ''sg-1''), (''s3_bucket'', ''app-rh-devops-backups-1700000000''),
        (''ec2_instance'', ''i-1''), (''rds_instance'', ''app-rh-devops-db'')] \<and>
   (\<exists>antes. salida (snd (desplegar prov_guion entorno_ejemplo config_default
      (guion [Inr (RGroupId ''sg-1''), Inr RNada, Inr RNada, Inr RNada, Inr RNada, Inr RNada,
        Inr RNada, Inr (RInstances [''i-1''])]))) =
      antes @ listado
       [(''security_group'', ''sg-1''), (''s3_bucket'', ''app-rh-devops-backups-1700000000''),
        (''ec2_instance'', ''i-1''), (''rds_instance'', ''app-rh-devops-db'')] @ recordatorio)"
proof -
  have k1: "config_default ''region'' = Some (VStr ''us-east-1'')"
    and k2: "config_default ''environment'' = Some (VStr ''production'')"
    and k3: "config_default ''app_name'' = Some (VStr ''app-rh-devops'')"
    by (simp_all add: config_default_def)
  have f2: "fst (desplegar_pasos prov_guion entorno_ejemplo config_default
        (inicio (VStr ''us-east-1'') (VStr ''production'') (VStr ''app-rh-devops'')
          (guion [Inr (RGroupId ''sg-1''), Inr RNada,
        Inl (ClientError ''AccessDenied'' ''acceso denegado'')]))) = Inl (ClientError ''AccessDenied'' ''acceso denegado'')"
    by (simp add: evaluar inicio_def)
  have x2: "es_Exception (ClientError ''AccessDenied'' ''acceso denegado'')"
    by simp
  note t2 = desplegar_informa_error [OF k1 k2 k3 prod.collapse [symmetric], THEN conjunct1,
      THEN spec, THEN mp, OF conjI [OF f2 x2]]
  from t2 have a2: "fst (desplegar prov_guion entorno_ejemplo config_default
      (guion [Inr (RGroupId ''sg-1''), Inr RNada,
        Inl (ClientError ''AccessDenied'' ''acceso denegado'')])) = Inl (SystemExit 1)"
    by simp
  from t2 have b2: "salida (snd (desplegar prov_guion entorno_ejemplo config_default
      (guion [Inr (RGroupId ''sg-1''), Inr RNada,
        Inl (ClientError ''AccessDenied'' ''acceso denegado'')]))) =
     salida (snd (desplegar_pasos prov_guion entorno_ejemplo config_default
        (inicio (VStr ''us-east-1'') (VStr ''production'') (VStr ''app-rh-devops'')
          (guion [Inr (RGroupId ''sg-1''), Inr RNada,
        Inl (ClientError ''AccessDenied'' ''acceso denegado'')])))) @
       [(Stderr, CHR 0x0A # marca_error @ '' Error durante el despliegue: acceso denegado''),
        (Stdout, CHR 0x0A # marca_aviso
           @ '' Algunos recursos pueden haber sido creados. Revisa la consola de AWS.'')]"
    by simp
  have fk: "fst (desplegar_pasos prov_guion entorno_ejemplo config_default
        (inicio (VStr ''us-east-1'') (VStr ''production'') (VStr ''app-rh-devops'')
          (guion [Inr (RGroupId ''sg-1''), Inr RNada, Inr RNada, Inr RNada, Inr RNada, Inr RNada,
        Inr RNada, Inr (RInstances [''i-1''])]))) = Inr ()"
    by (simp add: evaluar inicio_def imprimir_recursos_def)
  note tk = desplegar_informa_error [OF k1 k2 k3 prod.collapse [symmetric], THEN conjunct2,
      THEN mp, OF fk]
  from tk have ak: "fst (desplegar prov_guion entorno_ejemplo config_default
      (guion [Inr (RGroupId ''sg-1''), Inr RNada, Inr RNada, Inr RNada, Inr RNada, Inr RNada,
        Inr RNada, Inr (RInstances [''i-1''])])) = Inr ()"
    by simp
  have rk: "recursos_creados (snd (desplegar_pasos prov_guion entorno_ejemplo config_default
        (inicio (VStr ''us-east-1'') (VStr ''production'') (VStr ''app-rh-devops'')
          (guion [Inr (RGroupId ''sg-1''), Inr RNada, Inr RNada, Inr RNada, Inr RNada, Inr RNada,
        Inr RNada, Inr (RInstances [''i-1''])])))) =
       [(''security_group'', ''sg-1''), (''s3_bucket'', ''app-rh-devops-backups-1700000000''),
        (''ec2_instance'', ''i-1''), (''rds_instance'', ''app-rh-devops-db'')]"
    by (simp add: evaluar inicio_def imprimir_recursos_def)
  from tk have sk: "snd (desplegar prov_guion entorno_ejemplo config_default
      (guion [Inr (RGroupId ''sg-1''), Inr RNada, Inr RNada, Inr RNada, Inr RNada, Inr RNada,
        Inr RNada, Inr (RInstances [''i-1''])])) =
      snd (desplegar_pasos prov_guion entorno_ejemplo config_default
        (inicio (VStr ''us-east-1'') (VStr ''production'') (VStr ''app-rh-devops'')
          (guion [Inr (RGroupId ''sg-1''), Inr RNada, Inr RNada, Inr RNada, Inr RNada, Inr RNada,
        Inr RNada, Inr (RInstances [''i-1''])])))"
    by simp
  from rk sk have ck: "recursos_creados (snd (desplegar prov_guion entorno_ejemplo config_default
      (guion [Inr (RGroupId ''sg-1''), Inr RNada, Inr RNada, Inr RNada, Inr RNada, Inr RNada,
        Inr RNada, Inr (RInstances [''i-1''])]))) =
       [(''security_group'', ''sg-1''), (''s3_bucket'', ''app-rh-devops-backups-1700000000''),
        (''ec2_instance'', ''i-1''), (''rds_instance'', ''app-rh-devops-db'')]"
    by simp
  from tk have "\<exists>antes. salida (snd (desplegar_pasos prov_guion entorno_ejemplo config_default
        (inicio (VStr ''us-east-1'') (VStr ''production'') (VStr ''app-rh-devops'')
          (guion [Inr (RGroupId ''sg-1''), Inr RNada, Inr RNada, Inr RNada, Inr RNada, Inr RNada,
        Inr RNada, Inr (RInstances [''i-1''])])))) =
      antes @ listado (recursos_creados (snd (desplegar_pasos prov_guion entorno_ejemplo config_default
        (inicio (VStr ''us-east-1'') (VStr ''production'') (VStr ''app-rh-devops'')
          (guion [Inr (RGroupId ''sg-1''), Inr RNada, Inr RNada, Inr RNada, Inr RNada, Inr RNada,
        Inr RNada, Inr (RInstances [''i-1''])]))))) @ recordatorio"
    by (rule conjunct2)
  then have dk: "\<exists>antes. salida (snd (desplegar prov_guion entorno_ejemplo config_default
      (guion [Inr (RGroupId ''sg-1''), Inr RNada, Inr RNada, Inr RNada, Inr RNada, Inr RNada,
        Inr RNada, Inr (RInstances [''i-1''])]))) =
      antes @ listado
       [(''security_group'', ''sg-1''), (''s3_bucket'', ''app-rh-devops-backups-1700000000''),
        (''ec2_instance'', ''i-1''), (''rds_instance'', ''app-rh-devops-db'')] @ recordatorio"
    unfolding sk [symmetric] ck .
  from k1 k2 k3 f2 x2 a2 b2 fk ak ck dk show ?thesis
    by (intro conjI) assumption+
qed

text \<open>
  C2, as stated, fails: in the run below the security group is created and recorded
  under \<open>security_group\<close>, the creation of the bucket is refused, and the output, given
  in full, ends with the error and the warning; no text of it contains the label of the
  recorded entry.
\<close>

theorem desplegar_no_lista_recursos_counterexample:
  "desplegar prov_guion entorno_ejemplo config_default
     (guion [Inr (RGroupId ''sg-1''), Inr RNada,
             Inl (ClientError ''AccessDenied'' ''acceso denegado'')]) =
   (Inl (SystemExit 1),
    \<lparr>nube = [],
     llamadas =
       [(CreateSecurityGroup ''app-rh-devops-sg''
           (''Security Group para aplicaci'' @ [CHR 0xC3, CHR 0xB3] @ ''n de RH - production'')
           [(''Name'', VStr ''app-rh-devops-sg''), (''Environment'', VStr ''production''),
            (''Application'', VStr ''Recursos Humanos'')],
         Inr (RGroupId ''sg-1'')),
        (AuthorizeSecurityGroupIngress ''sg-1'' reglas_ingreso, Inr RNada),
        (CreateBucket ''app-rh-devops-backups-1700000000'' None,
         Inl (ClientError ''AccessDenied'' ''acceso denegado''))],
     salida =
       [(Stdout, raya),
        (Stdout, ''INICIANDO DESPLIEGUE DE APLICACI'' @ [CHR 0xC3, CHR 0x93]
                 @ ''N DE RECURSOS HUMANOS''),
        (Stdout, raya),
        (Stdout, ''Regi'' @ [CHR 0xC3, CHR 0xB3] @ ''n: us-east-1''),
        (Stdout, ''Ambiente: production''),
        (Stdout, ''Aplicaci'' @ [CHR 0xC3, CHR 0xB3] @ ''n: app-rh-devops''),
        (Stdout, raya),
        (Stdout, []),
        (Stdout, CHR 0x0A # ''[1/4] Creando Security Group...''),
        (Stdout, marca_ok @ '' Security Group creado: sg-1''),
        (Stdout, marca_ok @ '' Reglas de seguridad configuradas para sg-1''),
        (Stdout, CHR 0x0A # ''[2/4] Creando bucket S3 para backups...''),
        (Stderr, marca_error @ '' Error creando bucket S3: acceso denegado''),
        (Stderr, CHR 0x0A # marca_error @ '' Error durante el despliegue: acceso denegado''),
        (Stdout, CHR 0x0A # marca_aviso
           @ '' Algunos recursos pueden haber sido creados. Revisa la consola de AWS.'')],
     recursos_creados = [(''security_group'', ''sg-1'')]\<rparr>) \<and>
   \<not> menciona ''security_group''
     (salida (snd (desplegar prov_guion entorno_ejemplo config_default
       (guion [Inr (RGroupId ''sg-1''), Inr RNada,
               Inl (ClientError ''AccessDenied'' ''acceso denegado'')]))))"
proof -
  have e: "desplegar prov_guion entorno_ejemplo config_default
     (guion [Inr (RGroupId ''sg-1''), Inr RNada,
             Inl (ClientError ''AccessDenied'' ''acceso denegado'')]) =
   (Inl (SystemExit 1),
    \<lparr>nube = [],
     llamadas =
       [(CreateSecurityGroup ''app-rh-devops-sg''
           (''Security Group para aplicaci'' @ [CHR 0xC3, CHR 0xB3] @ ''n de RH - production'')
           [(''Name'', VStr ''app-rh-devops-sg''), (''Environment'', VStr ''production''),
            (''Application'', VStr ''Recursos Humanos'')],
         Inr (RGroupId ''sg-1'')),
        (AuthorizeSecurityGroupIngress ''sg-1'' reglas_ingreso, Inr RNada),
        (CreateBucket ''app-rh-devops-backups-1700000000'' None,
         Inl (ClientError ''AccessDenied'' ''acceso denegado''))],
     salida =
       [(Stdout, raya),
        (Stdout, ''INICIANDO DESPLIEGUE DE APLICACI'' @ [CHR 0xC3, CHR 0x93]
                 @ ''N DE RECURSOS HUMANOS''),
        (Stdout, raya),
        (Stdout, ''Regi'' @ [CHR 0xC3, CHR 0xB3] @ ''n: us-east-1''),
        (Stdout, ''Ambiente: production''),
        (Stdout, ''Aplicaci'' @ [CHR 0xC3, CHR 0xB3] @ ''n: app-rh-devops''),
        (Stdout, raya),
        (Stdout, []),
        (Stdout, CHR 0x0A # ''[1/4] Creando Security Group...''),
        (Stdout, marca_ok @ '' Security Group creado: sg-1''),
        (Stdout, marca_ok @ '' Reglas de seguridad configuradas para sg-1''),
        (Stdout, CHR 0x0A # ''[2/4] Creando bucket S3 para backups...''),
        (Stderr, marca_error @ '' Error creando bucket S3: acceso denegado''),
        (Stderr, CHR 0x0A # marca_error @ '' Error durante el despliegue: acceso denegado''),
        (Stdout, CHR 0x0A # marca_aviso
           @ '' Algunos recursos pueden haber sido creados. Revisa la consola de AWS.'')],
     recursos_creados = [(''security_group'', ''sg-1'')]\<rparr>)"
    by (simp add: evaluar)
  have "\<not> menciona ''security_group''
     (salida (snd (desplegar prov_guion entorno_ejemplo config_default
       (guion [Inr (RGroupId ''sg-1''), Inr RNada,
               Inl (ClientError ''AccessDenied'' ''acceso denegado'')]))))"
    unfolding e
    by (simp add: menciona_def raya_def marca_ok_def marca_error_def marca_aviso_def
        raya_sin_etiqueta)
  with e show ?thesis
    by (intro conjI) assumption+
qed

subsection \<open>Interruption and exit status\<close>

lemma calladaI:
  assumes "\<And>w r w'. m w = (r, w') \<Longrightarrow>
     \<exists>t s. llamadas w' = llamadas w @ t \<and> salida w' = salida w @ s \<and> sin_stderr s \<and>
        (interrumpida t \<longrightarrow> r = Inl KeyboardInterrupt)"
  shows "callada m"
  using assms unfolding callada_def by blast

lemma calladaD:
  assumes "callada m" and "m w = (r, w')"
  shows "\<exists>t s. llamadas w' = llamadas w @ t \<and> salida w' = salida w @ s \<and> sin_stderr s \<and>
        (interrumpida t \<longrightarrow> r = Inl KeyboardInterrupt)"
  using assms unfolding callada_def by blast

lemma propagaD:
  assumes "propaga m" and "m w = (r, w')"
  shows "\<exists>t s. llamadas w' = llamadas w @ t \<and> salida w' = salida w @ s \<and>
        (interrumpida t \<longrightarrow> r = Inl KeyboardInterrupt \<and> sin_stderr s) \<and>
        (\<not> sin_stderr s \<longrightarrow> (\<exists>e. r = Inl e))"
  using assms unfolding propaga_def by blast

lemma mudaD:
  assumes "muda m" and "m w = (r, w')"
  shows "llamadas w' = llamadas w \<and> (\<exists>s. salida w' = salida w @ s) \<and> (\<exists>e. r = Inl e)"
  using assms unfolding muda_def by blast

lemma interrumpida_vacia: "\<not> interrumpida []"
  by (simp add: interrumpida_def)

lemma interrumpida_append: "interrumpida (t @ u) = (interrumpida t \<or> interrumpida u)"
  by (simp add: interrumpida_def)

lemma sin_stderr_vacia: "sin_stderr []"
  by (simp add: sin_stderr_def)

lemma sin_stderr_append: "sin_stderr (s @ u) = (sin_stderr s \<and> sin_stderr u)"
  by (simp add: sin_stderr_def)

lemma callada_devolver: "callada (devolver x)"
  by (rule calladaI) (auto simp: devolver_def interrumpida_vacia sin_stderr_vacia)

lemma callada_lanzar: "callada (lanzar e)"
  by (rule calladaI) (auto simp: lanzar_def interrumpida_vacia sin_stderr_vacia)

lemma callada_imprimir: "callada (imprimir Stdout s)"
proof (rule calladaI)
  fix w r w'
  assume "imprimir Stdout s w = (r, w')"
  then have "llamadas w' = llamadas w @ []" and "salida w' = salida w @ [(Stdout, s)]"
    by (auto simp: imprimir_def)
  moreover have "sin_stderr [(Stdout, s)]"
    by (simp add: sin_stderr_def)
  ultimately show "\<exists>t s. llamadas w' = llamadas w @ t \<and> salida w' = salida w @ s \<and>
      sin_stderr s \<and> (interrumpida t \<longrightarrow> r = Inl KeyboardInterrupt)"
    using interrumpida_vacia by blast
qed

lemma callada_invocar: "callada (invocar prov c)"
proof (rule calladaI)
  fix w r w'
  assume a: "invocar prov c w = (r, w')"
  then have "llamadas w' = llamadas w @ [(c, r)]" and "salida w' = salida w @ []"
    by (auto simp: invocar_def split: prod.splits)
  moreover have "interrumpida [(c, r)] \<longrightarrow> r = Inl KeyboardInterrupt"
    by (simp add: interrumpida_def)
  ultimately show "\<exists>t s. llamadas w' = llamadas w @ t \<and> salida w' = salida w @ s \<and>
      sin_stderr s \<and> (interrumpida t \<longrightarrow> r = Inl KeyboardInterrupt)"
    using sin_stderr_vacia by blast
qed

lemma callada_leer: "callada (leer cfg k)"
  by (simp add: leer_def callada_devolver callada_lanzar split: option.splits)

lemma callada_ligar:
  assumes "callada m" and "\<And>x. callada (f x)"
  shows "callada (ligar m f)"
proof (rule calladaI)
  fix w r w'
  assume a: "ligar m f w = (r, w')"
  obtain r1 w1 where m: "m w = (r1, w1)"
    by (cases "m w")
  from calladaD [OF assms(1) m] obtain t1 s1 where 1: "llamadas w1 = llamadas w @ t1"
      "salida w1 = salida w @ s1" "sin_stderr s1" "interrumpida t1 \<longrightarrow> r1 = Inl KeyboardInterrupt"
    by blast
  show "\<exists>t s. llamadas w' = llamadas w @ t \<and> salida w' = salida w @ s \<and>
      sin_stderr s \<and> (interrumpida t \<longrightarrow> r = Inl KeyboardInterrupt)"
  proof (cases r1)
    case (Inl e)
    with a m have "r = Inl e" "w' = w1"
      by (simp_all add: ligar_def)
    with 1 Inl show ?thesis by auto
  next
    case (Inr x)
    with a m have fx: "f x w1 = (r, w')"
      by (simp add: ligar_def)
    from calladaD [OF assms(2) fx] obtain t2 s2 where 2: "llamadas w' = llamadas w1 @ t2"
        "salida w' = salida w1 @ s2" "sin_stderr s2" "interrumpida t2 \<longrightarrow> r = Inl KeyboardInterrupt"
      by blast
    from 1 2 have "llamadas w' = llamadas w @ (t1 @ t2)" "salida w' = salida w @ (s1 @ s2)"
      "sin_stderr (s1 @ s2)"
      by (simp_all add: sin_stderr_append)
    moreover from 1(4) 2(4) Inr have "interrumpida (t1 @ t2) \<longrightarrow> r = Inl KeyboardInterrupt"
      by (auto simp: interrumpida_append)
    ultimately show ?thesis by blast
  qed
qed

lemma callada_si: "callada m \<Longrightarrow> callada n \<Longrightarrow> callada (if b then m else n)"
  by simp

lemma callada_leer_GroupId: "callada (leer_GroupId r)"
  by (cases r) (simp_all add: callada_devolver callada_lanzar)

lemma callada_leer_primer_grupo: "callada (leer_primer_grupo r)"
  by (cases r rule: leer_primer_grupo.cases) (simp_all add: callada_devolver callada_lanzar)

lemma callada_leer_primera_instancia: "callada (leer_primera_instancia r)"
  by (cases r rule: leer_primera_instancia.cases) (simp_all add: callada_devolver callada_lanzar)

lemmas callada_reglas = callada_devolver callada_lanzar callada_imprimir callada_invocar
  callada_leer callada_ligar callada_si callada_leer_GroupId callada_leer_primer_grupo
  callada_leer_primera_instancia

lemma muda_lanzar: "muda (lanzar e)"
  by (simp add: muda_def lanzar_def)

lemma muda_imprimir:
  assumes "\<And>x. muda (f x)"
  shows "muda (ligar (imprimir fl s) f)"
  unfolding muda_def
proof (intro allI impI)
  fix w r w'
  assume "ligar (imprimir fl s) f w = (r, w')"
  then have "f () (w\<lparr>salida := salida w @ [(fl, s)]\<rparr>) = (r, w')"
    by (simp add: ligar_imprimir)
  from mudaD [OF assms this] obtain s2 e where "llamadas w' = llamadas w"
    "salida w' = salida w @ ([(fl, s)] @ s2)" "r = Inl e"
    by auto
  then show "llamadas w' = llamadas w \<and> (\<exists>s. salida w' = salida w @ s) \<and> (\<exists>e. r = Inl e)"
    by blast
qed

lemma propaga_callada: "callada m \<Longrightarrow> propaga m"
  unfolding callada_def propaga_def by blast

lemma propaga_muda:
  assumes "muda m"
  shows "propaga m"
  unfolding propaga_def
proof (intro allI impI)
  fix w r w'
  assume "m w = (r, w')"
  from mudaD [OF assms this] obtain s e where "llamadas w' = llamadas w"
    "salida w' = salida w @ s" "r = Inl e"
    by blast
  then have "llamadas w' = llamadas w @ []" "salida w' = salida w @ s" "\<exists>e. r = Inl e"
    by simp_all
  then show "\<exists>t s. llamadas w' = llamadas w @ t \<and> salida w' = salida w @ s \<and>
      (interrumpida t \<longrightarrow> r = Inl KeyboardInterrupt \<and> sin_stderr s) \<and>
      (\<not> sin_stderr s \<longrightarrow> (\<exists>e. r = Inl e))"
    using interrumpida_vacia by blast
qed

lemma propaga_ligar:
  assumes "propaga m" and "\<And>x. propaga (f x)"
  shows "propaga (ligar m f)"
  unfolding propaga_def
proof (intro allI impI)
  fix w r w'
  assume a: "ligar m f w = (r, w')"
  obtain r1 w1 where m: "m w = (r1, w1)"
    by (cases "m w")
  from propagaD [OF assms(1) m] obtain t1 s1 where 1: "llamadas w1 = llamadas w @ t1"
      "salida w1 = salida w @ s1"
      "interrumpida t1 \<longrightarrow> r1 = Inl KeyboardInterrupt \<and> sin_stderr s1"
      "\<not> sin_stderr s1 \<longrightarrow> (\<exists>e. r1 = Inl e)"
    by blast
  show "\<exists>t s. llamadas w' = llamadas w @ t \<and> salida w' = salida w @ s \<and>
      (interrumpida t \<longrightarrow> r = Inl KeyboardInterrupt \<and> sin_stderr s) \<and>
      (\<not> sin_stderr s \<longrightarrow> (\<exists>e. r = Inl e))"
  proof (cases r1)
    case (Inl e)
    with a m have "r = Inl e" "w' = w1"
      by (simp_all add: ligar_def)
    with 1 Inl show ?thesis by auto
  next
    case (Inr x)
    with a m have fx: "f x w1 = (r, w')"
      by (simp add: ligar_def)
    from propagaD [OF assms(2) fx] obtain t2 s2 where 2: "llamadas w' = llamadas w1 @ t2"
        "salida w' = salida w1 @ s2"
        "interrumpida t2 \<longrightarrow> r = Inl KeyboardInterrupt \<and> sin_stderr s2"
        "\<not> sin_stderr s2 \<longrightarrow> (\<exists>e. r = Inl e)"
      by blast
    from 1(3,4) Inr have n1: "\<not> interrumpida t1" and q1: "sin_stderr s1"
      by auto
    from 1 2 have "llamadas w' = llamadas w @ (t1 @ t2)" "salida w' = salida w @ (s1 @ s2)"
      by simp_all
    moreover from n1 q1 2(3) have
      "interrumpida (t1 @ t2) \<longrightarrow> r = Inl KeyboardInterrupt \<and> sin_stderr (s1 @ s2)"
      by (auto simp: interrumpida_append sin_stderr_append)
    moreover from q1 2(4) have "\<not> sin_stderr (s1 @ s2) \<longrightarrow> (\<exists>e. r = Inl e)"
      by (auto simp: sin_stderr_append)
    ultimately show ?thesis by blast
  qed
qed

lemma propaga_except_ClientError:
  assumes "callada m" and "\<And>c t. propaga (h c t)"
  shows "propaga (except_ClientError m h)"
  unfolding propaga_def
proof (intro allI impI)
  fix w r w'
  assume a: "except_ClientError m h w = (r, w')"
  obtain r1 w1 where m: "m w = (r1, w1)"
    by (cases "m w")
  from calladaD [OF assms(1) m] obtain t1 s1 where 1: "llamadas w1 = llamadas w @ t1"
      "salida w1 = salida w @ s1" "sin_stderr s1"
      "interrumpida t1 \<longrightarrow> r1 = Inl KeyboardInterrupt"
    by blast
  show "\<exists>t s. llamadas w' = llamadas w @ t \<and> salida w' = salida w @ s \<and>
      (interrumpida t \<longrightarrow> r = Inl KeyboardInterrupt \<and> sin_stderr s) \<and>
      (\<not> sin_stderr s \<longrightarrow> (\<exists>e. r = Inl e))"
  proof (cases "\<exists>c t. r1 = Inl (ClientError c t)")
    case True
    then obtain c t where c: "r1 = Inl (ClientError c t)"
      by blast
    with a m have hx: "h c t w1 = (r, w')"
      by (simp add: except_ClientError_def)
    from propagaD [OF assms(2) hx] obtain t2 s2 where 2: "llamadas w' = llamadas w1 @ t2"
        "salida w' = salida w1 @ s2"
        "interrumpida t2 \<longrightarrow> r = Inl KeyboardInterrupt \<and> sin_stderr s2"
        "\<not> sin_stderr s2 \<longrightarrow> (\<exists>e. r = Inl e)"
      by blast
    from 1(4) c have n1: "\<not> interrumpida t1"
      by auto
    from 1 2 have "llamadas w' = llamadas w @ (t1 @ t2)" "salida w' = salida w @ (s1 @ s2)"
      by simp_all
    moreover from n1 1(3) 2(3) have
      "interrumpida (t1 @ t2) \<longrightarrow> r = Inl KeyboardInterrupt \<and> sin_stderr (s1 @ s2)"
      by (auto simp: interrumpida_append sin_stderr_append)
    moreover from 1(3) 2(4) have "\<not> sin_stderr (s1 @ s2) \<longrightarrow> (\<exists>e. r = Inl e)"
      by (auto simp: sin_stderr_append)
    ultimately show ?thesis by blast
  next
    case False
    with a m have "r = r1" "w' = w1"
      by (auto simp: except_ClientError_def split: sum.splits excepcion.splits)
    with 1 show ?thesis by blast
  qed
qed

lemma propaga_except_Exception:
  assumes "propaga m" and "\<And>e. muda (h e)"
  shows "propaga (except_Exception m h)"
  unfolding propaga_def
proof (intro allI impI)
  fix w r w'
  assume a: "except_Exception m h w = (r, w')"
  obtain r1 w1 where m: "m w = (r1, w1)"
    by (cases "m w")
  from propagaD [OF assms(1) m] obtain t1 s1 where 1: "llamadas w1 = llamadas w @ t1"
      "salida w1 = salida w @ s1"
      "interrumpida t1 \<longrightarrow> r1 = Inl KeyboardInterrupt \<and> sin_stderr s1"
      "\<not> sin_stderr s1 \<longrightarrow> (\<exists>e. r1 = Inl e)"
    by blast
  show "\<exists>t s. llamadas w' = llamadas w @ t \<and> salida w' = salida w @ s \<and>
      (interrumpida t \<longrightarrow> r = Inl KeyboardInterrupt \<and> sin_stderr s) \<and>
      (\<not> sin_stderr s \<longrightarrow> (\<exists>e. r = Inl e))"
  proof (cases "\<exists>e. r1 = Inl e \<and> es_Exception e")
    case True
    then obtain e where e: "r1 = Inl e" "es_Exception e"
      by blast
    with a m have hx: "h e w1 = (r, w')"
      by (simp add: except_Exception_def)
    from mudaD [OF assms(2) hx] obtain s2 e2 where 2: "llamadas w' = llamadas w1"
        "salida w' = salida w1 @ s2" "r = Inl e2"
      by blast
    from 1(3) e have n1: "\<not> interrumpida t1"
      by auto
    from 1 2 have "llamadas w' = llamadas w @ t1" "salida w' = salida w @ (s1 @ s2)"
      by simp_all
    with n1 2(3) show ?thesis by blast
  next
    case False
    with a m have "r = r1" "w' = w1"
      by (auto simp: except_Exception_def split: sum.splits)
    with 1 show ?thesis by blast
  qed
qed

lemma propaga_si: "propaga m \<Longrightarrow> propaga n \<Longrightarrow> propaga (if b then m else n)"
  by simp

lemma propaga_leer: "(\<And>v. propaga (f v)) \<Longrightarrow> propaga (ligar (leer cfg k) f)"
  by (rule propaga_ligar [OF propaga_callada [OF callada_leer]])

lemma propaga_error: "propaga (ligar (imprimir Stderr s) (\<lambda>_. lanzar e))"
  by (rule propaga_muda) (intro muda_imprimir muda_lanzar)

lemma propaga_crear_security_group: "propaga (crear_security_group prov cfg)"
  unfolding crear_security_group_def Let_def
  apply (rule propaga_leer)
  apply (rule propaga_leer)
  apply (rule propaga_except_ClientError)
   apply (intro callada_reglas)
  apply (rule propaga_si)
   apply (rule propaga_callada)
   apply (intro callada_reglas)
  apply (rule propaga_error)
  done

lemma propaga_crear_bucket_s3_backup: "propaga (crear_bucket_s3_backup prov env cfg)"
  unfolding crear_bucket_s3_backup_def Let_def
  apply (rule propaga_leer)
  apply (rule propaga_ligar)
   apply (rule propaga_except_ClientError)
    apply (intro callada_reglas)
   apply (rule propaga_error)
  apply (rule propaga_callada [OF callada_devolver])
  done

lemma propaga_crear_instancia_ec2: "propaga (crear_instancia_ec2 prov cfg sg_id)"
  unfolding crear_instancia_ec2_def Let_def
  apply (rule propaga_except_ClientError)
   apply (intro callada_reglas)
  apply (rule propaga_error)
  done

lemma propaga_crear_base_datos_rds: "propaga (crear_base_datos_rds prov env cfg)"
  unfolding crear_base_datos_rds_def Let_def
  apply (rule propaga_leer)
  apply (rule propaga_ligar)
   apply (rule propaga_except_ClientError)
    apply (intro callada_reglas)
   apply (rule propaga_si)
    apply (rule propaga_callada [OF callada_imprimir])
   apply (rule propaga_error)
  apply (rule propaga_callada [OF callada_devolver])
  done

lemma callada_anotar: "callada (anotar k v)"
  by (rule calladaI) (auto simp: anotar_def interrumpida_vacia sin_stderr_vacia)

lemma callada_vaciar_recursos: "callada vaciar_recursos"
  by (rule calladaI) (auto simp: vaciar_recursos_def interrumpida_vacia sin_stderr_vacia)

lemma callada_imprimir_lista: "callada (imprimir_lista Stdout xs)"
proof (rule calladaI)
  fix w r w'
  assume "imprimir_lista Stdout xs w = (r, w')"
  then have "llamadas w' = llamadas w @ []" and "salida w' = salida w @ map (Pair Stdout) xs"
    by (auto simp: imprimir_lista_eq)
  moreover have "sin_stderr (map (Pair Stdout) xs)"
    by (simp add: sin_stderr_def list_all_iff)
  ultimately show "\<exists>t s. llamadas w' = llamadas w @ t \<and> salida w' = salida w @ s \<and>
      sin_stderr s \<and> (interrumpida t \<longrightarrow> r = Inl KeyboardInterrupt)"
    using interrumpida_vacia by blast
qed

lemma callada_imprimir_recursos: "callada imprimir_recursos"
proof (rule calladaI)
  fix w r w'
  assume "imprimir_recursos w = (r, w')"
  then have "imprimir_lista Stdout
       (map (\<lambda>(recurso, valor). ''  - '' @ recurso @ '': '' @ valor) (recursos_creados w)) w =
     (r, w')"
    by (simp add: imprimir_recursos_def)
  from calladaD [OF callada_imprimir_lista this]
  show "\<exists>t s. llamadas w' = llamadas w @ t \<and> salida w' = salida w @ s \<and>
      sin_stderr s \<and> (interrumpida t \<longrightarrow> r = Inl KeyboardInterrupt)" .
qed

lemma muda_imprimir_lista:
  assumes "\<And>x. muda (f x)"
  shows "muda (ligar (imprimir_lista fl xs) f)"
  unfolding muda_def
proof (intro allI impI)
  fix w r w'
  assume "ligar (imprimir_lista fl xs) f w = (r, w')"
  then have "f () (w\<lparr>salida := salida w @ map (Pair fl) xs\<rparr>) = (r, w')"
    by (simp add: ligar_imprimir_lista)
  from mudaD [OF assms this] obtain s2 e where "llamadas w' = llamadas w"
    "salida w' = salida w @ (map (Pair fl) xs @ s2)" "r = Inl e"
    by auto
  then show "llamadas w' = llamadas w \<and> (\<exists>s. salida w' = salida w @ s) \<and> (\<exists>e. r = Inl e)"
    by blast
qed

lemma propaga_desplegar_pasos: "propaga (desplegar_pasos prov env cfg)"
  unfolding desplegar_pasos_def
  by (intro propaga_ligar propaga_crear_security_group propaga_crear_bucket_s3_backup
      propaga_crear_instancia_ec2 propaga_crear_base_datos_rds
      propaga_callada [OF callada_imprimir] propaga_callada [OF callada_anotar]
      propaga_callada [OF callada_imprimir_recursos]
      propaga_callada [OF callada_imprimir_lista])

lemma propaga_desplegar: "propaga (desplegar prov env cfg)"
  unfolding desplegar_def
  by (intro propaga_ligar propaga_callada [OF callada_imprimir]
      propaga_callada [OF callada_leer] propaga_callada [OF callada_vaciar_recursos]
      propaga_except_Exception propaga_desplegar_pasos muda_imprimir muda_lanzar)

lemma propaga_cargar_configuracion: "propaga (cargar_configuracion env config_file)"
  by (auto simp: cargar_configuracion_def propaga_error propaga_callada callada_devolver
      callada_lanzar split: option.splits sum.splits excepcion.splits)

lemma propaga_validar_variables_entorno: "propaga (validar_variables_entorno env)"
  unfolding validar_variables_entorno_def Let_def
  apply (rule propaga_si)
   apply (rule propaga_muda)
   apply (intro muda_imprimir muda_imprimir_lista muda_lanzar)
  apply (rule propaga_callada [OF callada_devolver])
  done

lemma propaga_init_DespliegueRH: "propaga (init_DespliegueRH prov env config_file)"
  unfolding init_DespliegueRH_def
  by (intro propaga_ligar propaga_cargar_configuracion propaga_validar_variables_entorno
      propaga_callada [OF callada_leer] propaga_callada [OF callada_invocar]
      propaga_callada [OF callada_devolver])

lemma propaga_ejecutar: "propaga (ejecutar prov env config_file)"
  unfolding ejecutar_def
  by (intro propaga_ligar propaga_init_DespliegueRH propaga_desplegar)

lemma cargar_configuracion_completa:
  "cargar_configuracion env config_file w = (Inr cfg, w0) \<Longrightarrow> completa cfg"
  by (auto simp: cargar_configuracion_def devolver_def lanzar_def ligar_imprimir completa_def
      claves_config_def config_default_def map_add_def
      split: option.splits sum.splits excepcion.splits if_splits)

lemma init_DespliegueRH_completa:
  assumes "init_DespliegueRH prov env config_file w = (Inr cfg, w0)"
  shows "completa cfg"
proof -
  obtain r1 w1 where c: "cargar_configuracion env config_file w = (r1, w1)"
    by (cases "cargar_configuracion env config_file w")
  show ?thesis
  proof (cases r1)
    case (Inl e)
    with c assms show ?thesis
      by (simp add: init_DespliegueRH_def ligar_def)
  next
    case (Inr cfg1)
    with c assms have "cfg = cfg1"
      by (auto simp: init_DespliegueRH_def ligar_def devolver_def
          split: prod.splits sum.splits)
    with c Inr show ?thesis
      by (simp add: cargar_configuracion_completa)
  qed
qed

lemma desplegar_pasos_completo:
  assumes "desplegar_pasos prov env cfg w = (Inr (), w')" and "recursos_creados w = []"
  shows "map fst (recursos_creados w') =
    [''security_group'', ''s3_bucket'', ''ec2_instance'', ''rds_instance'']"
proof -
  obtain r1 v1 where p1: "crear_security_group prov cfg
      (anuncio ''[1/4] Creando Security Group...'' w) = (r1, v1)"
    by (cases "crear_security_group prov cfg (anuncio ''[1/4] Creando Security Group...'' w)")
  show ?thesis
  proof (cases r1)
    case (Inl e)
    with p1 assms(1) show ?thesis
      by (simp add: desplegar_pasos_falla_1)
  next
    case sg: (Inr sg_id)
    obtain r2 v2 where p2: "crear_bucket_s3_backup prov env cfg
           (anuncio ''[2/4] Creando bucket S3 para backups...''
              (registrado ''security_group'' sg_id v1)) = (r2, v2)"
      by (cases "crear_bucket_s3_backup prov env cfg
           (anuncio ''[2/4] Creando bucket S3 para backups...''
              (registrado ''security_group'' sg_id v1))")
    show ?thesis
    proof (cases r2)
      case (Inl e)
      with p1 p2 sg assms(1) show ?thesis
        by (simp add: desplegar_pasos_falla_2)
    next
      case b: (Inr bucket_name)
      obtain r3 v3 where p3: "crear_instancia_ec2 prov cfg sg_id
           (anuncio ''[3/4] Creando instancia EC2...''
              (registrado ''s3_bucket'' bucket_name v2)) = (r3, v3)"
        by (cases "crear_instancia_ec2 prov cfg sg_id
           (anuncio ''[3/4] Creando instancia EC2...''
              (registrado ''s3_bucket'' bucket_name v2))")
      show ?thesis
      proof (cases r3)
        case (Inl e)
        with p1 p2 p3 sg b assms(1) show ?thesis
          by (simp add: desplegar_pasos_falla_3)
      next
        case i: (Inr instance_id)
        obtain r4 v4 where p4: "crear_base_datos_rds prov env cfg
           (anuncio ''[4/4] Creando base de datos RDS...''
              (registrado ''ec2_instance'' instance_id v3)) = (r4, v4)"
          by (cases "crear_base_datos_rds prov env cfg
           (anuncio ''[4/4] Creando base de datos RDS...''
              (registrado ''ec2_instance'' instance_id v3))")
        show ?thesis
        proof (cases r4)
          case (Inl e)
          with p1 p2 p3 p4 sg b i assms(1) show ?thesis
            by (simp add: desplegar_pasos_falla_4)
        next
          case d: (Inr db_instance_id)
          from conserva_igual [OF conserva_crear_security_group p1] assms(2)
          have q1: "recursos_creados v1 = []"
            by (simp add: anuncio_def)
          from conserva_igual [OF conserva_crear_bucket_s3_backup p2]
          have q2: "recursos_creados v2 = [(''security_group'', sg_id)]"
            by (simp add: anuncio_def registrado_def q1)
          from conserva_igual [OF conserva_crear_instancia_ec2 p3]
          have q3: "recursos_creados v3 = [(''security_group'', sg_id), (''s3_bucket'', bucket_name)]"
            by (simp add: anuncio_def registrado_def q2)
          from conserva_igual [OF conserva_crear_base_datos_rds p4]
          have q4: "recursos_creados v4 =
              [(''security_group'', sg_id), (''s3_bucket'', bucket_name),
               (''ec2_instance'', instance_id)]"
            by (simp add: anuncio_def registrado_def q3)
          from p1 p2 p3 p4 sg b i d have "desplegar_pasos prov env cfg w =
            (Inr (),
             v4\<lparr>recursos_creados := poner ''rds_instance'' db_instance_id (recursos_creados v4),
               salida := salida v4 @
                 [(Stdout, CHR 0x0A # raya), (Stdout, ''DESPLIEGUE COMPLETADO EXITOSAMENTE''),
                  (Stdout, raya), (Stdout, CHR 0x0A # ''Recursos creados:'')] @
                 listado (poner ''rds_instance'' db_instance_id (recursos_creados v4)) @
                 recordatorio\<rparr>)"
            by (simp add: desplegar_pasos_exito)
          with assms(1) have "recursos_creados w' =
              poner ''rds_instance'' db_instance_id (recursos_creados v4)"
            by auto
          with q4 show ?thesis
            by simp
        qed
      qed
    qed
  qed
qed

text \<open>
  C9. If any provider call of a run of \<^verbatim>\<open>main\<close> is interrupted from the keyboard, the
  interruption passes through the handlers of the step and of \<^verbatim>\<open>desplegar\<close> and is caught
  in \<^verbatim>\<open>main\<close>: the exit status is 1 and the only text of the run on the error stream is
  the notice that the deployment was cancelled, so no provisioning fault is reported.
  When the \<^verbatim>\<open>try\<close> block of \<^verbatim>\<open>main\<close> returns, the exit status is 0 and the four steps have
  all completed: \<^verbatim>\<open>recursos_creados\<close> holds their four entries.
  An interruption while the configuration file is read is caught in the same way, before any
  call to the provider.
\<close>

theorem main_interrupcion_y_exito:
  "(main prov env config_file w = (codigo, w') \<and> interrumpida (nuevas w w') \<longrightarrow>
      codigo = 1 \<and>
      en_stderr (drop (length (salida w)) (salida w')) =
        [[CHR 0x0A, CHR 0x0A] @ marca_aviso @ '' Despliegue cancelado por el usuario'']) \<and>
   (ejecutar prov env config_file w = (Inr (), v) \<longrightarrow>
      main prov env config_file w = (0, v) \<and>
      map fst (recursos_creados v) =
        [''security_group'', ''s3_bucket'', ''ec2_instance'', ''rds_instance'']) \<and>
   (ruta \<noteq> [] \<and> archivos env ruta = Some (Inl KeyboardInterrupt) \<longrightarrow>
      main prov env (Some ruta) w =
        (1, w\<lparr>salida := salida w @
           [(Stderr, [CHR 0x0A, CHR 0x0A] @ marca_aviso
              @ '' Despliegue cancelado por el usuario'')]\<rparr>))"
proof -
  have p1: "main prov env config_file w = (codigo, w') \<and> interrumpida (nuevas w w') \<longrightarrow>
      codigo = 1 \<and>
      en_stderr (drop (length (salida w)) (salida w')) =
        [[CHR 0x0A, CHR 0x0A] @ marca_aviso @ '' Despliegue cancelado por el usuario'']"
  proof
    assume a: "main prov env config_file w = (codigo, w') \<and> interrumpida (nuevas w w')"
    obtain r w1 where e: "ejecutar prov env config_file w = (r, w1)"
      by (cases "ejecutar prov env config_file w")
    from propagaD [OF propaga_ejecutar e] obtain t s where ts: "llamadas w1 = llamadas w @ t"
        "salida w1 = salida w @ s"
        "interrumpida t \<longrightarrow> r = Inl KeyboardInterrupt \<and> sin_stderr s"
      by blast
    from a e have "llamadas w' = llamadas w1"
      by (auto simp: main_def split: sum.splits excepcion.splits)
    with ts(1) a have "interrumpida t"
      by (simp add: nuevas_def)
    with ts(3) have r: "r = Inl KeyboardInterrupt" and q: "sin_stderr s"
      by simp_all
    from a e r have m: "codigo = 1" "w' = w1\<lparr>salida := salida w1 @
        [(Stderr, [CHR 0x0A, CHR 0x0A] @ marca_aviso @ '' Despliegue cancelado por el usuario'')]\<rparr>"
      by (simp_all add: main_def)
    from q have "en_stderr s = []"
      by (auto simp: en_stderr_def sin_stderr_def list_all_iff filter_empty_conv)
    with m(2) ts(2) have "en_stderr (drop (length (salida w)) (salida w')) =
          [[CHR 0x0A, CHR 0x0A] @ marca_aviso @ '' Despliegue cancelado por el usuario'']"
      by (simp add: en_stderr_def)
    with m(1) show "codigo = 1 \<and>
        en_stderr (drop (length (salida w)) (salida w')) =
          [[CHR 0x0A, CHR 0x0A] @ marca_aviso @ '' Despliegue cancelado por el usuario'']"
      by simp
  qed
  have p2: "ejecutar prov env config_file w = (Inr (), v) \<longrightarrow>
      main prov env config_file w = (0, v) \<and>
      map fst (recursos_creados v) =
        [''security_group'', ''s3_bucket'', ''ec2_instance'', ''rds_instance'']"
  proof
    assume a: "ejecutar prov env config_file w = (Inr (), v)"
    then have m: "main prov env config_file w = (0, v)"
      by (simp add: main_def)
    obtain r0 w0 where i: "init_DespliegueRH prov env config_file w = (r0, w0)"
      by (cases "init_DespliegueRH prov env config_file w")
    with a obtain cfg where cfg: "r0 = Inr cfg" and d: "desplegar prov env cfg w0 = (Inr (), v)"
      by (cases r0) (simp_all add: ejecutar_def ligar_def)
    from i cfg have "completa cfg"
      by (simp add: init_DespliegueRH_completa)
    then obtain region ambiente app where k: "cfg ''region'' = Some region"
        "cfg ''environment'' = Some ambiente" "cfg ''app_name'' = Some app"
      by (rule completa_claves)
    from d have "desplegar_pasos prov env cfg (inicio region ambiente app w0) = (Inr (), v)"
      unfolding desplegar_eq [OF k]
      by (auto split: prod.splits sum.splits if_splits)
    moreover have "recursos_creados (inicio region ambiente app w0) = []"
      by (simp add: inicio_def)
    ultimately have "map fst (recursos_creados v) =
          [''security_group'', ''s3_bucket'', ''ec2_instance'', ''rds_instance'']"
      by (rule desplegar_pasos_completo)
    with m show "main prov env config_file w = (0, v) \<and>
      map fst (recursos_creados v) =
        [''security_group'', ''s3_bucket'', ''ec2_instance'', ''rds_instance'']"
      by simp
  qed
  have p3: "ruta \<noteq> [] \<and> archivos env ruta = Some (Inl KeyboardInterrupt) \<longrightarrow>
      main prov env (Some ruta) w =
        (1, w\<lparr>salida := salida w @
           [(Stderr, [CHR 0x0A, CHR 0x0A] @ marca_aviso
              @ '' Despliegue cancelado por el usuario'')]\<rparr>)"
    by (simp add: main_def ejecutar_def init_DespliegueRH_def ligar_def
        cargar_configuracion_def lanzar_def)
  from p1 p2 p3 show ?thesis
    by (intro conjI) assumption+
qed

theorem main_interrupcion_y_exito_witness:
  "interrumpida (nuevas (guion [Inr RNada, Inr RNada, Inr RNada, Inr RNada, Inr (RGroupId ''sg-1''), Inr RNada,
        Inr RNada, Inr RNada, Inr RNada, Inr RNada, Inr RNada, Inr (RInstances [''i-1'']),
        Inl KeyboardInterrupt])
     (snd (main prov_guion entorno_ejemplo None
      (guion [Inr RNada, Inr RNada, Inr RNada, Inr RNada, Inr (RGroupId ''sg-1''), Inr RNada,
        Inr RNada, Inr RNada, Inr RNada, Inr RNada, Inr RNada, Inr (RInstances [''i-1'']),
        Inl KeyboardInterrupt])))) \<and>
   fst (main prov_guion entorno_ejemplo None
      (guion [Inr RNada, Inr RNada, Inr RNada, Inr RNada, Inr (RGroupId ''sg-1''), Inr RNada,
        Inr RNada, Inr RNada, Inr RNada, Inr RNada, Inr RNada, Inr (RInstances [''i-1'']),
        Inl KeyboardInterrupt])) = 1 \<and>
   en_stderr (drop (length (salida (guion [Inr RNada, Inr RNada, Inr RNada, Inr RNada, Inr (RGroupId ''sg-1''), Inr RNada,
        Inr RNada, Inr RNada, Inr RNada, Inr RNada, Inr RNada, Inr (RInstances [''i-1'']),
        Inl KeyboardInterrupt])))
     (salida (snd (main prov_guion entorno_ejemplo None
      (guion [Inr RNada, Inr RNada, Inr RNada, Inr RNada, Inr (RGroupId ''sg-1''), Inr RNada,
        Inr RNada, Inr RNada, Inr RNada, Inr RNada, Inr RNada, Inr (RInstances [''i-1'']),
        Inl KeyboardInterrupt]))))) =
     [[CHR 0x0A, CHR 0x0A] @ marca_aviso @ '' Despliegue cancelado por el usuario''] \<and>
   fst (ejecutar prov_guion entorno_ejemplo None
      (guion [Inr RNada, Inr RNada, Inr RNada, Inr RNada, Inr (RGroupId ''sg-1''), Inr RNada,
        Inr RNada, Inr RNada, Inr RNada, Inr RNada, Inr RNada, Inr (RInstances [''i-1''])])) = Inr () \<and>
   fst (main prov_guion entorno_ejemplo None
      (guion [Inr RNada, Inr RNada, Inr RNada, Inr RNada, Inr (RGroupId ''sg-1''), Inr RNada,
        Inr RNada, Inr RNada, Inr RNada, Inr RNada, Inr RNada, Inr (RInstances [''i-1''])])) = 0 \<and>
   map fst (recursos_creados (snd (ejecutar prov_guion entorno_ejemplo None
      (guion [Inr RNada, Inr RNada, Inr RNada, Inr RNada, Inr (RGroupId ''sg-1''), Inr RNada,
        Inr RNada, Inr RNada, Inr RNada, Inr RNada, Inr RNada, Inr (RInstances [''i-1''])])))) =
     [''security_group'', ''s3_bucket'', ''ec2_instance'', ''rds_instance''] \<and>
   ''config.json'' \<noteq> [] \<and>
   archivos (entorno_ejemplo\<lparr>archivos := [''config.json'' \<mapsto> Inl KeyboardInterrupt]\<rparr>)
     ''config.json'' = Some (Inl KeyboardInterrupt) \<and>
   main prov_guion (entorno_ejemplo\<lparr>archivos := [''config.json'' \<mapsto> Inl KeyboardInterrupt]\<rparr>)
     (Some ''config.json'') (guion []) =
     (1, \<lparr>nube = [], llamadas = [],
          salida = [(Stderr, [CHR 0x0A, CHR 0x0A] @ marca_aviso
                      @ '' Despliegue cancelado por el usuario'')],
          recursos_creados = []\<rparr>)"
proof -
  have i: "interrumpida (nuevas (guion [Inr RNada, Inr RNada, Inr RNada, Inr RNada, Inr (RGroupId ''sg-1''), Inr RNada,
        Inr RNada, Inr RNada, Inr RNada, Inr RNada, Inr RNada, Inr (RInstances [''i-1'']),
        Inl KeyboardInterrupt])
     (snd (main prov_guion entorno_ejemplo None
      (guion [Inr RNada, Inr RNada, Inr RNada, Inr RNada, Inr (RGroupId ''sg-1''), Inr RNada,
        Inr RNada, Inr RNada, Inr RNada, Inr RNada, Inr RNada, Inr (RInstances [''i-1'']),
        Inl KeyboardInterrupt]))))"
    by (simp add: evaluar main_def ejecutar_def init_DespliegueRH_def
        cargar_configuracion_def validar_variables_entorno_def falta_def
        variables_requeridas_def imprimir_recursos_def nuevas_def interrumpida_def)
  note t1 = main_interrupcion_y_exito [THEN conjunct1, THEN mp,
      OF conjI [OF prod.collapse [symmetric] i]]
  have k: "fst (ejecutar prov_guion entorno_ejemplo None
      (guion [Inr RNada, Inr RNada, Inr RNada, Inr RNada, Inr (RGroupId ''sg-1''), Inr RNada,
        Inr RNada, Inr RNada, Inr RNada, Inr RNada, Inr RNada, Inr (RInstances [''i-1''])])) = Inr ()"
    by (simp add: evaluar main_def ejecutar_def init_DespliegueRH_def
        cargar_configuracion_def validar_variables_entorno_def falta_def
        variables_requeridas_def imprimir_recursos_def nuevas_def interrumpida_def)
  have k': "ejecutar prov_guion entorno_ejemplo None
      (guion [Inr RNada, Inr RNada, Inr RNada, Inr RNada, Inr (RGroupId ''sg-1''), Inr RNada,
        Inr RNada, Inr RNada, Inr RNada, Inr RNada, Inr RNada, Inr (RInstances [''i-1''])]) =
      (Inr (), snd (ejecutar prov_guion entorno_ejemplo None
      (guion [Inr RNada, Inr RNada, Inr RNada, Inr RNada, Inr (RGroupId ''sg-1''), Inr RNada,
        Inr RNada, Inr RNada, Inr RNada, Inr RNada, Inr RNada, Inr (RInstances [''i-1''])])))"
    using k by (simp add: prod_eq_iff)
  note t2 = main_interrupcion_y_exito [THEN conjunct2, THEN conjunct1, THEN mp, OF k']
  from t1 have a1: "fst (main prov_guion entorno_ejemplo None
      (guion [Inr RNada, Inr RNada, Inr RNada, Inr RNada, Inr (RGroupId ''sg-1''), Inr RNada,
        Inr RNada, Inr RNada, Inr RNada, Inr RNada, Inr RNada, Inr (RInstances [''i-1'']),
        Inl KeyboardInterrupt])) = 1"
    by (rule conjunct1)
  from t1 have a2: "en_stderr (drop (length (salida (guion [Inr RNada, Inr RNada, Inr RNada, Inr RNada, Inr (RGroupId ''sg-1''), Inr RNada,
        Inr RNada, Inr RNada, Inr RNada, Inr RNada, Inr RNada, Inr (RInstances [''i-1'']),
        Inl KeyboardInterrupt])))
     (salida (snd (main prov_guion entorno_ejemplo None
      (guion [Inr RNada, Inr RNada, Inr RNada, Inr RNada, Inr (RGroupId ''sg-1''), Inr RNada,
        Inr RNada, Inr RNada, Inr RNada, Inr RNada, Inr RNada, Inr (RInstances [''i-1'']),
        Inl KeyboardInterrupt]))))) =
     [[CHR 0x0A, CHR 0x0A] @ marca_aviso @ '' Despliegue cancelado por el usuario'']"
    by (rule conjunct2)
  from t2 have b1: "fst (main prov_guion entorno_ejemplo None
      (guion [Inr RNada, Inr RNada, Inr RNada, Inr RNada, Inr (RGroupId ''sg-1''), Inr RNada,
        Inr RNada, Inr RNada, Inr RNada, Inr RNada, Inr RNada, Inr (RInstances [''i-1''])])) = 0"
    by simp
  from t2 have b2: "map fst (recursos_creados (snd (ejecutar prov_guion entorno_ejemplo None
      (guion [Inr RNada, Inr RNada, Inr RNada, Inr RNada, Inr (RGroupId ''sg-1''), Inr RNada,
        Inr RNada, Inr RNada, Inr RNada, Inr RNada, Inr RNada, Inr (RInstances [''i-1''])])))) =
     [''security_group'', ''s3_bucket'', ''ec2_instance'', ''rds_instance'']"
    by (rule conjunct2)
  have c1: "''config.json'' \<noteq> []"
    by simp
  have c2: "archivos (entorno_ejemplo\<lparr>archivos := [''config.json'' \<mapsto> Inl KeyboardInterrupt]\<rparr>)
     ''config.json'' = Some (Inl KeyboardInterrupt)"
    by simp
  from main_interrupcion_y_exito [THEN conjunct2, THEN conjunct2, THEN mp, OF conjI [OF c1 c2],
      of prov_guion "guion []"]
  have c3: "main prov_guion (entorno_ejemplo\<lparr>archivos := [''config.json'' \<mapsto> Inl KeyboardInterrupt]\<rparr>)
     (Some ''config.json'') (guion []) =
     (1, \<lparr>nube = [], llamadas = [],
          salida = [(Stderr, [CHR 0x0A, CHR 0x0A] @ marca_aviso
                      @ '' Despliegue cancelado por el usuario'')],
          recursos_creados = []\<rparr>)"
    by (simp add: guion_def mundo_inicial_def)
  from i a1 a2 k b1 b2 c1 c2 c3 show ?thesis
    by (intro conjI) assumption+
qed

end
